theory Spec2Isabelle
  imports Complex_Main "HOL-Library.Monad_Syntax"
begin

section \<open>Numbers and configuration\<close>

text \<open>
  The program computes with JavaScript numbers, which are IEEE 754 binary64, and keeps the
  positions of the particles in a \<open>Float32Array\<close>, whose cells are binary32. The source is read
  in two ways. In the exact reading a number is a \<open>real\<close> and every operation is exact: it says
  what the expressions of the source denote. In the rounded reading, the definitions whose
  names end in \<open>_fp\<close>, the result of every operation is rounded to binary64 and every store into
  the position buffer to binary32, as the program does. The gesture pipeline and the scene are
  read exactly. \<open>null\<close> is \<open>None\<close>.
\<close>

definition EXPLOSION_SPEED :: real where
  "EXPLOSION_SPEED = 0.20"

definition RETURN_SPEED :: real where
  "RETURN_SPEED = 0.12"

section \<open>Gesture classification (HandTracker)\<close>

text \<open>A landmark as \<open>getDistance\<close> reads it: an object with the number fields \<open>x\<close> and \<open>y\<close>.\<close>

record landmark =
  lm_x :: real
  lm_y :: real

text \<open>\<open>Math.hypot\<close> of two arguments.\<close>

definition hypot :: "real \<Rightarrow> real \<Rightarrow> real" where
  "hypot a b = sqrt (a\<^sup>2 + b\<^sup>2)"

definition getDistance :: "landmark \<Rightarrow> landmark \<Rightarrow> real" where
  "getDistance p1 p2 = hypot (lm_x p1 - lm_x p2) (lm_y p1 - lm_y p2)"

text \<open>
  Indexing an array: out of range JavaScript yields \<open>undefined\<close>, and reading a field of
  \<open>undefined\<close> raises a TypeError. \<open>None\<close> stands for that exception.
\<close>

definition js_index :: "'a list \<Rightarrow> nat \<Rightarrow> 'a option" where
  "js_index xs i = (if i < length xs then Some (xs ! i) else None)"

definition isFingerExtended :: "landmark list \<Rightarrow> nat \<Rightarrow> nat \<Rightarrow> bool option" where
  "isFingerExtended landmarks tipIdx pipIdx = do {
     w \<leftarrow> js_index landmarks 0;
     t \<leftarrow> js_index landmarks tipIdx;
     p \<leftarrow> js_index landmarks pipIdx;
     Some (getDistance w t > getDistance w p)
   }"

text \<open>The rotation expression of \<open>predict\<close>, as a function of the wrist's \<open>x\<close>.\<close>

definition rotationHint :: "real \<Rightarrow> real" where
  "rotationHint wrist_x = (0.5 - wrist_x) * 5"

text \<open>The state \<open>App\<close> holds and \<open>onUpdateInteraction\<close> replaces.\<close>

record interaction_state =
  factor :: real
  rotation :: "real option"

definition initial_interaction :: interaction_state where
  "initial_interaction = \<lparr>factor = 0, rotation = None\<rparr>"

text \<open>
  What one call of \<open>predict\<close> meets: whether the video, the landmarker and the canvas are
  there with \<open>readyState >= 2\<close>; whether the video has non-zero dimensions; what
  \<open>detectForVideo\<close> does (it throws, or it returns a result whose \<open>landmarks\<close> field is absent
  or a list of hands); and whether \<open>getContext('2d')\<close> returns a context.
\<close>

datatype detection = DetectThrows | DetectResult "landmark list list option"

record frame_env =
  video_ready :: bool
  video_sized :: bool
  detect :: detection
  ctx_present :: bool

record tracker =
  interactionState :: interaction_state
  gestureText :: string
  frames_requested :: nat

definition initial_tracker :: tracker where
  "initial_tracker =
     \<lparr>interactionState = initial_interaction, gestureText = ''Waiting...'', frames_requested = 0\<rparr>"

text \<open>
  The branch of \<open>predict\<close> for a detected hand; \<open>None\<close> is an exception raised on the way.
  \<open>drawSkeleton\<close>, called after the state is published, reads the landmarks 0 to 20, which are
  there once the test on index 20 has passed.
\<close>

definition hand_branch :: "landmark list \<Rightarrow> tracker \<Rightarrow> tracker option" where
  "hand_branch hand t = do {
     e1 \<leftarrow> isFingerExtended hand 8 6;
     e2 \<leftarrow> isFingerExtended hand 12 10;
     e3 \<leftarrow> isFingerExtended hand 16 14;
     e4 \<leftarrow> isFingerExtended hand 20 18;
     let extendedFingers = length (filter id [e1, e2, e3, e4]);
     e5 \<leftarrow> isFingerExtended hand 4 2;
     let totalExtended = extendedFingers + (if e5 then 1 else 0);
     let targetFactor = (if totalExtended \<ge> 4 then 1 else 0);
     let text = (if totalExtended \<ge> 4 then ''Open Palm (Explode)'' else ''Fist (Rotate)'');
     w \<leftarrow> js_index hand 0;
     let rot = rotationHint (lm_x w);
     Some (t\<lparr>interactionState := \<lparr>factor = targetFactor, rotation = Some rot\<rparr>,
             gestureText := text\<rparr>)
   }"

text \<open>The body of the \<open>try\<close> block; \<open>None\<close> is an exception, which the \<open>catch\<close> receives.\<close>

definition try_block :: "frame_env \<Rightarrow> tracker \<Rightarrow> tracker option" where
  "try_block env t =
     (case detect env of
        DetectThrows \<Rightarrow> None
      | DetectResult lms \<Rightarrow>
          (case lms of
             Some (hand # others) \<Rightarrow>
               (if ctx_present env then hand_branch hand t
                else Some t)
           | _ \<Rightarrow>
               (if ctx_present env
                then Some (t\<lparr>interactionState := \<lparr>factor = 0, rotation = None\<rparr>,
                             gestureText := ''No Hand Detected''\<rparr>)
                else Some t)))"

definition predict :: "frame_env \<Rightarrow> tracker \<Rightarrow> tracker" where
  "predict env t =
     (let t' = (if video_ready env then
                  (if video_sized env then
                     (case try_block env t of None \<Rightarrow> t | Some t2 \<Rightarrow> t2)
                   else t)
                else t)
      in t'\<lparr>frames_requested := frames_requested t' + 1\<rparr>)"

text \<open>The prediction loop over the inference cycles of a session, oldest first.\<close>

definition run_cycles :: "frame_env list \<Rightarrow> tracker \<Rightarrow> tracker" where
  "run_cycles envs t = foldl (\<lambda>s env. predict env s) t envs"

text \<open>
  A cycle completes when \<open>predict\<close> reaches one of its two calls of \<open>onUpdateInteraction\<close>:
  the guards hold, \<open>detectForVideo\<close> returns, the drawing context is there, and a detected hand
  has the landmarks the finger tests index (index 20 is the largest).
\<close>

definition hand_of :: "frame_env \<Rightarrow> landmark list option" where
  "hand_of env =
     (case detect env of
        DetectResult (Some (hand # others)) \<Rightarrow> Some hand
      | _ \<Rightarrow> None)"

definition cycle_runs :: "frame_env \<Rightarrow> bool" where
  "cycle_runs env \<longleftrightarrow>
     video_ready env \<and> video_sized env \<and> ctx_present env \<and> detect env \<noteq> DetectThrows"

definition cycle_completes :: "frame_env \<Rightarrow> bool" where
  "cycle_completes env \<longleftrightarrow>
     cycle_runs env \<and> (case hand_of env of None \<Rightarrow> True | Some hand \<Rightarrow> 21 \<le> length hand)"

text \<open>The five (tip, proximal joint) index pairs of the finger tests.\<close>

definition finger_pairs :: "(nat \<times> nat) list" where
  "finger_pairs = [(8, 6), (12, 10), (16, 14), (20, 18), (4, 2)]"

text \<open>The number of pairs whose tip is farther from the wrist (landmark 0) than the joint.\<close>

definition extended_count :: "landmark list \<Rightarrow> nat" where
  "extended_count hand =
     length (filter (\<lambda>(tip, pip). getDistance (hand ! 0) (hand ! tip) > getDistance (hand ! 0) (hand ! pip))
               finger_pairs)"

section \<open>Formation interpolation of the particle cloud (TreeParticles)\<close>

text \<open>
  The three position buffers are flat arrays, three cells for an entity. \<open>currentPositions\<close> is a
  typed array: a write out of range is dropped, which is what \<open>xs[i := v]\<close> does. A read out of
  range yields \<open>undefined\<close> and the arithmetic on it \<open>NaN\<close>, which \<open>real\<close> does not have: the
  theorems take the three buffers with one length, as \<open>useMemo\<close> allocates them, and there a
  read out of range feeds a dropped write only.
\<close>

definition particle_speed :: "real \<Rightarrow> real" where
  "particle_speed targetFactor = (if targetFactor > 0.1 then EXPLOSION_SPEED else RETURN_SPEED)"

definition particle_body ::
  "real list \<Rightarrow> real list \<Rightarrow> real \<Rightarrow> real \<Rightarrow> nat \<Rightarrow> real list \<Rightarrow> real list" where
  "particle_body initialPositions explodedPositions targetFactor speed i currentPositions =
     (let ix = i * 3; iy = i * 3 + 1; iz = i * 3 + 2;
          tx = initialPositions ! ix + (explodedPositions ! ix - initialPositions ! ix) * targetFactor;
          ty = initialPositions ! iy + (explodedPositions ! iy - initialPositions ! iy) * targetFactor;
          tz = initialPositions ! iz + (explodedPositions ! iz - initialPositions ! iz) * targetFactor;
          c1 = currentPositions[ix := currentPositions ! ix + (tx - currentPositions ! ix) * speed];
          c2 = c1[iy := c1 ! iy + (ty - c1 ! iy) * speed];
          c3 = c2[iz := c2 ! iz + (tz - c2 ! iz) * speed]
      in c3)"

function particle_loop ::
  "real list \<Rightarrow> real list \<Rightarrow> real \<Rightarrow> real \<Rightarrow> nat \<Rightarrow> real list \<Rightarrow> real list" where
  "particle_loop initialPositions explodedPositions targetFactor speed i currentPositions =
     (if real i < real (length currentPositions) / 3
      then particle_loop initialPositions explodedPositions targetFactor speed (i + 1)
             (particle_body initialPositions explodedPositions targetFactor speed i currentPositions)
      else currentPositions)"
  by pat_completeness auto
termination
  by (relation "measure (\<lambda>(ini, ex, f, s, i, cur). length cur - 3 * i)")
     (auto simp: particle_body_def Let_def)

declare particle_loop.simps [simp del]

text \<open>The frame callback; the first argument is whether \<open>meshRef.current\<close> is set.\<close>

definition TreeParticles_useFrame ::
  "bool \<Rightarrow> real list \<Rightarrow> real list \<Rightarrow> real \<Rightarrow> real list \<Rightarrow> real list" where
  "TreeParticles_useFrame mesh initialPositions explodedPositions targetFactor currentPositions =
     (if \<not> mesh then currentPositions
      else particle_loop initialPositions explodedPositions targetFactor
             (particle_speed targetFactor) 0 currentPositions)"

text \<open>Render frames with the mesh mounted, one for each published factor of the list.\<close>

definition particle_frames :: "real list \<Rightarrow> real list \<Rightarrow> real list \<Rightarrow> real list \<Rightarrow> real list" where
  "particle_frames initialPositions explodedPositions factors currentPositions =
     foldl (\<lambda>cur f. TreeParticles_useFrame True initialPositions explodedPositions f cur)
       currentPositions factors"

text \<open>The position of entity \<open>i\<close> in a flat buffer, and the Euclidean distance of two of them.\<close>

type_synonym vec3 = "real \<times> real \<times> real"

definition entity_pos :: "real list \<Rightarrow> nat \<Rightarrow> vec3" where
  "entity_pos buf i = (buf ! (i * 3), buf ! (i * 3 + 1), buf ! (i * 3 + 2))"

fun vec_dist :: "vec3 \<Rightarrow> vec3 \<Rightarrow> real" where
  "vec_dist (ax, ay, az) (bx, by, bz) = sqrt ((ax - bx)\<^sup>2 + (ay - by)\<^sup>2 + (az - bz)\<^sup>2)"

text \<open>
  Entity \<open>i\<close> is within \<open>eps\<close> of \<open>goal\<close> after \<open>n\<close> frames at the constant factor \<open>f\<close>, and \<open>n\<close>
  is the number of frames needed for that: no smaller number of frames does.
\<close>

definition within_after ::
  "real list \<Rightarrow> real list \<Rightarrow> real \<Rightarrow> real list \<Rightarrow> vec3 \<Rightarrow> nat \<Rightarrow> real \<Rightarrow> nat \<Rightarrow> bool" where
  "within_after ini ex f start goal i eps n \<longleftrightarrow>
     vec_dist (entity_pos (particle_frames ini ex (replicate n f) start) i) goal < eps"

definition frames_needed ::
  "real list \<Rightarrow> real list \<Rightarrow> real \<Rightarrow> real list \<Rightarrow> vec3 \<Rightarrow> nat \<Rightarrow> real \<Rightarrow> nat \<Rightarrow> bool" where
  "frames_needed ini ex f start goal i eps n \<longleftrightarrow>
     within_after ini ex f start goal i eps n \<and>
     list_all (\<lambda>m. \<not> within_after ini ex f start goal i eps m) [0..<n]"

text \<open>
  The distance of entity \<open>i\<close> from its exploded position after \<open>n\<close> frames at the constant
  factor 1, starting in the rest formation.
\<close>

definition explode_dist :: "real list \<Rightarrow> real list \<Rightarrow> nat \<Rightarrow> nat \<Rightarrow> real" where
  "explode_dist ini ex i n =
     vec_dist (entity_pos (particle_frames ini ex (replicate n 1) ini) i) (entity_pos ex i)"

section \<open>Formation interpolation of the decorations (ComplexDecorationSystem)\<close>

text \<open>\<open>Vector3.lerpVectors\<close> of three.js: each component is \<open>v1 + (v2 - v1) * alpha\<close>.\<close>

fun lerpVectors :: "vec3 \<Rightarrow> vec3 \<Rightarrow> real \<Rightarrow> vec3" where
  "lerpVectors (x1, y1, z1) (x2, y2, z2) alpha =
     (x1 + (x2 - x1) * alpha, y1 + (y2 - y1) * alpha, z1 + (z2 - z1) * alpha)"

record deco_item =
  startPos :: vec3
  endPos :: vec3
  rot :: vec3

record deco_child =
  position :: vec3
  euler :: vec3

record deco_state =
  curF :: real
  children :: "deco_child list"

text \<open>
  The frame callback: whether \<open>groupRef.current\<close> is set, the items, the published factor
  and the clock's elapsed time. The group has one child for each item, in the items' order.
\<close>

definition Deco_useFrame ::
  "bool \<Rightarrow> deco_item list \<Rightarrow> real \<Rightarrow> real \<Rightarrow> deco_state \<Rightarrow> deco_state" where
  "Deco_useFrame grp items targetFactor elapsedTime st =
     (if \<not> grp then st
      else
        (let c = curF st + (targetFactor - curF st)
                   * (if targetFactor > 0.1 then EXPLOSION_SPEED else RETURN_SPEED)
         in \<lparr>curF = c,
             children =
               map (\<lambda>(child, it).
                      child\<lparr>position := lerpVectors (startPos it) (endPos it) c,
                            euler := (fst (rot it) + elapsedTime,
                                      fst (snd (rot it)) + elapsedTime,
                                      snd (snd (rot it)))\<rparr>)
                 (zip (children st) items)\<rparr>))"

text \<open>Render frames with the group mounted: a published factor and a clock reading for each.\<close>

definition deco_frames :: "deco_item list \<Rightarrow> (real \<times> real) list \<Rightarrow> deco_state \<Rightarrow> deco_state" where
  "deco_frames items frames st =
     foldl (\<lambda>s (f, time). Deco_useFrame True items f time s) st frames"

text \<open>The particle buffers that hold the same two formations as a list of items.\<close>

definition flat :: "vec3 list \<Rightarrow> real list" where
  "flat vs = concat (map (\<lambda>(x, y, z). [x, y, z]) vs)"

text \<open>
  The value of \<open>curF\<close> after frames with the given factors: the recurrence of the callback's
  first statement, from the start value \<open>c\<close>.
\<close>

definition blend_after :: "real list \<Rightarrow> real \<Rightarrow> real" where
  "blend_after factors c =
     foldl (\<lambda>c f. c + (f - c) * (if f > 0.1 then EXPLOSION_SPEED else RETURN_SPEED)) c factors"

section \<open>Scene composition (Scene)\<close>

text \<open>\<open>MathUtils.lerp\<close> of three.js.\<close>

definition lerp :: "real \<Rightarrow> real \<Rightarrow> real \<Rightarrow> real" where
  "lerp x y t = (1 - t) * x + t * y"

text \<open>
  The frame callback on the pivot's yaw: whether \<open>groupRef.current\<close> is set, the published
  rotation and the frame's \<open>delta\<close>.
\<close>

definition Scene_useFrame :: "bool \<Rightarrow> real option \<Rightarrow> real \<Rightarrow> real \<Rightarrow> real" where
  "Scene_useFrame grp treeRotation delta yaw =
     (if \<not> grp then yaw
      else (case treeRotation of
              Some r \<Rightarrow> lerp yaw r 0.1
            | None \<Rightarrow> yaw + delta * 0.2))"

text \<open>The \<open>enableRotate\<close> property handed to the orbit controls.\<close>

definition enableRotate :: "real option \<Rightarrow> bool" where
  "enableRotate treeRotation \<longleftrightarrow> treeRotation = None"

section \<open>Binary floating point\<close>

text \<open>
  Rounding to the nearest integer, ties to the even one, and rounding of a real to the nearest
  number with \<open>p\<close> significant bits, ties to the even significand: for \<open>x\<close> between \<open>2 ^ e\<close> and
  \<open>2 ^ (e + 1)\<close> the numbers with \<open>p\<close> bits are the multiples of \<open>2 ^ (e - p + 1)\<close>. binary64 has
  53 significant bits and binary32 has 24. The exponent is not bounded: overflow and gradual
  underflow, which need magnitudes above \<open>2 ^ 127\<close> or below \<open>2 ^ - 126\<close>, are left out.
\<close>

definition rne :: "real \<Rightarrow> int" where
  "rne x =
     (let f = \<lfloor>x\<rfloor>; r = x - of_int f
      in if r < 1 / 2 then f else if 1 / 2 < r then f + 1 else if even f then f else f + 1)"

definition round_bits :: "nat \<Rightarrow> real \<Rightarrow> real" where
  "round_bits p x =
     (if x = 0 then 0
      else (let e = \<lfloor>log 2 \<bar>x\<bar>\<rfloor>; u = 2 powi (e - int p + 1)
            in of_int (rne (x / u)) * u))"

definition d64 :: "real \<Rightarrow> real" where
  "d64 = round_bits 53"

definition f32 :: "real \<Rightarrow> real" where
  "f32 = round_bits 24"


subsection \<open>The particle loop with the program's rounding\<close>

text \<open>
  The literals \<open>0.20\<close>, \<open>0.12\<close> and \<open>0.1\<close> are the binary64 numbers nearest to them. A cell read from
  a buffer is a binary64 number without rounding; subtraction, multiplication and addition
  round to binary64; the assignment to the cell of \<open>currentPositions\<close> rounds to binary32.
\<close>

definition particle_speed_fp :: "real \<Rightarrow> real" where
  "particle_speed_fp targetFactor =
     (if targetFactor > d64 0.1 then d64 EXPLOSION_SPEED else d64 RETURN_SPEED)"

definition particle_body_fp ::
  "real list \<Rightarrow> real list \<Rightarrow> real \<Rightarrow> real \<Rightarrow> nat \<Rightarrow> real list \<Rightarrow> real list" where
  "particle_body_fp initialPositions explodedPositions targetFactor speed i currentPositions =
     (let ix = i * 3; iy = i * 3 + 1; iz = i * 3 + 2;
          tx = d64 (initialPositions ! ix
                 + d64 (d64 (explodedPositions ! ix - initialPositions ! ix) * targetFactor));
          ty = d64 (initialPositions ! iy
                 + d64 (d64 (explodedPositions ! iy - initialPositions ! iy) * targetFactor));
          tz = d64 (initialPositions ! iz
                 + d64 (d64 (explodedPositions ! iz - initialPositions ! iz) * targetFactor));
          c1 = currentPositions
                 [ix := f32 (d64 (currentPositions ! ix + d64 (d64 (tx - currentPositions ! ix) * speed)))];
          c2 = c1[iy := f32 (d64 (c1 ! iy + d64 (d64 (ty - c1 ! iy) * speed)))];
          c3 = c2[iz := f32 (d64 (c2 ! iz + d64 (d64 (tz - c2 ! iz) * speed)))]
      in c3)"

function particle_loop_fp ::
  "real list \<Rightarrow> real list \<Rightarrow> real \<Rightarrow> real \<Rightarrow> nat \<Rightarrow> real list \<Rightarrow> real list" where
  "particle_loop_fp initialPositions explodedPositions targetFactor speed i currentPositions =
     (if real i < real (length currentPositions) / 3
      then particle_loop_fp initialPositions explodedPositions targetFactor speed (i + 1)
             (particle_body_fp initialPositions explodedPositions targetFactor speed i currentPositions)
      else currentPositions)"
  by pat_completeness auto
termination
  by (relation "measure (\<lambda>(ini, ex, f, s, i, cur). length cur - 3 * i)")
     (auto simp: particle_body_fp_def Let_def)

declare particle_loop_fp.simps [simp del]

definition TreeParticles_useFrame_fp ::
  "bool \<Rightarrow> real list \<Rightarrow> real list \<Rightarrow> real \<Rightarrow> real list \<Rightarrow> real list" where
  "TreeParticles_useFrame_fp mesh initialPositions explodedPositions targetFactor currentPositions =
     (if \<not> mesh then currentPositions
      else particle_loop_fp initialPositions explodedPositions targetFactor
             (particle_speed_fp targetFactor) 0 currentPositions)"

definition particle_frames_fp :: "real list \<Rightarrow> real list \<Rightarrow> real list \<Rightarrow> real list \<Rightarrow> real list" where
  "particle_frames_fp initialPositions explodedPositions factors currentPositions =
     foldl (\<lambda>cur f. TreeParticles_useFrame_fp True initialPositions explodedPositions f cur)
       currentPositions factors"

text \<open>What \<open>particle_body_fp\<close> stores in one cell, as a function of the five numbers it reads.\<close>

definition cell_fp :: "real \<Rightarrow> real \<Rightarrow> real \<Rightarrow> real \<Rightarrow> real \<Rightarrow> real" where
  "cell_fp rest exploded targetFactor speed current =
     f32 (d64 (current
            + d64 (d64 (d64 (rest + d64 (d64 (exploded - rest) * targetFactor)) - current) * speed)))"

definition explode_dist_fp :: "real list \<Rightarrow> real list \<Rightarrow> nat \<Rightarrow> nat \<Rightarrow> real" where
  "explode_dist_fp ini ex i n =
     vec_dist (entity_pos (particle_frames_fp ini ex (replicate n 1) ini) i) (entity_pos ex i)"



subsection \<open>The decoration callback with the program's rounding\<close>

text \<open>
  The components of a \<open>Vector3\<close> and \<open>curF\<close> are JavaScript numbers: every operation rounds to
  binary64 and nothing is stored in binary32. \<open>lerp_fp\<close> is one component of \<open>lerpVectors\<close>.
\<close>

definition lerp_fp :: "real \<Rightarrow> real \<Rightarrow> real \<Rightarrow> real" where
  "lerp_fp v1 v2 alpha = d64 (v1 + d64 (d64 (v2 - v1) * alpha))"

fun lerpVectors_fp :: "vec3 \<Rightarrow> vec3 \<Rightarrow> real \<Rightarrow> vec3" where
  "lerpVectors_fp (x1, y1, z1) (x2, y2, z2) alpha =
     (lerp_fp x1 x2 alpha, lerp_fp y1 y2 alpha, lerp_fp z1 z2 alpha)"

text \<open>The new value of \<open>curF\<close>, as a function of the old one, the factor and the speed.\<close>

definition blend_fp :: "real \<Rightarrow> real \<Rightarrow> real \<Rightarrow> real" where
  "blend_fp c targetFactor speed = d64 (c + d64 (d64 (targetFactor - c) * speed))"

definition Deco_useFrame_fp ::
  "bool \<Rightarrow> deco_item list \<Rightarrow> real \<Rightarrow> real \<Rightarrow> deco_state \<Rightarrow> deco_state" where
  "Deco_useFrame_fp grp items targetFactor elapsedTime st =
     (if \<not> grp then st
      else
        (let c = d64 (curF st + d64 (d64 (targetFactor - curF st)
                   * (if targetFactor > d64 0.1 then d64 EXPLOSION_SPEED else d64 RETURN_SPEED)))
         in \<lparr>curF = c,
             children =
               map (\<lambda>(child, it).
                      child\<lparr>position := lerpVectors_fp (startPos it) (endPos it) c,
                            euler := (d64 (fst (rot it) + elapsedTime),
                                      d64 (fst (snd (rot it)) + elapsedTime),
                                      snd (snd (rot it)))\<rparr>)
                 (zip (children st) items)\<rparr>))"

definition deco_frames_fp :: "deco_item list \<Rightarrow> (real \<times> real) list \<Rightarrow> deco_state \<Rightarrow> deco_state" where
  "deco_frames_fp items frames st =
     foldl (\<lambda>s (f, time). Deco_useFrame_fp True items f time s) st frames"

section \<open>Example inputs\<close>

text \<open>
  An open hand (every landmark \<open>k\<close> at distance \<open>k / 100\<close> from the wrist), a fist (landmark
  \<open>k > 0\<close> at distance \<open>(21 - k) / 100\<close>), and a cycle in which every guard of \<open>predict\<close> holds.
\<close>

definition example_open_hand :: "landmark list" where
  "example_open_hand = map (\<lambda>k. \<lparr>lm_x = 0.5, lm_y = 0.9 - real k / 100\<rparr>) [0..<21]"

definition example_fist_hand :: "landmark list" where
  "example_fist_hand =
     map (\<lambda>k. \<lparr>lm_x = 0.3, lm_y = (if k = 0 then 0.9 else 0.9 - real (21 - k) / 100)\<rparr>) [0..<21]"

definition example_env :: "detection \<Rightarrow> frame_env" where
  "example_env d = \<lparr>video_ready = True, video_sized = True, detect = d, ctx_present = True\<rparr>"


text \<open>One decoration, not yet placed by a frame.\<close>

definition example_item :: deco_item where
  "example_item = \<lparr>startPos = (0, 0, 0), endPos = (10, 20, 30), rot = (0, 0, 0)\<rparr>"

definition example_deco :: deco_state where
  "example_deco = \<lparr>curF = 0, children = [\<lparr>position = (0, 0, 0), euler = (0, 0, 0)\<rparr>]\<rparr>"

section \<open>Properties of the gesture pipeline\<close>


lemma js_index_in_range: "i < length xs \<Longrightarrow> js_index xs i = Some (xs ! i)"
  by (simp add: js_index_def)

lemma isFingerExtended_21:
  assumes "21 \<le> length hand" "tip \<le> 20" "pip \<le> 20"
  shows "isFingerExtended hand tip pip =
           Some (getDistance (hand ! 0) (hand ! tip) > getDistance (hand ! 0) (hand ! pip))"
  using assms by (auto simp: isFingerExtended_def js_index_def)

lemma hand_branch_21:
  assumes "21 \<le> length hand"
  shows "hand_branch hand t =
           Some (t\<lparr>interactionState :=
                     \<lparr>factor = (if 4 \<le> extended_count hand then 1 else 0),
                      rotation = Some (rotationHint (lm_x (hand ! 0)))\<rparr>,
                   gestureText := (if 4 \<le> extended_count hand
                                   then ''Open Palm (Explode)'' else ''Fist (Rotate)'')\<rparr>)"
proof -
  have len0: "0 < length hand" using assms by linarith
  show ?thesis
    unfolding hand_branch_def
    by (simp add: isFingerExtended_21 [OF assms] js_index_in_range [OF len0]
        extended_count_def finger_pairs_def Let_def)
qed

lemma predict_hand:
  assumes "cycle_runs env" "detect env = DetectResult (Some (hand # others))" "21 \<le> length hand"
  shows "predict env t =
           t\<lparr>interactionState :=
                     \<lparr>factor = (if 4 \<le> extended_count hand then 1 else 0),
                      rotation = Some (rotationHint (lm_x (hand ! 0)))\<rparr>,
                   gestureText := (if 4 \<le> extended_count hand
                                   then ''Open Palm (Explode)'' else ''Fist (Rotate)''),
             frames_requested := frames_requested t + 1\<rparr>"
  using assms(1,2) by (simp add: predict_def try_block_def cycle_runs_def hand_branch_21 [OF assms(3)] Let_def)


lemma predict_no_hand:
  assumes "cycle_runs env" "hand_of env = None"
  shows "predict env t =
           t\<lparr>interactionState := \<lparr>factor = 0, rotation = None\<rparr>,
             gestureText := ''No Hand Detected'',
             frames_requested := frames_requested t + 1\<rparr>"
  using assms
  by (auto simp: predict_def try_block_def cycle_runs_def hand_of_def Let_def
           split: detection.splits option.splits list.splits)

lemma predict_throws:
  assumes "detect env = DetectThrows"
  shows "predict env t = t\<lparr>frames_requested := frames_requested t + 1\<rparr>"
  using assms by (simp add: predict_def try_block_def Let_def)

lemma hand_branch_short:
  assumes "length hand < 21"
  shows "hand_branch hand t = None"
  using assms
  by (auto simp: hand_branch_def isFingerExtended_def js_index_def Let_def split: Option.bind_splits if_splits)


lemma example_open_count: "extended_count example_open_hand = 5"
  by (simp add: extended_count_def finger_pairs_def example_open_hand_def getDistance_def hypot_def
      power2_eq_square)

lemma example_fist_count: "extended_count example_fist_hand = 0"
  by (simp add: extended_count_def finger_pairs_def example_fist_hand_def getDistance_def hypot_def
      power2_eq_square)

lemma example_lengths: "length example_open_hand = 21" "length example_fist_hand = 21"
  by (simp_all add: example_open_hand_def example_fist_hand_def)

lemma example_runs: "cycle_runs (example_env (DetectResult r))"
  by (simp add: cycle_runs_def example_env_def)

lemma example_fist_wrist: "lm_x (example_fist_hand ! 0) = 0.3"
  by (simp add: example_fist_hand_def)

lemma example_detect: "detect (example_env d) = d"
  by (simp add: example_env_def)







text \<open>
  Claim C3. In a cycle that runs with a detected hand of 21 landmarks, whatever its gesture,
  the published rotation is \<open>(0.5 - x) * 5\<close> for the wrist's \<open>x\<close>. On \<open>[0, 1]\<close> that function is
  continuous and strictly decreasing, with the values 0 at 0.5, 2.5 at 0 and -2.5 at 1.
\<close>

theorem rotation_hint_published:
  assumes "cycle_runs env"
    and "detect env = DetectResult (Some (hand # others))"
    and "length hand = 21"
  shows "rotation (interactionState (predict env t)) = Some ((0.5 - lm_x (hand ! 0)) * 5)
       \<and> rotationHint (lm_x (hand ! 0)) = (0.5 - lm_x (hand ! 0)) * 5
       \<and> continuous_on {0..1} rotationHint
       \<and> (\<forall>x \<in> {0..1}. \<forall>y \<in> {0..1}. x < y \<longrightarrow> rotationHint y < rotationHint x)
       \<and> rotationHint 0.5 = 0 \<and> rotationHint 0 = 2.5 \<and> rotationHint 1 = - 2.5"
proof -
  have len: "21 \<le> length hand" using assms(3) by simp
  have "rotation (interactionState (predict env t)) = Some ((0.5 - lm_x (hand ! 0)) * 5)"
    by (simp add: predict_hand [OF assms(1,2) len] rotationHint_def)
  moreover have "continuous_on {0..1} rotationHint"
    unfolding rotationHint_def by (intro continuous_intros)
  moreover have "\<forall>x \<in> {0..1}. \<forall>y \<in> {0..1}. x < y \<longrightarrow> rotationHint y < rotationHint x"
    by (simp add: rotationHint_def)
  ultimately show ?thesis by (simp add: rotationHint_def)
qed

theorem rotation_hint_published_witness:
  "cycle_runs (example_env (DetectResult (Some [example_fist_hand])))
   \<and> length example_fist_hand = 21
   \<and> factor (interactionState
        (predict (example_env (DetectResult (Some [example_fist_hand]))) initial_tracker)) = 0
   \<and> rotation (interactionState
        (predict (example_env (DetectResult (Some [example_fist_hand]))) initial_tracker)) = Some 1
   \<and> (0::real) \<in> {0..1} \<and> (1::real) \<in> {0..1} \<and> rotationHint 1 < rotationHint 0"
  using rotation_hint_published [of "example_env (DetectResult (Some [example_fist_hand]))"
      example_fist_hand "[]" initial_tracker]
    predict_hand [of "example_env (DetectResult (Some [example_fist_hand]))"
      example_fist_hand "[]" initial_tracker]
  by (simp add: example_runs example_detect example_lengths example_fist_count
      example_fist_wrist rotationHint_def)


text \<open>
  Claim C4. A cycle that runs and detects no hand publishes factor 0 and rotation null,
  whatever the state before it.
\<close>

theorem no_hand_sentinel:
  assumes "cycle_runs env" and "hand_of env = None"
  shows "interactionState (predict env t) = \<lparr>factor = 0, rotation = None\<rparr>"
  by (simp add: predict_no_hand [OF assms])

theorem no_hand_sentinel_witness:
  "cycle_runs (example_env (DetectResult (Some [])))
   \<and> hand_of (example_env (DetectResult (Some []))) = None
   \<and> interactionState
        (predict (example_env (DetectResult (Some [])))
           \<lparr>interactionState = \<lparr>factor = 1, rotation = Some 2\<rparr>,
            gestureText = ''Open Palm (Explode)'', frames_requested = 5\<rparr>)
       = \<lparr>factor = 0, rotation = None\<rparr>"
  using no_hand_sentinel [of "example_env (DetectResult (Some []))"
      "\<lparr>interactionState = \<lparr>factor = 1, rotation = Some 2\<rparr>,
        gestureText = ''Open Palm (Explode)'', frames_requested = 5\<rparr>"]
  by (simp add: example_runs hand_of_def example_detect)

text \<open>
  Claim C5, as stated, fails: when \<open>detectForVideo\<close> throws after an open palm was published,
  the state after the cycle is still the open palm's, not factor 0 with rotation null.
\<close>

theorem inference_exception_publishes_nothing:
  "interactionState
     (predict (example_env DetectThrows)
        \<lparr>interactionState = \<lparr>factor = 1, rotation = Some 2\<rparr>,
         gestureText = ''Open Palm (Explode)'', frames_requested = 5\<rparr>)
     = \<lparr>factor = 1, rotation = Some 2\<rparr>
   \<and> interactionState
     (predict (example_env DetectThrows)
        \<lparr>interactionState = \<lparr>factor = 1, rotation = Some 2\<rparr>,
         gestureText = ''Open Palm (Explode)'', frames_requested = 5\<rparr>)
     \<noteq> \<lparr>factor = 0, rotation = None\<rparr>"
  by (simp add: predict_throws example_detect)

text \<open>
  Claim C5, amended. When \<open>detectForVideo\<close> throws, the exception is caught and nothing is
  published: the interaction state and the gesture label stay as they were, and the next frame
  is requested.
\<close>

theorem inference_exception_ignored:
  assumes "detect env = DetectThrows"
  shows "interactionState (predict env t) = interactionState t
       \<and> gestureText (predict env t) = gestureText t
       \<and> frames_requested (predict env t) = frames_requested t + 1"
  by (simp add: predict_throws [OF assms])

theorem inference_exception_ignored_witness:
  "detect (example_env DetectThrows) = DetectThrows
   \<and> interactionState (predict (example_env DetectThrows) initial_tracker) = initial_interaction
   \<and> frames_requested (predict (example_env DetectThrows) initial_tracker) = 1"
  using inference_exception_ignored [of "example_env DetectThrows" initial_tracker]
  by (simp add: example_detect initial_tracker_def)

lemma predict_incomplete:
  assumes "\<not> cycle_completes env"
  shows "interactionState (predict env t) = interactionState t"
proof (cases "cycle_runs env")
  case False
  then show ?thesis
    by (auto simp: predict_def try_block_def cycle_runs_def Let_def
        split: detection.splits option.splits list.splits)
next
  case True
  with assms obtain hand where h: "hand_of env = Some hand" and short: "length hand < 21"
    by (auto simp: cycle_completes_def split: option.splits)
  from h obtain others where d: "detect env = DetectResult (Some (hand # others))"
    by (auto simp: hand_of_def split: detection.splits option.splits list.splits)
  show ?thesis
    using True d by (simp add: predict_def try_block_def cycle_runs_def Let_def
        hand_branch_short [OF short])
qed

lemma run_cycles_incomplete:
  "\<forall>e \<in> set envs. \<not> cycle_completes e \<Longrightarrow>
     interactionState (run_cycles envs t) = interactionState t"
proof (induction envs arbitrary: t)
  case Nil
  then show ?case by (simp add: run_cycles_def)
next
  case (Cons e envs)
  have "run_cycles (e # envs) t = run_cycles envs (predict e t)"
    by (simp add: run_cycles_def)
  then show ?case using Cons by (simp add: predict_incomplete)
qed

lemma predict_complete:
  assumes "cycle_completes env"
  shows "interactionState (predict env t) =
           (case hand_of env of
              None \<Rightarrow> \<lparr>factor = 0, rotation = None\<rparr>
            | Some hand \<Rightarrow> \<lparr>factor = (if 4 \<le> extended_count hand then 1 else 0),
                            rotation = Some (rotationHint (lm_x (hand ! 0)))\<rparr>)"
proof (cases "hand_of env")
  case None
  then show ?thesis using assms by (simp add: predict_no_hand cycle_completes_def)
next
  case (Some hand)
  then obtain others where d: "detect env = DetectResult (Some (hand # others))"
    by (auto simp: hand_of_def split: detection.splits option.splits list.splits)
  from assms Some have "cycle_runs env" "21 \<le> length hand"
    by (simp_all add: cycle_completes_def)
  then show ?thesis using Some d by (simp add: predict_hand)
qed

text \<open>
  Claim C10. After any run of cycles, with \<open>env\<close> the last cycle that completed, the published
  rotation is null exactly when \<open>env\<close> detected no hand, and camera drag is enabled exactly
  then. In particular an open palm publishes factor 1 with a rotation, and camera drag is off.
\<close>

theorem rotation_null_iff_no_hand:
  assumes "envs = before @ env # after"
    and "cycle_completes env"
    and "\<forall>e \<in> set after. \<not> cycle_completes e"
  shows "(rotation (interactionState (run_cycles envs t)) = None \<longleftrightarrow> hand_of env = None)
       \<and> (enableRotate (rotation (interactionState (run_cycles envs t))) \<longleftrightarrow> hand_of env = None)
       \<and> (\<forall>hand. hand_of env = Some hand \<and> 4 \<le> extended_count hand \<longrightarrow>
             factor (interactionState (run_cycles envs t)) = 1
           \<and> rotation (interactionState (run_cycles envs t)) \<noteq> None
           \<and> \<not> enableRotate (rotation (interactionState (run_cycles envs t))))"
proof -
  have "run_cycles envs t = run_cycles after (predict env (run_cycles before t))"
    by (simp add: assms(1) run_cycles_def)
  then have "interactionState (run_cycles envs t)
               = interactionState (predict env (run_cycles before t))"
    by (simp add: run_cycles_incomplete [OF assms(3)])
  then show ?thesis
    by (simp add: predict_complete [OF assms(2)] enableRotate_def split: option.splits)
qed

lemma example_open_completes:
  "cycle_completes (example_env (DetectResult (Some [example_open_hand])))"
  by (simp add: cycle_completes_def example_runs hand_of_def example_detect example_lengths)

lemma example_throws_incomplete: "\<not> cycle_completes (example_env DetectThrows)"
  by (simp add: cycle_completes_def cycle_runs_def example_detect)

lemma example_open_hand_of:
  "hand_of (example_env (DetectResult (Some [example_open_hand]))) = Some example_open_hand"
  by (simp add: hand_of_def example_detect)

theorem rotation_null_iff_no_hand_witness:
  "cycle_completes (example_env (DetectResult (Some [example_open_hand])))
   \<and> \<not> cycle_completes (example_env DetectThrows)
   \<and> hand_of (example_env (DetectResult (Some [example_open_hand]))) = Some example_open_hand
   \<and> 4 \<le> extended_count example_open_hand
   \<and> \<not> enableRotate (rotation (interactionState
         (run_cycles [example_env (DetectResult None),
                      example_env (DetectResult (Some [example_open_hand])),
                      example_env DetectThrows] initial_tracker)))"
  using rotation_null_iff_no_hand [of
      "[example_env (DetectResult None),
        example_env (DetectResult (Some [example_open_hand])),
        example_env DetectThrows]"
      "[example_env (DetectResult None)]"
      "example_env (DetectResult (Some [example_open_hand]))"
      "[example_env DetectThrows]" initial_tracker]
  by (simp add: example_open_completes example_throws_incomplete example_open_hand_of
      example_open_count)

lemma initial_rotation_null:
  "\<forall>e \<in> set envs. \<not> cycle_completes e \<Longrightarrow>
     interactionState (run_cycles envs initial_tracker) = initial_interaction"
  by (simp add: run_cycles_incomplete initial_tracker_def)

section \<open>Properties of the particle interpolation\<close>


lemma length_particle_body:
  "length (particle_body ini ex f s i cur) = length cur"
  by (simp add: particle_body_def Let_def)

lemma nth_particle_body:
  assumes "j < length cur"
  shows "particle_body ini ex f s i cur ! j =
           (if j div 3 = i then cur ! j + ((ini ! j + (ex ! j - ini ! j) * f) - cur ! j) * s
            else cur ! j)"
proof (cases "j div 3 = i")
  case False
  then have "j \<noteq> i * 3" "j \<noteq> i * 3 + 1" "j \<noteq> i * 3 + 2" by auto
  then show ?thesis using False by (simp add: particle_body_def Let_def)
next
  case True
  then consider "j = i * 3" | "j = i * 3 + 1" | "j = i * 3 + 2" by arith
  then show ?thesis
  proof cases
    case 1
    then show ?thesis using assms True by (simp add: particle_body_def Let_def)
  next
    case 2
    then show ?thesis using assms True by (simp add: particle_body_def Let_def)
  next
    case 3
    then show ?thesis using assms True by (simp add: particle_body_def Let_def)
  qed
qed

lemma length_particle_loop:
  "length (particle_loop ini ex f s i cur) = length cur"
proof (induction ini ex f s i cur rule: particle_loop.induct)
  case (1 ini ex f s i cur)
  show ?case
  proof (cases "real i < real (length cur) / 3")
    case True
    then show ?thesis
      using "1.IH" [OF True]
      by (subst particle_loop.simps) (simp add: length_particle_body)
  next
    case False
    then show ?thesis by (subst particle_loop.simps) simp
  qed
qed

lemma nth_particle_loop:
  "j < length cur \<Longrightarrow>
   particle_loop ini ex f s i cur ! j =
     (if i \<le> j div 3 then cur ! j + ((ini ! j + (ex ! j - ini ! j) * f) - cur ! j) * s
      else cur ! j)"
proof (induction ini ex f s i cur rule: particle_loop.induct)
  case (1 ini ex f s i cur)
  show ?case
  proof (cases "real i < real (length cur) / 3")
    case True
    have j': "j < length (particle_body ini ex f s i cur)"
      using "1.prems" by (simp add: length_particle_body)
    have "particle_loop ini ex f s i cur ! j =
            particle_loop ini ex f s (i + 1) (particle_body ini ex f s i cur) ! j"
      using True by (subst particle_loop.simps) simp
    also have "\<dots> = (if i + 1 \<le> j div 3
                      then particle_body ini ex f s i cur ! j
                           + ((ini ! j + (ex ! j - ini ! j) * f) - particle_body ini ex f s i cur ! j) * s
                      else particle_body ini ex f s i cur ! j)"
      using "1.IH" [OF True j'] .
    also have "\<dots> = (if i \<le> j div 3 then cur ! j + ((ini ! j + (ex ! j - ini ! j) * f) - cur ! j) * s
                      else cur ! j)"
      using "1.prems" by (auto simp: nth_particle_body)
    finally show ?thesis .
  next
    case False
    then have "length cur \<le> 3 * i" by (simp add: field_simps)
    with "1.prems" have "\<not> i \<le> j div 3" by arith
    then show ?thesis using False by (subst particle_loop.simps) simp
  qed
qed

lemma length_useFrame:
  "length (TreeParticles_useFrame mesh ini ex f cur) = length cur"
  by (simp add: TreeParticles_useFrame_def length_particle_loop)

lemma nth_useFrame:
  "j < length cur \<Longrightarrow>
   TreeParticles_useFrame True ini ex f cur ! j =
     cur ! j + ((ini ! j + (ex ! j - ini ! j) * f) - cur ! j) * particle_speed f"
  by (simp add: TreeParticles_useFrame_def nth_particle_loop)

text \<open>
  Claim C1. In a render frame with the mesh mounted, every cell \<open>j\<close> of \<open>currentPositions\<close>
  (axis \<open>j mod 3\<close> of entity \<open>j div 3\<close>) moves by \<open>(target - current) * speed\<close>, where the target
  is \<open>rest + (exploded - rest) * factor\<close> for the frame's factor and the speed is 0.20 when the
  factor exceeds 0.1 and 0.12 otherwise.
\<close>

theorem particle_frame_law:
  assumes "length initialPositions = length currentPositions"
    and "length explodedPositions = length currentPositions"
    and "j < length currentPositions"
  shows "TreeParticles_useFrame True initialPositions explodedPositions targetFactor currentPositions ! j
           = currentPositions ! j
             + ((initialPositions ! j
                  + (explodedPositions ! j - initialPositions ! j) * targetFactor)
                - currentPositions ! j)
               * (if targetFactor > 0.1 then 0.20 else 0.12)
       \<and> length (TreeParticles_useFrame True initialPositions explodedPositions targetFactor
                   currentPositions) = length currentPositions"
  using assms(3)
  by (simp add: nth_useFrame length_useFrame particle_speed_def EXPLOSION_SPEED_def RETURN_SPEED_def)

theorem particle_frame_law_witness:
  "length [0, 0, 0 :: real] = length [0, 0, 0 :: real]
   \<and> length [10, 20, 30 :: real] = length [0, 0, 0 :: real]
   \<and> (1 :: nat) < length [0, 0, 0 :: real]
   \<and> TreeParticles_useFrame True [0, 0, 0] [10, 20, 30] 1 [0, 0, 0] ! 1 = 4"
  using particle_frame_law [of "[0, 0, 0]" "[0, 0, 0]" "[10, 20, 30]" 1 1]
  by simp


lemma particle_frames_Cons:
  "particle_frames ini ex (f # fs) cur =
     particle_frames ini ex fs (TreeParticles_useFrame True ini ex f cur)"
  by (simp add: particle_frames_def)

lemma particle_frames_snoc:
  "particle_frames ini ex (fs @ [f]) cur =
     TreeParticles_useFrame True ini ex f (particle_frames ini ex fs cur)"
  by (simp add: particle_frames_def)

lemma length_particle_frames:
  "length (particle_frames ini ex fs cur) = length cur"
  by (induction fs arbitrary: cur) (simp_all add: particle_frames_def length_useFrame)

lemma speed_range: "0 < particle_speed f" "particle_speed f < 1"
  by (simp_all add: particle_speed_def EXPLOSION_SPEED_def RETURN_SPEED_def)

lemma nth_frames_const:
  "j < length cur \<Longrightarrow>
   particle_frames ini ex (replicate n f) cur ! j - (ini ! j + (ex ! j - ini ! j) * f)
     = (1 - particle_speed f) ^ n * (cur ! j - (ini ! j + (ex ! j - ini ! j) * f))"
proof (induction n arbitrary: cur)
  case 0
  then show ?case by (simp add: particle_frames_def)
next
  case (Suc n)
  let ?cur' = "TreeParticles_useFrame True ini ex f cur"
  have j': "j < length ?cur'" using Suc.prems by (simp add: length_useFrame)
  have "particle_frames ini ex (replicate (Suc n) f) cur ! j - (ini ! j + (ex ! j - ini ! j) * f)
          = (1 - particle_speed f) ^ n * (?cur' ! j - (ini ! j + (ex ! j - ini ! j) * f))"
    using Suc.IH [OF j'] by (simp add: particle_frames_Cons)
  also have "?cur' ! j - (ini ! j + (ex ! j - ini ! j) * f)
               = (1 - particle_speed f) * (cur ! j - (ini ! j + (ex ! j - ini ! j) * f))"
    using Suc.prems by (simp add: nth_useFrame algebra_simps)
  finally show ?case by simp
qed

lemma scaled_norm:
  fixes k :: real
  assumes "0 \<le> k"
  shows "sqrt ((k * a)\<^sup>2 + (k * b)\<^sup>2 + (k * c)\<^sup>2) = k * sqrt (a\<^sup>2 + b\<^sup>2 + c\<^sup>2)"
proof -
  have "(k * a)\<^sup>2 + (k * b)\<^sup>2 + (k * c)\<^sup>2 = k\<^sup>2 * (a\<^sup>2 + b\<^sup>2 + c\<^sup>2)"
    by (simp add: power_mult_distrib algebra_simps)
  then show ?thesis using assms by (simp add: real_sqrt_mult)
qed

lemma dist_frames_const:
  assumes "i * 3 + 2 < length cur"
  shows "vec_dist (entity_pos (particle_frames ini ex (replicate n f) cur) i)
           (lerpVectors (entity_pos ini i) (entity_pos ex i) f)
         = (1 - particle_speed f) ^ n
           * vec_dist (entity_pos cur i) (lerpVectors (entity_pos ini i) (entity_pos ex i) f)"
proof -
  have k: "0 \<le> (1 - particle_speed f) ^ n"
    using speed_range [of f] by simp
  have x: "i * 3 < length cur" and y: "i * 3 + 1 < length cur" using assms by simp_all
  show ?thesis
    using nth_frames_const [OF x, of ini ex n f] nth_frames_const [OF y, of ini ex n f]
      nth_frames_const [OF assms, of ini ex n f]
    by (simp add: entity_pos_def scaled_norm [OF k])
qed

lemma lerpVectors_ends: "lerpVectors a b 1 = b" "lerpVectors a b 0 = a"
  by (cases a; cases b; simp)+

lemma dist_explode:
  assumes "i * 3 + 2 < length cur"
  shows "vec_dist (entity_pos (particle_frames ini ex (replicate n 1) cur) i) (entity_pos ex i)
         = (1 - EXPLOSION_SPEED) ^ n * vec_dist (entity_pos cur i) (entity_pos ex i)"
  using dist_frames_const [OF assms, of ini ex n 1]
  by (simp add: lerpVectors_ends particle_speed_def)

lemma dist_return:
  assumes "i * 3 + 2 < length cur"
  shows "vec_dist (entity_pos (particle_frames ini ex (replicate n 0) cur) i) (entity_pos ini i)
         = (1 - RETURN_SPEED) ^ n * vec_dist (entity_pos cur i) (entity_pos ini i)"
  using dist_frames_const [OF assms, of ini ex n 0]
  by (simp add: lerpVectors_ends particle_speed_def)

lemma vec_dist_pos: "a \<noteq> b \<Longrightarrow> 0 < vec_dist a b"
proof (cases a; cases b)
  fix ax ay az bx "by" bz
  assume ne: "a \<noteq> b" and a: "a = (ax, ay, az)" and b: "b = (bx, by, bz)"
  then have "ax - bx \<noteq> 0 \<or> ay - by \<noteq> 0 \<or> az - bz \<noteq> 0" by auto
  then have "0 < (ax - bx)\<^sup>2 + (ay - by)\<^sup>2 + (az - bz)\<^sup>2"
    by (metis add_pos_nonneg add_nonneg_pos zero_less_power2 zero_le_power2 add_nonneg_nonneg)
  then show ?thesis using a b by simp
qed

lemma vec_dist_nonneg: "0 \<le> vec_dist a b"
  by (cases a; cases b) simp

lemma geometric_below:
  fixes r d eps :: real
  assumes "0 \<le> r" "r < 1" "0 \<le> d" "0 < eps"
  shows "\<exists>N. \<forall>n\<ge>N. r ^ n * d < eps"
proof (cases "d = 0")
  case True
  then show ?thesis using assms by simp
next
  case False
  then have d: "0 < d" using assms by simp
  then have "0 < eps / d" using assms by simp
  then obtain N where N: "r ^ N < eps / d"
    using real_arch_pow_inv [of "eps / d" r] assms by blast
  have "\<forall>n\<ge>N. r ^ n * d < eps"
  proof (intro allI impI)
    fix n assume "N \<le> n"
    then have "r ^ n \<le> r ^ N" using assms by (simp add: power_decreasing)
    then have "r ^ n < eps / d" using N by simp
    then show "r ^ n * d < eps" using d by (simp add: field_simps)
  qed
  then show ?thesis by blast
qed


lemma list_all_upt: "list_all P [0..<n] \<longleftrightarrow> (\<forall>m<n. P m)"
  by (auto simp: list_all_iff)

lemma within_explode_iff:
  assumes "i * 3 + 2 < length s"
  shows "within_after ini ex 1 s (entity_pos ex i) i eps n \<longleftrightarrow>
           (1 - EXPLOSION_SPEED) ^ n * vec_dist (entity_pos s i) (entity_pos ex i) < eps"
  by (simp add: within_after_def dist_explode [OF assms])

lemma within_return_iff:
  assumes "i * 3 + 2 < length s"
  shows "within_after ini ex 0 s (entity_pos ini i) i eps n \<longleftrightarrow>
           (1 - RETURN_SPEED) ^ n * vec_dist (entity_pos s i) (entity_pos ini i) < eps"
  by (simp add: within_after_def dist_return [OF assms])

lemma frames_needed_exists:
  assumes "\<exists>n. within_after ini ex f s goal i eps n"
  shows "\<exists>N. frames_needed ini ex f s goal i eps N"
proof -
  define N where "N = (LEAST n. within_after ini ex f s goal i eps n)"
  have a: "within_after ini ex f s goal i eps N"
    unfolding N_def using assms by (rule LeastI_ex)
  have b: "\<not> within_after ini ex f s goal i eps m" if "m < N" for m
    using that unfolding N_def by (rule not_less_Least)
  have "frames_needed ini ex f s goal i eps N"
    unfolding frames_needed_def list_all_upt using a b by blast
  then show ?thesis ..
qed



lemma frames_needed_explode_exists:
  assumes "i * 3 + 2 < length s" and "0 < eps"
  shows "\<exists>N. frames_needed ini ex 1 s (entity_pos ex i) i eps N"
proof (rule frames_needed_exists)
  obtain N where "\<forall>n\<ge>N. (1 - EXPLOSION_SPEED) ^ n * vec_dist (entity_pos s i) (entity_pos ex i) < eps"
    using geometric_below [of "1 - EXPLOSION_SPEED" "vec_dist (entity_pos s i) (entity_pos ex i)" eps]
      assms(2) vec_dist_nonneg by (auto simp: EXPLOSION_SPEED_def)
  then have "within_after ini ex 1 s (entity_pos ex i) i eps N"
    by (simp add: within_explode_iff [OF assms(1)])
  then show "\<exists>n. within_after ini ex 1 s (entity_pos ex i) i eps n" ..
qed

lemma frames_needed_return_exists:
  assumes "i * 3 + 2 < length s" and "0 < eps"
  shows "\<exists>N. frames_needed ini ex 0 s (entity_pos ini i) i eps N"
proof (rule frames_needed_exists)
  obtain N where "\<forall>n\<ge>N. (1 - RETURN_SPEED) ^ n * vec_dist (entity_pos s i) (entity_pos ini i) < eps"
    using geometric_below [of "1 - RETURN_SPEED" "vec_dist (entity_pos s i) (entity_pos ini i)" eps]
      assms(2) vec_dist_nonneg by (auto simp: RETURN_SPEED_def)
  then have "within_after ini ex 0 s (entity_pos ini i) i eps N"
    by (simp add: within_return_iff [OF assms(1)])
  then show "\<exists>n. within_after ini ex 0 s (entity_pos ini i) i eps n" ..
qed







section \<open>Properties of the scene composition\<close>

lemma scene_approach:
  "(Scene_useFrame True (Some r) delta ^^ n) yaw - r = 0.9 ^ n * (yaw - r)"
  by (induction n) (simp_all add: Scene_useFrame_def lerp_def algebra_simps)

text \<open>
  Claim C8. With a rotation \<open>r\<close> published, a frame moves the yaw a tenth of the way to \<open>r\<close>
  (after \<open>n\<close> such frames the gap is \<open>0.9 ^ n\<close> times the first one) and camera drag is off;
  with no rotation the yaw grows by \<open>0.2 * delta\<close>, strictly for a positive \<open>delta\<close>, and camera
  drag is on. A frame's mode is that of its own rotation, whatever the frame before it was.
\<close>

theorem scene_rotation_modes:
  "(\<forall>r. Scene_useFrame True (Some r) delta yaw = yaw + (r - yaw) * 0.1
        \<and> (\<forall>n. (Scene_useFrame True (Some r) delta ^^ n) yaw - r = 0.9 ^ n * (yaw - r))
        \<and> \<not> enableRotate (Some r))
   \<and> Scene_useFrame True None delta yaw = yaw + delta * 0.2
   \<and> (0 < delta \<longrightarrow> yaw < Scene_useFrame True None delta yaw)
   \<and> enableRotate None
   \<and> (\<forall>r d. Scene_useFrame True (Some r) d (Scene_useFrame True None delta yaw)
              = (yaw + delta * 0.2) + (r - (yaw + delta * 0.2)) * 0.1)
   \<and> (\<forall>r d. Scene_useFrame True None d (Scene_useFrame True (Some r) delta yaw)
              = (yaw + (r - yaw) * 0.1) + d * 0.2)"
proof -
  have some: "Scene_useFrame True (Some r) d y = y + (r - y) * 0.1" for r d y
    by (simp add: Scene_useFrame_def lerp_def field_simps)
  have none: "Scene_useFrame True None d y = y + d * 0.2" for d y
    by (simp add: Scene_useFrame_def)
  have drag: "\<not> enableRotate (Some r)" "enableRotate None" for r :: real
    by (simp_all add: enableRotate_def)
  have up: "0 < delta \<longrightarrow> yaw < Scene_useFrame True None delta yaw"
    by (simp add: none)
  show ?thesis
    by (simp add: scene_approach some none drag)
qed

theorem scene_rotation_modes_witness:
  "(0 :: real) < 1 / 60 \<and> (0 :: real) < Scene_useFrame True None (1 / 60) 0
   \<and> \<not> enableRotate (Some 1)
   \<and> Scene_useFrame True (Some 1) (1 / 60) (Scene_useFrame True None (1 / 60) 0) = 103 / 1000"
proof -
  have "(0 :: real) < 1 / 60 \<longrightarrow> 0 < Scene_useFrame True None (1 / 60) 0"
    and "\<not> enableRotate (Some (1 :: real))"
    and "Scene_useFrame True (Some 1) (1 / 60) (Scene_useFrame True None (1 / 60) 0)
           = (0 + 1 / 60 * 0.2) + (1 - (0 + 1 / 60 * 0.2)) * 0.1"
    using scene_rotation_modes [of "1 / 60" 0] by blast+
  then show ?thesis by simp
qed

section \<open>Properties of the decoration interpolation\<close>


lemma blend_after_snoc:
  "blend_after (fs @ [f]) c = blend_after fs c + (f - blend_after fs c) * particle_speed f"
  by (simp add: blend_after_def particle_speed_def)

lemma particle_frames_blend:
  assumes "j < length ini"
  shows "particle_frames ini ex fs ini ! j = ini ! j + (ex ! j - ini ! j) * blend_after fs 0"
proof (induction fs rule: rev_induct)
  case Nil
  then show ?case by (simp add: particle_frames_def blend_after_def)
next
  case (snoc f fs)
  have j: "j < length (particle_frames ini ex fs ini)"
    using assms by (simp add: length_particle_frames)
  show ?case
    unfolding particle_frames_snoc blend_after_snoc
    by (simp add: nth_useFrame [OF j] snoc.IH algebra_simps)
qed

lemma length_flat: "length (flat vs) = 3 * length vs"
  by (induction vs) (auto simp: flat_def)

lemma flat_Cons: "flat ((x, y, z) # vs) = x # y # z # flat vs"
  by (simp add: flat_def)

lemma entity_pos_flat: "i < length vs \<Longrightarrow> entity_pos (flat vs) i = vs ! i"
proof (induction vs arbitrary: i)
  case Nil
  then show ?case by simp
next
  case (Cons v vs)
  obtain x y z where v: "v = (x, y, z)" by (cases v) auto
  show ?case
  proof (cases i)
    case 0
    then show ?thesis by (simp add: v flat_Cons entity_pos_def)
  next
    case (Suc k)
    then have "k < length vs" using Cons.prems by simp
    then have "entity_pos (flat vs) k = vs ! k" by (rule Cons.IH)
    then show ?thesis by (simp add: Suc v flat_Cons entity_pos_def)
  qed
qed

lemma deco_frames_snoc:
  "deco_frames items (fr @ [(f, time)]) st = Deco_useFrame True items f time (deco_frames items fr st)"
  by (simp add: deco_frames_def)

lemma length_children_useFrame:
  "length (children st) = length items \<Longrightarrow>
   length (children (Deco_useFrame grp items f time st)) = length items"
  by (simp add: Deco_useFrame_def Let_def)

lemma length_children_frames:
  "length (children st) = length items \<Longrightarrow>
   length (children (deco_frames items fr st)) = length items"
proof (induction fr rule: rev_induct)
  case Nil
  then show ?case by (simp add: deco_frames_def)
next
  case (snoc x fr)
  obtain f time where x: "x = (f, time)" by (cases x) auto
  show ?case unfolding x deco_frames_snoc
    by (rule length_children_useFrame) (rule snoc.IH [OF snoc.prems])
qed

lemma curF_useFrame:
  "curF (Deco_useFrame True items f time st) = curF st + (f - curF st) * particle_speed f"
  by (simp add: Deco_useFrame_def Let_def particle_speed_def)

lemma curF_frames:
  "curF (deco_frames items fr st) = blend_after (map fst fr) (curF st)"
proof (induction fr rule: rev_induct)
  case Nil
  then show ?case by (simp add: deco_frames_def blend_after_def)
next
  case (snoc x fr)
  obtain f time where x: "x = (f, time)" by (cases x) auto
  show ?case unfolding x deco_frames_snoc
    by (simp add: curF_useFrame snoc.IH blend_after_snoc)
qed

lemma position_useFrame:
  assumes "length (children st) = length items" and "i < length items"
  shows "position (children (Deco_useFrame True items f time st) ! i)
           = lerpVectors (startPos (items ! i)) (endPos (items ! i))
               (curF (Deco_useFrame True items f time st))"
  using assms by (simp add: Deco_useFrame_def Let_def)

lemma lerp_entity:
  assumes "i * 3 + 2 < length ini"
    and "\<And>j. j < length ini \<Longrightarrow> cur ! j = ini ! j + (ex ! j - ini ! j) * c"
  shows "entity_pos cur i = lerpVectors (entity_pos ini i) (entity_pos ex i) c"
proof -
  have "i * 3 < length ini" "i * 3 + 1 < length ini" using assms(1) by simp_all
  then show ?thesis using assms by (simp add: entity_pos_def)
qed

section \<open>The rounded reading\<close>

text \<open>
  A number whose significand, scaled by \<open>2 ^ k\<close>, lies between \<open>2 ^ (p - 1)\<close> and \<open>2 ^ p\<close> is
  rounded on the grid of the multiples of \<open>1 / 2 ^ k\<close>. The lemmas named \<open>fp_step\<close> round the
  numbers that the frames below meet, one operation each.
\<close>

lemma round_bits_scaled:
  assumes "0 < p" and "2 ^ (p - 1) \<le> \<bar>x\<bar> * 2 ^ k" and "\<bar>x\<bar> * 2 ^ k < 2 ^ p"
  shows "round_bits p x = of_int (rne (x * 2 ^ k)) / 2 ^ k"
proof -
  have pos: "0 < \<bar>x\<bar>"
  proof (rule ccontr)
    assume "\<not> 0 < \<bar>x\<bar>"
    then have "\<bar>x\<bar> * 2 ^ k = 0" by simp
    moreover have "0 < (2::real) ^ (p - 1)" by simp
    ultimately show False using assms(2) by linarith
  qed
  then have nz: "x \<noteq> 0" by simp
  let ?e = "int (p - 1) - int k"
  have pw: "2 powr (real_of_int ?e) = 2 ^ (p - 1) / (2 ^ k :: real)"
    by (simp add: powr_diff powr_realpow)
  have pw1: "2 powr (real_of_int (?e + 1)) = 2 ^ p / (2 ^ k :: real)"
  proof -
    have "real_of_int (?e + 1) = real p - real k" using assms(1) by simp
    then show ?thesis by (simp add: powr_diff powr_realpow)
  qed
  have lo: "2 powr (real_of_int ?e) \<le> \<bar>x\<bar>"
    unfolding pw using assms(2) by (simp add: field_simps)
  have hi: "\<bar>x\<bar> < 2 powr (real_of_int (?e + 1))"
    unfolding pw1 using assms(3) by (simp add: field_simps)
  have e: "\<lfloor>log 2 \<bar>x\<bar>\<rfloor> = ?e"
    using floor_log_eq_powr_iff [of "\<bar>x\<bar>" 2 ?e] pos lo hi by simp
  have "?e - int p + 1 = - int k" using assms(1) by simp
  then have u: "(2::real) powi (\<lfloor>log 2 \<bar>x\<bar>\<rfloor> - int p + 1) = 1 / 2 ^ k"
    unfolding e by (simp add: power_int_minus_divide)
  show ?thesis
    unfolding round_bits_def Let_def u using nz by simp
qed


lemma speed_fp_values:
  "d64 EXPLOSION_SPEED = 3602879701896397 / 18014398509481984"
  "d64 RETURN_SPEED = 1080863910568919 / 9007199254740992"
  "d64 0.1 = 3602879701896397 / 36028797018963968"
proof -
  show "d64 EXPLOSION_SPEED = 3602879701896397 / 18014398509481984"
    unfolding d64_def EXPLOSION_SPEED_def
    by (subst round_bits_scaled [where k = 55]) (simp_all add: rne_def Let_def)
  show "d64 RETURN_SPEED = 1080863910568919 / 9007199254740992"
    unfolding d64_def RETURN_SPEED_def
    by (subst round_bits_scaled [where k = 56]) (simp_all add: rne_def Let_def)
  show "d64 0.1 = 3602879701896397 / 36028797018963968"
    unfolding d64_def
    by (subst round_bits_scaled [where k = 56]) (simp_all add: rne_def Let_def)
qed

lemma particle_speed_fp_values:
  "particle_speed_fp 1 = 3602879701896397 / 18014398509481984"
  "particle_speed_fp 0 = 1080863910568919 / 9007199254740992"
  by (simp_all add: particle_speed_fp_def speed_fp_values)

lemma frame_fp_three:
  "TreeParticles_useFrame_fp True [a0, a1, a2] [b0, b1, b2] f [c0, c1, c2] =
     [cell_fp a0 b0 f (particle_speed_fp f) c0,
      cell_fp a1 b1 f (particle_speed_fp f) c1,
      cell_fp a2 b2 f (particle_speed_fp f) c2]"
proof -
  let ?s = "particle_speed_fp f"
  have body: "particle_body_fp [a0, a1, a2] [b0, b1, b2] f ?s 0 [c0, c1, c2] =
                [cell_fp a0 b0 f ?s c0, cell_fp a1 b1 f ?s c1, cell_fp a2 b2 f ?s c2]"
    by (simp add: particle_body_fp_def cell_fp_def Let_def)
  have "particle_loop_fp [a0, a1, a2] [b0, b1, b2] f ?s 0 [c0, c1, c2] =
          particle_loop_fp [a0, a1, a2] [b0, b1, b2] f ?s (0 + 1)
            (particle_body_fp [a0, a1, a2] [b0, b1, b2] f ?s 0 [c0, c1, c2])"
    by (subst particle_loop_fp.simps) simp
  also have "\<dots> = particle_body_fp [a0, a1, a2] [b0, b1, b2] f ?s 0 [c0, c1, c2]"
    unfolding body by (subst particle_loop_fp.simps) simp
  finally show ?thesis by (simp add: TreeParticles_useFrame_fp_def body)
qed

lemma cell_fp_zero: "cell_fp 0 0 f s 0 = 0"
  by (simp add: cell_fp_def d64_def f32_def round_bits_def)

lemma fp_step_1: "d64 (1 - (16777215 / 16777216)) = (1 / 16777216)"
  unfolding d64_def
  by (subst round_bits_scaled [where k = 76]) (simp_all add: rne_def Let_def)

lemma fp_step_2: "d64 ((1 / 16777216) * 1) = (1 / 16777216)"
  unfolding d64_def
  by (subst round_bits_scaled [where k = 76]) (simp_all add: rne_def Let_def)

lemma fp_step_3: "d64 ((16777215 / 16777216) + (1 / 16777216)) = 1"
  unfolding d64_def
  by (subst round_bits_scaled [where k = 52]) (simp_all add: rne_def Let_def)

lemma fp_step_4: "d64 ((1 / 16777216) * (3602879701896397 / 18014398509481984)) = (3602879701896397 / 302231454903657293676544)"
  unfolding d64_def
  by (subst round_bits_scaled [where k = 79]) (simp_all add: rne_def Let_def)

lemma fp_step_5: "d64 ((16777215 / 16777216) + (3602879701896397 / 302231454903657293676544)) = (4503599412622131 / 4503599627370496)"
  unfolding d64_def
  by (subst round_bits_scaled [where k = 53]) (simp_all add: rne_def Let_def)

lemma fp_step_6: "f32 ((4503599412622131 / 4503599627370496)) = (16777215 / 16777216)"
  unfolding f32_def
  by (subst round_bits_scaled [where k = 24]) (simp_all add: rne_def Let_def)

lemma fp_step_7: "d64 (1 - 0) = 1"
  unfolding d64_def
  by (subst round_bits_scaled [where k = 52]) (simp_all add: rne_def Let_def)

lemma fp_step_8: "d64 (1 * 1) = 1"
  unfolding d64_def
  by (subst round_bits_scaled [where k = 52]) (simp_all add: rne_def Let_def)

lemma fp_step_9: "d64 (0 + 1) = 1"
  unfolding d64_def
  by (subst round_bits_scaled [where k = 52]) (simp_all add: rne_def Let_def)

lemma fp_step_10: "d64 (1 * (3602879701896397 / 18014398509481984)) = (3602879701896397 / 18014398509481984)"
  unfolding d64_def
  by (subst round_bits_scaled [where k = 55]) (simp_all add: rne_def Let_def)

lemma fp_step_11: "d64 (0 + (3602879701896397 / 18014398509481984)) = (3602879701896397 / 18014398509481984)"
  unfolding d64_def
  by (subst round_bits_scaled [where k = 55]) (simp_all add: rne_def Let_def)

lemma fp_step_12: "f32 ((3602879701896397 / 18014398509481984)) = (13421773 / 67108864)"
  unfolding f32_def
  by (subst round_bits_scaled [where k = 26]) (simp_all add: rne_def Let_def)


lemma fp_step_14: "d64 (0 + 0) = 0"
  by (simp add: d64_def round_bits_def)





lemma fp_step_19: "d64 (10 - 0) = 10"
  unfolding d64_def
  by (subst round_bits_scaled [where k = 49]) (simp_all add: rne_def Let_def)

lemma fp_step_20: "d64 (10 * 1) = 10"
  unfolding d64_def
  by (subst round_bits_scaled [where k = 49]) (simp_all add: rne_def Let_def)

lemma fp_step_21: "d64 (0 + 10) = 10"
  unfolding d64_def
  by (subst round_bits_scaled [where k = 49]) (simp_all add: rne_def Let_def)

lemma fp_step_22: "d64 (10 * (3602879701896397 / 18014398509481984)) = 2"
  unfolding d64_def
  by (subst round_bits_scaled [where k = 51]) (simp_all add: rne_def Let_def)

lemma fp_step_23: "d64 (0 + 2) = 2"
  unfolding d64_def
  by (subst round_bits_scaled [where k = 51]) (simp_all add: rne_def Let_def)

lemma fp_step_24: "f32 (2) = 2"
  unfolding f32_def
  by (subst round_bits_scaled [where k = 22]) (simp_all add: rne_def Let_def)

lemma fp_step_25: "d64 (10 * 0) = 0"
  by (simp add: d64_def round_bits_def)

lemma fp_step_26: "d64 (0 - 2) = (- 2)"
  unfolding d64_def
  by (subst round_bits_scaled [where k = 51]) (simp_all add: rne_def Let_def)

lemma fp_step_27: "d64 ((- 2) * (1080863910568919 / 9007199254740992)) = (- (1080863910568919 / 4503599627370496))"
  unfolding d64_def
  by (subst round_bits_scaled [where k = 55]) (simp_all add: rne_def Let_def)

lemma fp_step_28: "d64 (2 + (- (1080863910568919 / 4503599627370496))) = (7926335344172073 / 4503599627370496)"
  unfolding d64_def
  by (subst round_bits_scaled [where k = 52]) (simp_all add: rne_def Let_def)

lemma fp_step_29: "f32 ((7926335344172073 / 4503599627370496)) = (7381975 / 4194304)"
  unfolding f32_def
  by (subst round_bits_scaled [where k = 23]) (simp_all add: rne_def Let_def)

lemma fp_step_30: "d64 (0 - (3602879701896397 / 18014398509481984)) = (- (3602879701896397 / 18014398509481984))"
  unfolding d64_def
  by (subst round_bits_scaled [where k = 55]) (simp_all add: rne_def Let_def)

lemma fp_step_31: "d64 ((- (3602879701896397 / 18014398509481984)) * (1080863910568919 / 9007199254740992)) = (- (3458764513820541 / 144115188075855872))"
  unfolding d64_def
  by (subst round_bits_scaled [where k = 58]) (simp_all add: rne_def Let_def)

lemma fp_step_32: "d64 ((3602879701896397 / 18014398509481984) + (- (3458764513820541 / 144115188075855872))) = (6341068275337659 / 36028797018963968)"
  unfolding d64_def
  by (subst round_bits_scaled [where k = 55]) (simp_all add: rne_def Let_def)

lemma fp_step_33: "d64 (10 * (6341068275337659 / 36028797018963968)) = (3963167672086037 / 2251799813685248)"
  unfolding d64_def
  by (subst round_bits_scaled [where k = 52]) (simp_all add: rne_def Let_def)

lemma fp_step_34: "d64 (0 + (3963167672086037 / 2251799813685248)) = (3963167672086037 / 2251799813685248)"
  unfolding d64_def
  by (subst round_bits_scaled [where k = 52]) (simp_all add: rne_def Let_def)

lemma cell_stall: "cell_fp (16777215 / 16777216) 1 1 (3602879701896397 / 18014398509481984) (16777215 / 16777216) = (16777215 / 16777216)"
  unfolding cell_fp_def fp_step_1 fp_step_2 fp_step_3 fp_step_4 fp_step_5 fp_step_6
  by (rule refl)

lemma cell_first: "cell_fp 0 1 1 (3602879701896397 / 18014398509481984) 0 = (13421773 / 67108864)"
  unfolding cell_fp_def fp_step_7 fp_step_8 fp_step_9 fp_step_10 fp_step_11 fp_step_12
  by (rule refl)


lemma cell_deco_1: "cell_fp 0 10 1 (3602879701896397 / 18014398509481984) 0 = 2"
  unfolding cell_fp_def fp_step_19 fp_step_20 fp_step_21 fp_step_22 fp_step_23 fp_step_24
  by (rule refl)

lemma cell_deco_2: "cell_fp 0 10 0 (1080863910568919 / 9007199254740992) 2 = (7381975 / 4194304)"
  unfolding cell_fp_def fp_step_19 fp_step_25 fp_step_14 fp_step_26 fp_step_27 fp_step_28 fp_step_29
  by (rule refl)

lemma blend_deco_1: "blend_fp 0 1 (3602879701896397 / 18014398509481984) = (3602879701896397 / 18014398509481984)"
  unfolding blend_fp_def fp_step_7 fp_step_10 fp_step_11
  by (rule refl)

lemma blend_deco_2: "blend_fp (3602879701896397 / 18014398509481984) 0 (1080863910568919 / 9007199254740992) = (6341068275337659 / 36028797018963968)"
  unfolding blend_fp_def fp_step_30 fp_step_31 fp_step_32
  by (rule refl)

lemma lerp_deco_2: "lerp_fp 0 10 (6341068275337659 / 36028797018963968) = (3963167672086037 / 2251799813685248)"
  unfolding lerp_fp_def fp_step_19 fp_step_33 fp_step_34
  by (rule refl)


lemma entity_pos_three: "entity_pos [c0, c1, c2] 0 = (c0, c1, c2)"
  by (simp add: entity_pos_def)

lemma vec_dist_axis: "vec_dist (a, y, z) (b, y, z) = \<bar>a - b\<bar>"
  by simp

lemma frames_fp_Cons:
  "particle_frames_fp ini ex (f # fs) cur =
     particle_frames_fp ini ex fs (TreeParticles_useFrame_fp True ini ex f cur)"
  by (simp add: particle_frames_fp_def)

lemma frame_fp_stall:
  "TreeParticles_useFrame_fp True [16777215 / 16777216, 0, 0] [1, 0, 0] 1
     [16777215 / 16777216, 0, 0] = [16777215 / 16777216, 0, 0]"
  by (simp only: frame_fp_three particle_speed_fp_values cell_stall cell_fp_zero)

lemma frames_fp_stall:
  "particle_frames_fp [16777215 / 16777216, 0, 0] [1, 0, 0] (replicate n 1)
     [16777215 / 16777216, 0, 0] = [16777215 / 16777216, 0, 0]"
proof (induction n)
  case 0
  show ?case by (simp add: particle_frames_fp_def)
next
  case (Suc n)
  show ?case by (simp only: replicate_Suc frames_fp_Cons frame_fp_stall Suc.IH)
qed

lemma explode_dist_fp_stall:
  "explode_dist_fp [16777215 / 16777216, 0, 0] [1, 0, 0] 0 n = 1 / 16777216"
  unfolding explode_dist_fp_def frames_fp_stall entity_pos_three vec_dist_axis by simp

lemma frame_fp_first:
  "TreeParticles_useFrame_fp True [0, 0, 0] [1, 0, 0] 1 [0, 0, 0] = [13421773 / 67108864, 0, 0]"
  by (simp only: frame_fp_three particle_speed_fp_values cell_first cell_fp_zero)


lemma frames_fp_one:
  "particle_frames_fp ini ex (replicate (Suc 0) f) cur = TreeParticles_useFrame_fp True ini ex f cur"
  "particle_frames_fp ini ex (replicate 0 f) cur = cur"
  by (simp_all add: particle_frames_fp_def)

subsection \<open>The explosion from 0 to 1, frame by frame\<close>

text \<open>
  The cell of an entity that rests at 0 and explodes to 1, after each of the first 71 frames
  at the factor 1, and the frame that leaves it where it is.
\<close>

lemma trace_target: "d64 (1 - 0) = 1" "d64 (1 * 1) = 1" "d64 (0 + 1) = 1"
proof -
  show "d64 (1 - 0) = 1"
    unfolding d64_def by (subst round_bits_scaled [where k = 52]) (simp_all add: rne_def Let_def)
  show "d64 (1 * 1) = 1"
    unfolding d64_def by (subst round_bits_scaled [where k = 52]) (simp_all add: rne_def Let_def)
  show "d64 (0 + 1) = 1"
    unfolding d64_def by (subst round_bits_scaled [where k = 52]) (simp_all add: rne_def Let_def)
qed

lemma trace_step:
  assumes "particle_frames_fp [0, 0, 0] [1, 0, 0] (replicate n 1) [0, 0, 0] = [c, 0, 0]"
    and "cell_fp 0 1 1 (3602879701896397 / 18014398509481984) c = c'"
  shows "particle_frames_fp [0, 0, 0] [1, 0, 0] (replicate (Suc n) 1) [0, 0, 0] = [c', 0, 0]"
proof -
  have r: "replicate (Suc n) (1 :: real) = replicate n 1 @ [1]"
    by (induction n) simp_all
  have "particle_frames_fp [0, 0, 0] [1, 0, 0] (replicate (Suc n) 1) [0, 0, 0] =
          TreeParticles_useFrame_fp True [0, 0, 0] [1, 0, 0] 1
            (particle_frames_fp [0, 0, 0] [1, 0, 0] (replicate n 1) [0, 0, 0])"
    unfolding particle_frames_fp_def r by simp
  then show ?thesis
    by (simp only: assms frame_fp_three particle_speed_fp_values cell_fp_zero)
qed

lemma trace_cell_1: "cell_fp 0 1 1 (3602879701896397 / 18014398509481984) 0 = (13421773 / 67108864)"
proof -
  have a: "d64 (1 - 0) = 1"
    unfolding d64_def by (subst round_bits_scaled [where k = 52]) (simp_all add: rne_def Let_def)
  have b: "d64 (1 * (3602879701896397 / 18014398509481984)) = (3602879701896397 / 18014398509481984)"
    unfolding d64_def by (subst round_bits_scaled [where k = 55]) (simp_all add: rne_def Let_def)
  have c: "d64 (0 + (3602879701896397 / 18014398509481984)) = (3602879701896397 / 18014398509481984)"
    unfolding d64_def by (subst round_bits_scaled [where k = 55]) (simp_all add: rne_def Let_def)
  have d: "f32 ((3602879701896397 / 18014398509481984)) = (13421773 / 67108864)"
    unfolding f32_def by (subst round_bits_scaled [where k = 26]) (simp_all add: rne_def Let_def)
  show ?thesis unfolding cell_fp_def trace_target a b c d by (rule refl)
qed

lemma trace_cell_2: "cell_fp 0 1 1 (3602879701896397 / 18014398509481984) (13421773 / 67108864) = (3019899 / 8388608)"
proof -
  have a: "d64 (1 - (13421773 / 67108864)) = (53687091 / 67108864)"
    unfolding d64_def by (subst round_bits_scaled [where k = 53]) (simp_all add: rne_def Let_def)
  have b: "d64 ((53687091 / 67108864) * (3602879701896397 / 18014398509481984)) = (5764607501559399 / 36028797018963968)"
    unfolding d64_def by (subst round_bits_scaled [where k = 55]) (simp_all add: rne_def Let_def)
  have c: "d64 ((13421773 / 67108864) + (5764607501559399 / 36028797018963968)) = (1621295876590797 / 4503599627370496)"
    unfolding d64_def by (subst round_bits_scaled [where k = 54]) (simp_all add: rne_def Let_def)
  have d: "f32 ((1621295876590797 / 4503599627370496)) = (3019899 / 8388608)"
    unfolding f32_def by (subst round_bits_scaled [where k = 25]) (simp_all add: rne_def Let_def)
  show ?thesis unfolding cell_fp_def trace_target a b c d by (rule refl)
qed

lemma trace_cell_3: "cell_fp 0 1 1 (3602879701896397 / 18014398509481984) (3019899 / 8388608) = (16374563 / 33554432)"
proof -
  have a: "d64 (1 - (3019899 / 8388608)) = (5368709 / 8388608)"
    unfolding d64_def by (subst round_bits_scaled [where k = 53]) (simp_all add: rne_def Let_def)
  have b: "d64 ((5368709 / 8388608) * (3602879701896397 / 18014398509481984)) = (4611685915348173 / 36028797018963968)"
    unfolding d64_def by (subst round_bits_scaled [where k = 55]) (simp_all add: rne_def Let_def)
  have c: "d64 ((3019899 / 8388608) + (4611685915348173 / 36028797018963968)) = (4395513339392819 / 9007199254740992)"
    unfolding d64_def by (subst round_bits_scaled [where k = 54]) (simp_all add: rne_def Let_def)
  have d: "f32 ((4395513339392819 / 9007199254740992)) = (16374563 / 33554432)"
    unfolding f32_def by (subst round_bits_scaled [where k = 25]) (simp_all add: rne_def Let_def)
  show ?thesis unfolding cell_fp_def trace_target a b c d by (rule refl)
qed

lemma trace_cell_4: "cell_fp 0 1 1 (3602879701896397 / 18014398509481984) (16374563 / 33554432) = (2476317 / 4194304)"
proof -
  have a: "d64 (1 - (16374563 / 33554432)) = (17179869 / 33554432)"
    unfolding d64_def by (subst round_bits_scaled [where k = 53]) (simp_all add: rne_def Let_def)
  have b: "d64 ((17179869 / 33554432) * (3602879701896397 / 18014398509481984)) = (7378697550456423 / 72057594037927936)"
    unfolding d64_def by (subst round_bits_scaled [where k = 56]) (simp_all add: rne_def Let_def)
  have c: "d64 ((16374563 / 33554432) + (7378697550456423 / 72057594037927936)) = (5317850479512781 / 9007199254740992)"
    unfolding d64_def by (subst round_bits_scaled [where k = 53]) (simp_all add: rne_def Let_def)
  have d: "f32 ((5317850479512781 / 9007199254740992)) = (2476317 / 4194304)"
    unfolding f32_def by (subst round_bits_scaled [where k = 24]) (simp_all add: rne_def Let_def)
  show ?thesis unfolding cell_fp_def trace_target a b c d by (rule refl)
qed

lemma trace_cell_5: "cell_fp 0 1 1 (3602879701896397 / 18014398509481984) (2476317 / 4194304) = (5639829 / 8388608)"
proof -
  have a: "d64 (1 - (2476317 / 4194304)) = (1717987 / 4194304)"
    unfolding d64_def by (subst round_bits_scaled [where k = 54]) (simp_all add: rne_def Let_def)
  have b: "d64 ((1717987 / 4194304) * (3602879701896397 / 18014398509481984)) = (2951479191981261 / 36028797018963968)"
    unfolding d64_def by (subst round_bits_scaled [where k = 56]) (simp_all add: rne_def Let_def)
  have c: "d64 ((2476317 / 4194304) + (2951479191981261 / 36028797018963968)) = (6055720062759731 / 9007199254740992)"
    unfolding d64_def by (subst round_bits_scaled [where k = 53]) (simp_all add: rne_def Let_def)
  have d: "f32 ((6055720062759731 / 9007199254740992)) = (5639829 / 8388608)"
    unfolding f32_def by (subst round_bits_scaled [where k = 24]) (simp_all add: rne_def Let_def)
  show ?thesis unfolding cell_fp_def trace_target a b c d by (rule refl)
qed

lemma trace_cell_6: "cell_fp 0 1 1 (3602879701896397 / 18014398509481984) (5639829 / 8388608) = (6189585 / 8388608)"
proof -
  have a: "d64 (1 - (5639829 / 8388608)) = (2748779 / 8388608)"
    unfolding d64_def by (subst round_bits_scaled [where k = 54]) (simp_all add: rne_def Let_def)
  have b: "d64 ((2748779 / 8388608) * (3602879701896397 / 18014398509481984)) = (2361183181786317 / 36028797018963968)"
    unfolding d64_def by (subst round_bits_scaled [where k = 56]) (simp_all add: rne_def Let_def)
  have c: "d64 ((5639829 / 8388608) + (2361183181786317 / 36028797018963968)) = (6646016072954675 / 9007199254740992)"
    unfolding d64_def by (subst round_bits_scaled [where k = 53]) (simp_all add: rne_def Let_def)
  have d: "f32 ((6646016072954675 / 9007199254740992)) = (6189585 / 8388608)"
    unfolding f32_def by (subst round_bits_scaled [where k = 24]) (simp_all add: rne_def Let_def)
  show ?thesis unfolding cell_fp_def trace_target a b c d by (rule refl)
qed

lemma trace_cell_7: "cell_fp 0 1 1 (3602879701896397 / 18014398509481984) (6189585 / 8388608) = (13258779 / 16777216)"
proof -
  have a: "d64 (1 - (6189585 / 8388608)) = (2199023 / 8388608)"
    unfolding d64_def by (subst round_bits_scaled [where k = 54]) (simp_all add: rne_def Let_def)
  have b: "d64 ((2199023 / 8388608) * (3602879701896397 / 18014398509481984)) = (7555785494521447 / 144115188075855872)"
    unfolding d64_def by (subst round_bits_scaled [where k = 57]) (simp_all add: rne_def Let_def)
  have c: "d64 ((6189585 / 8388608) + (7555785494521447 / 144115188075855872)) = (3559126440555315 / 4503599627370496)"
    unfolding d64_def by (subst round_bits_scaled [where k = 53]) (simp_all add: rne_def Let_def)
  have d: "f32 ((3559126440555315 / 4503599627370496)) = (13258779 / 16777216)"
    unfolding f32_def by (subst round_bits_scaled [where k = 24]) (simp_all add: rne_def Let_def)
  show ?thesis unfolding cell_fp_def trace_target a b c d by (rule refl)
qed

lemma trace_cell_8: "cell_fp 0 1 1 (3602879701896397 / 18014398509481984) (13258779 / 16777216) = (6981233 / 8388608)"
proof -
  have a: "d64 (1 - (13258779 / 16777216)) = (3518437 / 16777216)"
    unfolding d64_def by (subst round_bits_scaled [where k = 55]) (simp_all add: rne_def Let_def)
  have b: "d64 ((3518437 / 16777216) * (3602879701896397 / 18014398509481984)) = (6044628739214541 / 144115188075855872)"
    unfolding d64_def by (subst round_bits_scaled [where k = 57]) (simp_all add: rne_def Let_def)
  have c: "d64 ((13258779 / 16777216) + (6044628739214541 / 144115188075855872)) = (7496042069937357 / 9007199254740992)"
    unfolding d64_def by (subst round_bits_scaled [where k = 53]) (simp_all add: rne_def Let_def)
  have d: "f32 ((7496042069937357 / 9007199254740992)) = (6981233 / 8388608)"
    unfolding f32_def by (subst round_bits_scaled [where k = 24]) (simp_all add: rne_def Let_def)
  show ?thesis unfolding cell_fp_def trace_target a b c d by (rule refl)
qed

lemma trace_cell_9: "cell_fp 0 1 1 (3602879701896397 / 18014398509481984) (6981233 / 8388608) = (1815677 / 2097152)"
proof -
  have a: "d64 (1 - (6981233 / 8388608)) = (1407375 / 8388608)"
    unfolding d64_def by (subst round_bits_scaled [where k = 55]) (simp_all add: rne_def Let_def)
  have b: "d64 ((1407375 / 8388608) * (3602879701896397 / 18014398509481984)) = (281475 / 8388608)"
    unfolding d64_def by (subst round_bits_scaled [where k = 57]) (simp_all add: rne_def Let_def)
  have c: "d64 ((6981233 / 8388608) + (281475 / 8388608)) = (1815677 / 2097152)"
    unfolding d64_def by (subst round_bits_scaled [where k = 53]) (simp_all add: rne_def Let_def)
  have d: "f32 ((1815677 / 2097152)) = (1815677 / 2097152)"
    unfolding f32_def by (subst round_bits_scaled [where k = 24]) (simp_all add: rne_def Let_def)
  show ?thesis unfolding cell_fp_def trace_target a b c d by (rule refl)
qed

lemma trace_cell_10: "cell_fp 0 1 1 (3602879701896397 / 18014398509481984) (1815677 / 2097152) = (467993 / 524288)"
proof -
  have a: "d64 (1 - (1815677 / 2097152)) = (281475 / 2097152)"
    unfolding d64_def by (subst round_bits_scaled [where k = 55]) (simp_all add: rne_def Let_def)
  have b: "d64 ((281475 / 2097152) * (3602879701896397 / 18014398509481984)) = (56295 / 2097152)"
    unfolding d64_def by (subst round_bits_scaled [where k = 58]) (simp_all add: rne_def Let_def)
  have c: "d64 ((1815677 / 2097152) + (56295 / 2097152)) = (467993 / 524288)"
    unfolding d64_def by (subst round_bits_scaled [where k = 53]) (simp_all add: rne_def Let_def)
  have d: "f32 ((467993 / 524288)) = (467993 / 524288)"
    unfolding f32_def by (subst round_bits_scaled [where k = 24]) (simp_all add: rne_def Let_def)
  show ?thesis unfolding cell_fp_def trace_target a b c d by (rule refl)
qed

lemma trace_cell_11: "cell_fp 0 1 1 (3602879701896397 / 18014398509481984) (467993 / 524288) = (119813 / 131072)"
proof -
  have a: "d64 (1 - (467993 / 524288)) = (56295 / 524288)"
    unfolding d64_def by (subst round_bits_scaled [where k = 56]) (simp_all add: rne_def Let_def)
  have b: "d64 ((56295 / 524288) * (3602879701896397 / 18014398509481984)) = (11259 / 524288)"
    unfolding d64_def by (subst round_bits_scaled [where k = 58]) (simp_all add: rne_def Let_def)
  have c: "d64 ((467993 / 524288) + (11259 / 524288)) = (119813 / 131072)"
    unfolding d64_def by (subst round_bits_scaled [where k = 53]) (simp_all add: rne_def Let_def)
  have d: "f32 ((119813 / 131072)) = (119813 / 131072)"
    unfolding f32_def by (subst round_bits_scaled [where k = 24]) (simp_all add: rne_def Let_def)
  show ?thesis unfolding cell_fp_def trace_target a b c d by (rule refl)
qed

lemma trace_cell_12: "cell_fp 0 1 1 (3602879701896397 / 18014398509481984) (119813 / 131072) = (7812147 / 8388608)"
proof -
  have a: "d64 (1 - (119813 / 131072)) = (11259 / 131072)"
    unfolding d64_def by (subst round_bits_scaled [where k = 56]) (simp_all add: rne_def Let_def)
  have b: "d64 ((11259 / 131072) * (3602879701896397 / 18014398509481984)) = (2475880283425997 / 144115188075855872)"
    unfolding d64_def by (subst round_bits_scaled [where k = 58]) (simp_all add: rne_def Let_def)
  have c: "d64 ((119813 / 131072) + (2475880283425997 / 144115188075855872)) = (8388229183884493 / 9007199254740992)"
    unfolding d64_def by (subst round_bits_scaled [where k = 53]) (simp_all add: rne_def Let_def)
  have d: "f32 ((8388229183884493 / 9007199254740992)) = (7812147 / 8388608)"
    unfolding f32_def by (subst round_bits_scaled [where k = 24]) (simp_all add: rne_def Let_def)
  show ?thesis unfolding cell_fp_def trace_target a b c d by (rule refl)
qed

lemma trace_cell_13: "cell_fp 0 1 1 (3602879701896397 / 18014398509481984) (7812147 / 8388608) = (7927439 / 8388608)"
proof -
  have a: "d64 (1 - (7812147 / 8388608)) = (576461 / 8388608)"
    unfolding d64_def by (subst round_bits_scaled [where k = 56]) (simp_all add: rne_def Let_def)
  have b: "d64 ((576461 / 8388608) * (3602879701896397 / 18014398509481984)) = (1980704913935565 / 144115188075855872)"
    unfolding d64_def by (subst round_bits_scaled [where k = 59]) (simp_all add: rne_def Let_def)
  have c: "d64 ((7812147 / 8388608) + (1980704913935565 / 144115188075855872)) = (8512023026257101 / 9007199254740992)"
    unfolding d64_def by (subst round_bits_scaled [where k = 53]) (simp_all add: rne_def Let_def)
  have d: "f32 ((8512023026257101 / 9007199254740992)) = (7927439 / 8388608)"
    unfolding f32_def by (subst round_bits_scaled [where k = 24]) (simp_all add: rne_def Let_def)
  show ?thesis unfolding cell_fp_def trace_target a b c d by (rule refl)
qed

lemma trace_cell_14: "cell_fp 0 1 1 (3602879701896397 / 18014398509481984) (7927439 / 8388608) = (8019673 / 8388608)"
proof -
  have a: "d64 (1 - (7927439 / 8388608)) = (461169 / 8388608)"
    unfolding d64_def by (subst round_bits_scaled [where k = 57]) (simp_all add: rne_def Let_def)
  have b: "d64 ((461169 / 8388608) * (3602879701896397 / 18014398509481984)) = (6338258473372877 / 576460752303423488)"
    unfolding d64_def by (subst round_bits_scaled [where k = 59]) (simp_all add: rne_def Let_def)
  have c: "d64 ((7927439 / 8388608) + (6338258473372877 / 576460752303423488)) = (8611058100155187 / 9007199254740992)"
    unfolding d64_def by (subst round_bits_scaled [where k = 53]) (simp_all add: rne_def Let_def)
  have d: "f32 ((8611058100155187 / 9007199254740992)) = (8019673 / 8388608)"
    unfolding f32_def by (subst round_bits_scaled [where k = 24]) (simp_all add: rne_def Let_def)
  show ?thesis unfolding cell_fp_def trace_target a b c d by (rule refl)
qed

lemma trace_cell_15: "cell_fp 0 1 1 (3602879701896397 / 18014398509481984) (8019673 / 8388608) = (2023365 / 2097152)"
proof -
  have a: "d64 (1 - (8019673 / 8388608)) = (368935 / 8388608)"
    unfolding d64_def by (subst round_bits_scaled [where k = 57]) (simp_all add: rne_def Let_def)
  have b: "d64 ((368935 / 8388608) * (3602879701896397 / 18014398509481984)) = (73787 / 8388608)"
    unfolding d64_def by (subst round_bits_scaled [where k = 59]) (simp_all add: rne_def Let_def)
  have c: "d64 ((8019673 / 8388608) + (73787 / 8388608)) = (2023365 / 2097152)"
    unfolding d64_def by (subst round_bits_scaled [where k = 53]) (simp_all add: rne_def Let_def)
  have d: "f32 ((2023365 / 2097152)) = (2023365 / 2097152)"
    unfolding f32_def by (subst round_bits_scaled [where k = 24]) (simp_all add: rne_def Let_def)
  show ?thesis unfolding cell_fp_def trace_target a b c d by (rule refl)
qed

lemma trace_cell_16: "cell_fp 0 1 1 (3602879701896397 / 18014398509481984) (2023365 / 2097152) = (16304979 / 16777216)"
proof -
  have a: "d64 (1 - (2023365 / 2097152)) = (73787 / 2097152)"
    unfolding d64_def by (subst round_bits_scaled [where k = 57]) (simp_all add: rne_def Let_def)
  have b: "d64 ((73787 / 2097152) * (3602879701896397 / 18014398509481984)) = (2028241611967693 / 288230376151711744)"
    unfolding d64_def by (subst round_bits_scaled [where k = 60]) (simp_all add: rne_def Let_def)
  have c: "d64 ((2023365 / 2097152) + (2028241611967693 / 288230376151711744)) = (4376834526622515 / 4503599627370496)"
    unfolding d64_def by (subst round_bits_scaled [where k = 53]) (simp_all add: rne_def Let_def)
  have d: "f32 ((4376834526622515 / 4503599627370496)) = (16304979 / 16777216)"
    unfolding f32_def by (subst round_bits_scaled [where k = 24]) (simp_all add: rne_def Let_def)
  show ?thesis unfolding cell_fp_def trace_target a b c d by (rule refl)
qed

lemma trace_cell_17: "cell_fp 0 1 1 (3602879701896397 / 18014398509481984) (16304979 / 16777216) = (8199713 / 8388608)"
proof -
  have a: "d64 (1 - (16304979 / 16777216)) = (472237 / 16777216)"
    unfolding d64_def by (subst round_bits_scaled [where k = 58]) (simp_all add: rne_def Let_def)
  have b: "d64 ((472237 / 16777216) * (3602879701896397 / 18014398509481984)) = (6490375907075687 / 1152921504606846976)"
    unfolding d64_def by (subst round_bits_scaled [where k = 60]) (simp_all add: rne_def Let_def)
  have c: "d64 ((16304979 / 16777216) + (6490375907075687 / 1152921504606846976)) = (8804375007644877 / 9007199254740992)"
    unfolding d64_def by (subst round_bits_scaled [where k = 53]) (simp_all add: rne_def Let_def)
  have d: "f32 ((8804375007644877 / 9007199254740992)) = (8199713 / 8388608)"
    unfolding f32_def by (subst round_bits_scaled [where k = 24]) (simp_all add: rne_def Let_def)
  show ?thesis unfolding cell_fp_def trace_target a b c d by (rule refl)
qed

lemma trace_cell_18: "cell_fp 0 1 1 (3602879701896397 / 18014398509481984) (8199713 / 8388608) = (2059373 / 2097152)"
proof -
  have a: "d64 (1 - (8199713 / 8388608)) = (188895 / 8388608)"
    unfolding d64_def by (subst round_bits_scaled [where k = 58]) (simp_all add: rne_def Let_def)
  have b: "d64 ((188895 / 8388608) * (3602879701896397 / 18014398509481984)) = (37779 / 8388608)"
    unfolding d64_def by (subst round_bits_scaled [where k = 60]) (simp_all add: rne_def Let_def)
  have c: "d64 ((8199713 / 8388608) + (37779 / 8388608)) = (2059373 / 2097152)"
    unfolding d64_def by (subst round_bits_scaled [where k = 53]) (simp_all add: rne_def Let_def)
  have d: "f32 ((2059373 / 2097152)) = (2059373 / 2097152)"
    unfolding f32_def by (subst round_bits_scaled [where k = 24]) (simp_all add: rne_def Let_def)
  show ?thesis unfolding cell_fp_def trace_target a b c d by (rule refl)
qed

lemma trace_cell_19: "cell_fp 0 1 1 (3602879701896397 / 18014398509481984) (2059373 / 2097152) = (8267715 / 8388608)"
proof -
  have a: "d64 (1 - (2059373 / 2097152)) = (37779 / 2097152)"
    unfolding d64_def by (subst round_bits_scaled [where k = 58]) (simp_all add: rne_def Let_def)
  have b: "d64 ((37779 / 2097152) * (3602879701896397 / 18014398509481984)) = (8307689957149901 / 2305843009213693952)"
    unfolding d64_def by (subst round_bits_scaled [where k = 61]) (simp_all add: rne_def Let_def)
  have c: "d64 ((2059373 / 2097152) + (8307689957149901 / 2305843009213693952)) = (8877391599160525 / 9007199254740992)"
    unfolding d64_def by (subst round_bits_scaled [where k = 53]) (simp_all add: rne_def Let_def)
  have d: "f32 ((8877391599160525 / 9007199254740992)) = (8267715 / 8388608)"
    unfolding f32_def by (subst round_bits_scaled [where k = 24]) (simp_all add: rne_def Let_def)
  show ?thesis unfolding cell_fp_def trace_target a b c d by (rule refl)
qed

lemma trace_cell_20: "cell_fp 0 1 1 (3602879701896397 / 18014398509481984) (8267715 / 8388608) = (16583787 / 16777216)"
proof -
  have a: "d64 (1 - (8267715 / 8388608)) = (120893 / 8388608)"
    unfolding d64_def by (subst round_bits_scaled [where k = 59]) (simp_all add: rne_def Let_def)
  have b: "d64 ((120893 / 8388608) * (3602879701896397 / 18014398509481984)) = (6646162960836199 / 2305843009213693952)"
    unfolding d64_def by (subst round_bits_scaled [where k = 61]) (simp_all add: rne_def Let_def)
  have c: "d64 ((8267715 / 8388608) + (6646162960836199 / 2305843009213693952)) = (4451676479238963 / 4503599627370496)"
    unfolding d64_def by (subst round_bits_scaled [where k = 53]) (simp_all add: rne_def Let_def)
  have d: "f32 ((4451676479238963 / 4503599627370496)) = (16583787 / 16777216)"
    unfolding f32_def by (subst round_bits_scaled [where k = 24]) (simp_all add: rne_def Let_def)
  show ?thesis unfolding cell_fp_def trace_target a b c d by (rule refl)
qed

lemma trace_cell_21: "cell_fp 0 1 1 (3602879701896397 / 18014398509481984) (16583787 / 16777216) = (16622473 / 16777216)"
proof -
  have a: "d64 (1 - (16583787 / 16777216)) = (193429 / 16777216)"
    unfolding d64_def by (subst round_bits_scaled [where k = 59]) (simp_all add: rne_def Let_def)
  have b: "d64 ((193429 / 16777216) * (3602879701896397 / 18014398509481984)) = (2658467933113549 / 1152921504606846976)"
    unfolding d64_def by (subst round_bits_scaled [where k = 61]) (simp_all add: rne_def Let_def)
  have c: "d64 ((16583787 / 16777216) + (2658467933113549 / 1152921504606846976)) = (4462061065915597 / 4503599627370496)"
    unfolding d64_def by (subst round_bits_scaled [where k = 53]) (simp_all add: rne_def Let_def)
  have d: "f32 ((4462061065915597 / 4503599627370496)) = (16622473 / 16777216)"
    unfolding f32_def by (subst round_bits_scaled [where k = 24]) (simp_all add: rne_def Let_def)
  show ?thesis unfolding cell_fp_def trace_target a b c d by (rule refl)
qed

lemma trace_cell_22: "cell_fp 0 1 1 (3602879701896397 / 18014398509481984) (16622473 / 16777216) = (8326711 / 8388608)"
proof -
  have a: "d64 (1 - (16622473 / 16777216)) = (154743 / 16777216)"
    unfolding d64_def by (subst round_bits_scaled [where k = 59]) (simp_all add: rne_def Let_def)
  have b: "d64 ((154743 / 16777216) * (3602879701896397 / 18014398509481984)) = (8507086390847079 / 4611686018427387904)"
    unfolding d64_def by (subst round_bits_scaled [where k = 62]) (simp_all add: rne_def Let_def)
  have c: "d64 ((16622473 / 16777216) + (8507086390847079 / 4611686018427387904)) = (8940737642312499 / 9007199254740992)"
    unfolding d64_def by (subst round_bits_scaled [where k = 53]) (simp_all add: rne_def Let_def)
  have d: "f32 ((8940737642312499 / 9007199254740992)) = (8326711 / 8388608)"
    unfolding f32_def by (subst round_bits_scaled [where k = 24]) (simp_all add: rne_def Let_def)
  show ?thesis unfolding cell_fp_def trace_target a b c d by (rule refl)
qed

lemma trace_cell_23: "cell_fp 0 1 1 (3602879701896397 / 18014398509481984) (8326711 / 8388608) = (16678181 / 16777216)"
proof -
  have a: "d64 (1 - (8326711 / 8388608)) = (61897 / 8388608)"
    unfolding d64_def by (subst round_bits_scaled [where k = 60]) (simp_all add: rne_def Let_def)
  have b: "d64 ((61897 / 8388608) * (3602879701896397 / 18014398509481984)) = (1701411780611277 / 1152921504606846976)"
    unfolding d64_def by (subst round_bits_scaled [where k = 62]) (simp_all add: rne_def Let_def)
  have c: "d64 ((8326711 / 8388608) + (1701411780611277 / 1152921504606846976)) = (4477015068298445 / 4503599627370496)"
    unfolding d64_def by (subst round_bits_scaled [where k = 53]) (simp_all add: rne_def Let_def)
  have d: "f32 ((4477015068298445 / 4503599627370496)) = (16678181 / 16777216)"
    unfolding f32_def by (subst round_bits_scaled [where k = 24]) (simp_all add: rne_def Let_def)
  show ?thesis unfolding cell_fp_def trace_target a b c d by (rule refl)
qed

lemma trace_cell_24: "cell_fp 0 1 1 (3602879701896397 / 18014398509481984) (16678181 / 16777216) = (4174497 / 4194304)"
proof -
  have a: "d64 (1 - (16678181 / 16777216)) = (99035 / 16777216)"
    unfolding d64_def by (subst round_bits_scaled [where k = 60]) (simp_all add: rne_def Let_def)
  have b: "d64 ((99035 / 16777216) * (3602879701896397 / 18014398509481984)) = (19807 / 16777216)"
    unfolding d64_def by (subst round_bits_scaled [where k = 62]) (simp_all add: rne_def Let_def)
  have c: "d64 ((16678181 / 16777216) + (19807 / 16777216)) = (4174497 / 4194304)"
    unfolding d64_def by (subst round_bits_scaled [where k = 53]) (simp_all add: rne_def Let_def)
  have d: "f32 ((4174497 / 4194304)) = (4174497 / 4194304)"
    unfolding f32_def by (subst round_bits_scaled [where k = 24]) (simp_all add: rne_def Let_def)
  show ?thesis unfolding cell_fp_def trace_target a b c d by (rule refl)
qed

lemma trace_cell_25: "cell_fp 0 1 1 (3602879701896397 / 18014398509481984) (4174497 / 4194304) = (8356917 / 8388608)"
proof -
  have a: "d64 (1 - (4174497 / 4194304)) = (19807 / 4194304)"
    unfolding d64_def by (subst round_bits_scaled [where k = 60]) (simp_all add: rne_def Let_def)
  have b: "d64 ((19807 / 4194304) * (3602879701896397 / 18014398509481984)) = (8711210724543693 / 9223372036854775808)"
    unfolding d64_def by (subst round_bits_scaled [where k = 63]) (simp_all add: rne_def Let_def)
  have c: "d64 ((4174497 / 4194304) + (8711210724543693 / 9223372036854775808)) = (8973171087848243 / 9007199254740992)"
    unfolding d64_def by (subst round_bits_scaled [where k = 53]) (simp_all add: rne_def Let_def)
  have d: "f32 ((8973171087848243 / 9007199254740992)) = (8356917 / 8388608)"
    unfolding f32_def by (subst round_bits_scaled [where k = 24]) (simp_all add: rne_def Let_def)
  show ?thesis unfolding cell_fp_def trace_target a b c d by (rule refl)
qed

lemma trace_cell_26: "cell_fp 0 1 1 (3602879701896397 / 18014398509481984) (8356917 / 8388608) = (8363255 / 8388608)"
proof -
  have a: "d64 (1 - (8356917 / 8388608)) = (31691 / 8388608)"
    unfolding d64_def by (subst round_bits_scaled [where k = 61]) (simp_all add: rne_def Let_def)
  have b: "d64 ((31691 / 8388608) * (3602879701896397 / 18014398509481984)) = (1742231149792461 / 2305843009213693952)"
    unfolding d64_def by (subst round_bits_scaled [where k = 63]) (simp_all add: rne_def Let_def)
  have c: "d64 ((8356917 / 8388608) + (1742231149792461 / 2305843009213693952)) = (8979976893025485 / 9007199254740992)"
    unfolding d64_def by (subst round_bits_scaled [where k = 53]) (simp_all add: rne_def Let_def)
  have d: "f32 ((8979976893025485 / 9007199254740992)) = (8363255 / 8388608)"
    unfolding f32_def by (subst round_bits_scaled [where k = 24]) (simp_all add: rne_def Let_def)
  show ?thesis unfolding cell_fp_def trace_target a b c d by (rule refl)
qed

lemma trace_cell_27: "cell_fp 0 1 1 (3602879701896397 / 18014398509481984) (8363255 / 8388608) = (16736651 / 16777216)"
proof -
  have a: "d64 (1 - (8363255 / 8388608)) = (25353 / 8388608)"
    unfolding d64_def by (subst round_bits_scaled [where k = 61]) (simp_all add: rne_def Let_def)
  have b: "d64 ((25353 / 8388608) * (3602879701896397 / 18014398509481984)) = (2787591829900493 / 4611686018427387904)"
    unfolding d64_def by (subst round_bits_scaled [where k = 63]) (simp_all add: rne_def Let_def)
  have c: "d64 ((8363255 / 8388608) + (2787591829900493 / 4611686018427387904)) = (4492710596784947 / 4503599627370496)"
    unfolding d64_def by (subst round_bits_scaled [where k = 53]) (simp_all add: rne_def Let_def)
  have d: "f32 ((4492710596784947 / 4503599627370496)) = (16736651 / 16777216)"
    unfolding f32_def by (subst round_bits_scaled [where k = 24]) (simp_all add: rne_def Let_def)
  show ?thesis unfolding cell_fp_def trace_target a b c d by (rule refl)
qed

lemma trace_cell_28: "cell_fp 0 1 1 (3602879701896397 / 18014398509481984) (16736651 / 16777216) = (4186191 / 4194304)"
proof -
  have a: "d64 (1 - (16736651 / 16777216)) = (40565 / 16777216)"
    unfolding d64_def by (subst round_bits_scaled [where k = 61]) (simp_all add: rne_def Let_def)
  have b: "d64 ((40565 / 16777216) * (3602879701896397 / 18014398509481984)) = (8113 / 16777216)"
    unfolding d64_def by (subst round_bits_scaled [where k = 64]) (simp_all add: rne_def Let_def)
  have c: "d64 ((16736651 / 16777216) + (8113 / 16777216)) = (4186191 / 4194304)"
    unfolding d64_def by (subst round_bits_scaled [where k = 53]) (simp_all add: rne_def Let_def)
  have d: "f32 ((4186191 / 4194304)) = (4186191 / 4194304)"
    unfolding f32_def by (subst round_bits_scaled [where k = 24]) (simp_all add: rne_def Let_def)
  show ?thesis unfolding cell_fp_def trace_target a b c d by (rule refl)
qed

lemma trace_cell_29: "cell_fp 0 1 1 (3602879701896397 / 18014398509481984) (4186191 / 4194304) = (8375627 / 8388608)"
proof -
  have a: "d64 (1 - (4186191 / 4194304)) = (8113 / 4194304)"
    unfolding d64_def by (subst round_bits_scaled [where k = 62]) (simp_all add: rne_def Let_def)
  have b: "d64 ((8113 / 4194304) * (3602879701896397 / 18014398509481984)) = (7136270268917351 / 18446744073709551616)"
    unfolding d64_def by (subst round_bits_scaled [where k = 64]) (simp_all add: rne_def Let_def)
  have c: "d64 ((4186191 / 4194304) + (7136270268917351 / 18446744073709551616)) = (8993261226872013 / 9007199254740992)"
    unfolding d64_def by (subst round_bits_scaled [where k = 53]) (simp_all add: rne_def Let_def)
  have d: "f32 ((8993261226872013 / 9007199254740992)) = (8375627 / 8388608)"
    unfolding f32_def by (subst round_bits_scaled [where k = 24]) (simp_all add: rne_def Let_def)
  show ?thesis unfolding cell_fp_def trace_target a b c d by (rule refl)
qed

lemma trace_cell_30: "cell_fp 0 1 1 (3602879701896397 / 18014398509481984) (8375627 / 8388608) = (8378223 / 8388608)"
proof -
  have a: "d64 (1 - (8375627 / 8388608)) = (12981 / 8388608)"
    unfolding d64_def by (subst round_bits_scaled [where k = 62]) (simp_all add: rne_def Let_def)
  have b: "d64 ((12981 / 8388608) * (3602879701896397 / 18014398509481984)) = (5709104176064103 / 18446744073709551616)"
    unfolding d64_def by (subst round_bits_scaled [where k = 64]) (simp_all add: rne_def Let_def)
  have c: "d64 ((8375627 / 8388608) + (5709104176064103 / 18446744073709551616)) = (8996048660647117 / 9007199254740992)"
    unfolding d64_def by (subst round_bits_scaled [where k = 53]) (simp_all add: rne_def Let_def)
  have d: "f32 ((8996048660647117 / 9007199254740992)) = (8378223 / 8388608)"
    unfolding f32_def by (subst round_bits_scaled [where k = 24]) (simp_all add: rne_def Let_def)
  show ?thesis unfolding cell_fp_def trace_target a b c d by (rule refl)
qed

lemma trace_cell_31: "cell_fp 0 1 1 (3602879701896397 / 18014398509481984) (8378223 / 8388608) = (2095075 / 2097152)"
proof -
  have a: "d64 (1 - (8378223 / 8388608)) = (10385 / 8388608)"
    unfolding d64_def by (subst round_bits_scaled [where k = 62]) (simp_all add: rne_def Let_def)
  have b: "d64 ((10385 / 8388608) * (3602879701896397 / 18014398509481984)) = (2077 / 8388608)"
    unfolding d64_def by (subst round_bits_scaled [where k = 64]) (simp_all add: rne_def Let_def)
  have c: "d64 ((8378223 / 8388608) + (2077 / 8388608)) = (2095075 / 2097152)"
    unfolding d64_def by (subst round_bits_scaled [where k = 53]) (simp_all add: rne_def Let_def)
  have d: "f32 ((2095075 / 2097152)) = (2095075 / 2097152)"
    unfolding f32_def by (subst round_bits_scaled [where k = 24]) (simp_all add: rne_def Let_def)
  show ?thesis unfolding cell_fp_def trace_target a b c d by (rule refl)
qed

lemma trace_cell_32: "cell_fp 0 1 1 (3602879701896397 / 18014398509481984) (2095075 / 2097152) = (16763923 / 16777216)"
proof -
  have a: "d64 (1 - (2095075 / 2097152)) = (2077 / 2097152)"
    unfolding d64_def by (subst round_bits_scaled [where k = 62]) (simp_all add: rne_def Let_def)
  have b: "d64 ((2077 / 2097152) * (3602879701896397 / 18014398509481984)) = (7307794082850407 / 36893488147419103232)"
    unfolding d64_def by (subst round_bits_scaled [where k = 65]) (simp_all add: rne_def Let_def)
  have c: "d64 ((2095075 / 2097152) + (7307794082850407 / 36893488147419103232)) = (4500031368540979 / 4503599627370496)"
    unfolding d64_def by (subst round_bits_scaled [where k = 53]) (simp_all add: rne_def Let_def)
  have d: "f32 ((4500031368540979 / 4503599627370496)) = (16763923 / 16777216)"
    unfolding f32_def by (subst round_bits_scaled [where k = 24]) (simp_all add: rne_def Let_def)
  show ?thesis unfolding cell_fp_def trace_target a b c d by (rule refl)
qed

lemma trace_cell_33: "cell_fp 0 1 1 (3602879701896397 / 18014398509481984) (16763923 / 16777216) = (8383291 / 8388608)"
proof -
  have a: "d64 (1 - (16763923 / 16777216)) = (13293 / 16777216)"
    unfolding d64_def by (subst round_bits_scaled [where k = 63]) (simp_all add: rne_def Let_def)
  have b: "d64 ((13293 / 16777216) * (3602879701896397 / 18014398509481984)) = (1461580806802637 / 9223372036854775808)"
    unfolding d64_def by (subst round_bits_scaled [where k = 65]) (simp_all add: rne_def Let_def)
  have c: "d64 ((16763923 / 16777216) + (1461580806802637 / 9223372036854775808)) = (9001489954714419 / 9007199254740992)"
    unfolding d64_def by (subst round_bits_scaled [where k = 53]) (simp_all add: rne_def Let_def)
  have d: "f32 ((9001489954714419 / 9007199254740992)) = (8383291 / 8388608)"
    unfolding f32_def by (subst round_bits_scaled [where k = 24]) (simp_all add: rne_def Let_def)
  show ?thesis unfolding cell_fp_def trace_target a b c d by (rule refl)
qed

lemma trace_cell_34: "cell_fp 0 1 1 (3602879701896397 / 18014398509481984) (8383291 / 8388608) = (16768709 / 16777216)"
proof -
  have a: "d64 (1 - (8383291 / 8388608)) = (5317 / 8388608)"
    unfolding d64_def by (subst round_bits_scaled [where k = 63]) (simp_all add: rne_def Let_def)
  have b: "d64 ((5317 / 8388608) * (3602879701896397 / 18014398509481984)) = (2338441329953997 / 18446744073709551616)"
    unfolding d64_def by (subst round_bits_scaled [where k = 65]) (simp_all add: rne_def Let_def)
  have c: "d64 ((8383291 / 8388608) + (2338441329953997 / 18446744073709551616)) = (4501315993259213 / 4503599627370496)"
    unfolding d64_def by (subst round_bits_scaled [where k = 53]) (simp_all add: rne_def Let_def)
  have d: "f32 ((4501315993259213 / 4503599627370496)) = (16768709 / 16777216)"
    unfolding f32_def by (subst round_bits_scaled [where k = 24]) (simp_all add: rne_def Let_def)
  show ?thesis unfolding cell_fp_def trace_target a b c d by (rule refl)
qed

lemma trace_cell_35: "cell_fp 0 1 1 (3602879701896397 / 18014398509481984) (16768709 / 16777216) = (8385205 / 8388608)"
proof -
  have a: "d64 (1 - (16768709 / 16777216)) = (8507 / 16777216)"
    unfolding d64_def by (subst round_bits_scaled [where k = 63]) (simp_all add: rne_def Let_def)
  have b: "d64 ((8507 / 16777216) * (3602879701896397 / 18014398509481984)) = (3741418166996173 / 36893488147419103232)"
    unfolding d64_def by (subst round_bits_scaled [where k = 66]) (simp_all add: rne_def Let_def)
  have c: "d64 ((16768709 / 16777216) + (3741418166996173 / 36893488147419103232)) = (9003545526062285 / 9007199254740992)"
    unfolding d64_def by (subst round_bits_scaled [where k = 53]) (simp_all add: rne_def Let_def)
  have d: "f32 ((9003545526062285 / 9007199254740992)) = (8385205 / 8388608)"
    unfolding f32_def by (subst round_bits_scaled [where k = 24]) (simp_all add: rne_def Let_def)
  show ?thesis unfolding cell_fp_def trace_target a b c d by (rule refl)
qed

lemma trace_cell_36: "cell_fp 0 1 1 (3602879701896397 / 18014398509481984) (8385205 / 8388608) = (16771771 / 16777216)"
proof -
  have a: "d64 (1 - (8385205 / 8388608)) = (3403 / 8388608)"
    unfolding d64_def by (subst round_bits_scaled [where k = 64]) (simp_all add: rne_def Let_def)
  have b: "d64 ((3403 / 8388608) * (3602879701896397 / 18014398509481984)) = (5986620910914765 / 73786976294838206464)"
    unfolding d64_def by (subst round_bits_scaled [where k = 66]) (simp_all add: rne_def Let_def)
  have c: "d64 ((8385205 / 8388608) + (5986620910914765 / 73786976294838206464)) = (4502138049999667 / 4503599627370496)"
    unfolding d64_def by (subst round_bits_scaled [where k = 53]) (simp_all add: rne_def Let_def)
  have d: "f32 ((4502138049999667 / 4503599627370496)) = (16771771 / 16777216)"
    unfolding f32_def by (subst round_bits_scaled [where k = 24]) (simp_all add: rne_def Let_def)
  show ?thesis unfolding cell_fp_def trace_target a b c d by (rule refl)
qed

lemma trace_cell_37: "cell_fp 0 1 1 (3602879701896397 / 18014398509481984) (16771771 / 16777216) = (4193215 / 4194304)"
proof -
  have a: "d64 (1 - (16771771 / 16777216)) = (5445 / 16777216)"
    unfolding d64_def by (subst round_bits_scaled [where k = 64]) (simp_all add: rne_def Let_def)
  have b: "d64 ((5445 / 16777216) * (3602879701896397 / 18014398509481984)) = (1089 / 16777216)"
    unfolding d64_def by (subst round_bits_scaled [where k = 66]) (simp_all add: rne_def Let_def)
  have c: "d64 ((16771771 / 16777216) + (1089 / 16777216)) = (4193215 / 4194304)"
    unfolding d64_def by (subst round_bits_scaled [where k = 53]) (simp_all add: rne_def Let_def)
  have d: "f32 ((4193215 / 4194304)) = (4193215 / 4194304)"
    unfolding f32_def by (subst round_bits_scaled [where k = 24]) (simp_all add: rne_def Let_def)
  show ?thesis unfolding cell_fp_def trace_target a b c d by (rule refl)
qed

lemma trace_cell_38: "cell_fp 0 1 1 (3602879701896397 / 18014398509481984) (4193215 / 4194304) = (16773731 / 16777216)"
proof -
  have a: "d64 (1 - (4193215 / 4194304)) = (1089 / 4194304)"
    unfolding d64_def by (subst round_bits_scaled [where k = 64]) (simp_all add: rne_def Let_def)
  have b: "d64 ((1089 / 4194304) * (3602879701896397 / 18014398509481984)) = (3831578120473805 / 73786976294838206464)"
    unfolding d64_def by (subst round_bits_scaled [where k = 67]) (simp_all add: rne_def Let_def)
  have c: "d64 ((4193215 / 4194304) + (3831578120473805 / 73786976294838206464)) = (4502664183493427 / 4503599627370496)"
    unfolding d64_def by (subst round_bits_scaled [where k = 53]) (simp_all add: rne_def Let_def)
  have d: "f32 ((4502664183493427 / 4503599627370496)) = (16773731 / 16777216)"
    unfolding f32_def by (subst round_bits_scaled [where k = 24]) (simp_all add: rne_def Let_def)
  show ?thesis unfolding cell_fp_def trace_target a b c d by (rule refl)
qed

lemma trace_cell_39: "cell_fp 0 1 1 (3602879701896397 / 18014398509481984) (16773731 / 16777216) = (4193607 / 4194304)"
proof -
  have a: "d64 (1 - (16773731 / 16777216)) = (3485 / 16777216)"
    unfolding d64_def by (subst round_bits_scaled [where k = 65]) (simp_all add: rne_def Let_def)
  have b: "d64 ((3485 / 16777216) * (3602879701896397 / 18014398509481984)) = (697 / 16777216)"
    unfolding d64_def by (subst round_bits_scaled [where k = 67]) (simp_all add: rne_def Let_def)
  have c: "d64 ((16773731 / 16777216) + (697 / 16777216)) = (4193607 / 4194304)"
    unfolding d64_def by (subst round_bits_scaled [where k = 53]) (simp_all add: rne_def Let_def)
  have d: "f32 ((4193607 / 4194304)) = (4193607 / 4194304)"
    unfolding f32_def by (subst round_bits_scaled [where k = 24]) (simp_all add: rne_def Let_def)
  show ?thesis unfolding cell_fp_def trace_target a b c d by (rule refl)
qed

lemma trace_cell_40: "cell_fp 0 1 1 (3602879701896397 / 18014398509481984) (4193607 / 4194304) = (8387493 / 8388608)"
proof -
  have a: "d64 (1 - (4193607 / 4194304)) = (697 / 4194304)"
    unfolding d64_def by (subst round_bits_scaled [where k = 65]) (simp_all add: rne_def Let_def)
  have b: "d64 ((697 / 4194304) * (3602879701896397 / 18014398509481984)) = (4904701469183181 / 147573952589676412928)"
    unfolding d64_def by (subst round_bits_scaled [where k = 67]) (simp_all add: rne_def Let_def)
  have c: "d64 ((4193607 / 4194304) + (4904701469183181 / 147573952589676412928)) = (9006001817858867 / 9007199254740992)"
    unfolding d64_def by (subst round_bits_scaled [where k = 53]) (simp_all add: rne_def Let_def)
  have d: "f32 ((9006001817858867 / 9007199254740992)) = (8387493 / 8388608)"
    unfolding f32_def by (subst round_bits_scaled [where k = 24]) (simp_all add: rne_def Let_def)
  show ?thesis unfolding cell_fp_def trace_target a b c d by (rule refl)
qed

lemma trace_cell_41: "cell_fp 0 1 1 (3602879701896397 / 18014398509481984) (8387493 / 8388608) = (2096929 / 2097152)"
proof -
  have a: "d64 (1 - (8387493 / 8388608)) = (1115 / 8388608)"
    unfolding d64_def by (subst round_bits_scaled [where k = 65]) (simp_all add: rne_def Let_def)
  have b: "d64 ((1115 / 8388608) * (3602879701896397 / 18014398509481984)) = (223 / 8388608)"
    unfolding d64_def by (subst round_bits_scaled [where k = 68]) (simp_all add: rne_def Let_def)
  have c: "d64 ((8387493 / 8388608) + (223 / 8388608)) = (2096929 / 2097152)"
    unfolding d64_def by (subst round_bits_scaled [where k = 53]) (simp_all add: rne_def Let_def)
  have d: "f32 ((2096929 / 2097152)) = (2096929 / 2097152)"
    unfolding f32_def by (subst round_bits_scaled [where k = 24]) (simp_all add: rne_def Let_def)
  show ?thesis unfolding cell_fp_def trace_target a b c d by (rule refl)
qed

lemma trace_cell_42: "cell_fp 0 1 1 (3602879701896397 / 18014398509481984) (2096929 / 2097152) = (16775789 / 16777216)"
proof -
  have a: "d64 (1 - (2096929 / 2097152)) = (223 / 2097152)"
    unfolding d64_def by (subst round_bits_scaled [where k = 66]) (simp_all add: rne_def Let_def)
  have b: "d64 ((223 / 2097152) * (3602879701896397 / 18014398509481984)) = (6276891980647629 / 295147905179352825856)"
    unfolding d64_def by (subst round_bits_scaled [where k = 68]) (simp_all add: rne_def Let_def)
  have c: "d64 ((2096929 / 2097152) + (6276891980647629 / 295147905179352825856)) = (4503216516287693 / 4503599627370496)"
    unfolding d64_def by (subst round_bits_scaled [where k = 53]) (simp_all add: rne_def Let_def)
  have d: "f32 ((4503216516287693 / 4503599627370496)) = (16775789 / 16777216)"
    unfolding f32_def by (subst round_bits_scaled [where k = 24]) (simp_all add: rne_def Let_def)
  show ?thesis unfolding cell_fp_def trace_target a b c d by (rule refl)
qed

lemma trace_cell_43: "cell_fp 0 1 1 (3602879701896397 / 18014398509481984) (16775789 / 16777216) = (8388037 / 8388608)"
proof -
  have a: "d64 (1 - (16775789 / 16777216)) = (1427 / 16777216)"
    unfolding d64_def by (subst round_bits_scaled [where k = 66]) (simp_all add: rne_def Let_def)
  have b: "d64 ((1427 / 16777216) * (3602879701896397 / 18014398509481984)) = (5020809897076327 / 295147905179352825856)"
    unfolding d64_def by (subst round_bits_scaled [where k = 68]) (simp_all add: rne_def Let_def)
  have c: "d64 ((16775789 / 16777216) + (5020809897076327 / 295147905179352825856)) = (9006586362907853 / 9007199254740992)"
    unfolding d64_def by (subst round_bits_scaled [where k = 53]) (simp_all add: rne_def Let_def)
  have d: "f32 ((9006586362907853 / 9007199254740992)) = (8388037 / 8388608)"
    unfolding f32_def by (subst round_bits_scaled [where k = 24]) (simp_all add: rne_def Let_def)
  show ?thesis unfolding cell_fp_def trace_target a b c d by (rule refl)
qed

lemma trace_cell_44: "cell_fp 0 1 1 (3602879701896397 / 18014398509481984) (8388037 / 8388608) = (8388151 / 8388608)"
proof -
  have a: "d64 (1 - (8388037 / 8388608)) = (571 / 8388608)"
    unfolding d64_def by (subst round_bits_scaled [where k = 66]) (simp_all add: rne_def Let_def)
  have b: "d64 ((571 / 8388608) * (3602879701896397 / 18014398509481984)) = (8036110585089229 / 590295810358705651712)"
    unfolding d64_def by (subst round_bits_scaled [where k = 69]) (simp_all add: rne_def Let_def)
  have c: "d64 ((8388037 / 8388608) + (8036110585089229 / 590295810358705651712)) = (9006708769475789 / 9007199254740992)"
    unfolding d64_def by (subst round_bits_scaled [where k = 53]) (simp_all add: rne_def Let_def)
  have d: "f32 ((9006708769475789 / 9007199254740992)) = (8388151 / 8388608)"
    unfolding f32_def by (subst round_bits_scaled [where k = 24]) (simp_all add: rne_def Let_def)
  show ?thesis unfolding cell_fp_def trace_target a b c d by (rule refl)
qed

lemma trace_cell_45: "cell_fp 0 1 1 (3602879701896397 / 18014398509481984) (8388151 / 8388608) = (16776485 / 16777216)"
proof -
  have a: "d64 (1 - (8388151 / 8388608)) = (457 / 8388608)"
    unfolding d64_def by (subst round_bits_scaled [where k = 67]) (simp_all add: rne_def Let_def)
  have b: "d64 ((457 / 8388608) * (3602879701896397 / 18014398509481984)) = (3215851608919245 / 295147905179352825856)"
    unfolding d64_def by (subst round_bits_scaled [where k = 69]) (simp_all add: rne_def Let_def)
  have c: "d64 ((8388151 / 8388608) + (3215851608919245 / 295147905179352825856)) = (4503403347365069 / 4503599627370496)"
    unfolding d64_def by (subst round_bits_scaled [where k = 53]) (simp_all add: rne_def Let_def)
  have d: "f32 ((4503403347365069 / 4503599627370496)) = (16776485 / 16777216)"
    unfolding f32_def by (subst round_bits_scaled [where k = 24]) (simp_all add: rne_def Let_def)
  show ?thesis unfolding cell_fp_def trace_target a b c d by (rule refl)
qed

lemma trace_cell_46: "cell_fp 0 1 1 (3602879701896397 / 18014398509481984) (16776485 / 16777216) = (16776631 / 16777216)"
proof -
  have a: "d64 (1 - (16776485 / 16777216)) = (731 / 16777216)"
    unfolding d64_def by (subst round_bits_scaled [where k = 67]) (simp_all add: rne_def Let_def)
  have b: "d64 ((731 / 16777216) * (3602879701896397 / 18014398509481984)) = (5143955199387239 / 590295810358705651712)"
    unfolding d64_def by (subst round_bits_scaled [where k = 69]) (simp_all add: rne_def Let_def)
  have c: "d64 ((16776485 / 16777216) + (5143955199387239 / 590295810358705651712)) = (4503442646315827 / 4503599627370496)"
    unfolding d64_def by (subst round_bits_scaled [where k = 53]) (simp_all add: rne_def Let_def)
  have d: "f32 ((4503442646315827 / 4503599627370496)) = (16776631 / 16777216)"
    unfolding f32_def by (subst round_bits_scaled [where k = 24]) (simp_all add: rne_def Let_def)
  show ?thesis unfolding cell_fp_def trace_target a b c d by (rule refl)
qed

lemma trace_cell_47: "cell_fp 0 1 1 (3602879701896397 / 18014398509481984) (16776631 / 16777216) = (4194187 / 4194304)"
proof -
  have a: "d64 (1 - (16776631 / 16777216)) = (585 / 16777216)"
    unfolding d64_def by (subst round_bits_scaled [where k = 67]) (simp_all add: rne_def Let_def)
  have b: "d64 ((585 / 16777216) * (3602879701896397 / 18014398509481984)) = (117 / 16777216)"
    unfolding d64_def by (subst round_bits_scaled [where k = 70]) (simp_all add: rne_def Let_def)
  have c: "d64 ((16776631 / 16777216) + (117 / 16777216)) = (4194187 / 4194304)"
    unfolding d64_def by (subst round_bits_scaled [where k = 53]) (simp_all add: rne_def Let_def)
  have d: "f32 ((4194187 / 4194304)) = (4194187 / 4194304)"
    unfolding f32_def by (subst round_bits_scaled [where k = 24]) (simp_all add: rne_def Let_def)
  show ?thesis unfolding cell_fp_def trace_target a b c d by (rule refl)
qed

lemma trace_cell_48: "cell_fp 0 1 1 (3602879701896397 / 18014398509481984) (4194187 / 4194304) = (8388421 / 8388608)"
proof -
  have a: "d64 (1 - (4194187 / 4194304)) = (117 / 4194304)"
    unfolding d64_def by (subst round_bits_scaled [where k = 68]) (simp_all add: rne_def Let_def)
  have b: "d64 ((117 / 4194304) * (3602879701896397 / 18014398509481984)) = (6586514455029351 / 1180591620717411303424)"
    unfolding d64_def by (subst round_bits_scaled [where k = 70]) (simp_all add: rne_def Let_def)
  have c: "d64 ((4194187 / 4194304) + (6586514455029351 / 1180591620717411303424)) = (9006998250271539 / 9007199254740992)"
    unfolding d64_def by (subst round_bits_scaled [where k = 53]) (simp_all add: rne_def Let_def)
  have d: "f32 ((9006998250271539 / 9007199254740992)) = (8388421 / 8388608)"
    unfolding f32_def by (subst round_bits_scaled [where k = 24]) (simp_all add: rne_def Let_def)
  show ?thesis unfolding cell_fp_def trace_target a b c d by (rule refl)
qed

lemma trace_cell_49: "cell_fp 0 1 1 (3602879701896397 / 18014398509481984) (8388421 / 8388608) = (16776917 / 16777216)"
proof -
  have a: "d64 (1 - (8388421 / 8388608)) = (187 / 8388608)"
    unfolding d64_def by (subst round_bits_scaled [where k = 68]) (simp_all add: rne_def Let_def)
  have b: "d64 ((187 / 8388608) * (3602879701896397 / 18014398509481984)) = (5263582064489267 / 1180591620717411303424)"
    unfolding d64_def by (subst round_bits_scaled [where k = 70]) (simp_all add: rne_def Let_def)
  have c: "d64 ((8388421 / 8388608) + (5263582064489267 / 1180591620717411303424)) = (4503519311482061 / 4503599627370496)"
    unfolding d64_def by (subst round_bits_scaled [where k = 53]) (simp_all add: rne_def Let_def)
  have d: "f32 ((4503519311482061 / 4503599627370496)) = (16776917 / 16777216)"
    unfolding f32_def by (subst round_bits_scaled [where k = 24]) (simp_all add: rne_def Let_def)
  show ?thesis unfolding cell_fp_def trace_target a b c d by (rule refl)
qed

lemma trace_cell_50: "cell_fp 0 1 1 (3602879701896397 / 18014398509481984) (16776917 / 16777216) = (16776977 / 16777216)"
proof -
  have a: "d64 (1 - (16776917 / 16777216)) = (299 / 16777216)"
    unfolding d64_def by (subst round_bits_scaled [where k = 68]) (simp_all add: rne_def Let_def)
  have b: "d64 ((299 / 16777216) * (3602879701896397 / 18014398509481984)) = (8416101803648615 / 2361183241434822606848)"
    unfolding d64_def by (subst round_bits_scaled [where k = 71]) (simp_all add: rne_def Let_def)
  have c: "d64 ((16776917 / 16777216) + (8416101803648615 / 2361183241434822606848)) = (4503535417609421 / 4503599627370496)"
    unfolding d64_def by (subst round_bits_scaled [where k = 53]) (simp_all add: rne_def Let_def)
  have d: "f32 ((4503535417609421 / 4503599627370496)) = (16776977 / 16777216)"
    unfolding f32_def by (subst round_bits_scaled [where k = 24]) (simp_all add: rne_def Let_def)
  show ?thesis unfolding cell_fp_def trace_target a b c d by (rule refl)
qed

lemma trace_cell_51: "cell_fp 0 1 1 (3602879701896397 / 18014398509481984) (16776977 / 16777216) = (16777025 / 16777216)"
proof -
  have a: "d64 (1 - (16776977 / 16777216)) = (239 / 16777216)"
    unfolding d64_def by (subst round_bits_scaled [where k = 69]) (simp_all add: rne_def Let_def)
  have b: "d64 ((239 / 16777216) * (3602879701896397 / 18014398509481984)) = (6727251943384679 / 2361183241434822606848)"
    unfolding d64_def by (subst round_bits_scaled [where k = 71]) (simp_all add: rne_def Let_def)
  have c: "d64 ((16776977 / 16777216) + (6727251943384679 / 2361183241434822606848)) = (4503548302511309 / 4503599627370496)"
    unfolding d64_def by (subst round_bits_scaled [where k = 53]) (simp_all add: rne_def Let_def)
  have d: "f32 ((4503548302511309 / 4503599627370496)) = (16777025 / 16777216)"
    unfolding f32_def by (subst round_bits_scaled [where k = 24]) (simp_all add: rne_def Let_def)
  show ?thesis unfolding cell_fp_def trace_target a b c d by (rule refl)
qed

lemma trace_cell_52: "cell_fp 0 1 1 (3602879701896397 / 18014398509481984) (16777025 / 16777216) = (16777063 / 16777216)"
proof -
  have a: "d64 (1 - (16777025 / 16777216)) = (191 / 16777216)"
    unfolding d64_def by (subst round_bits_scaled [where k = 69]) (simp_all add: rne_def Let_def)
  have b: "d64 ((191 / 16777216) * (3602879701896397 / 18014398509481984)) = (2688086027586765 / 1180591620717411303424)"
    unfolding d64_def by (subst round_bits_scaled [where k = 71]) (simp_all add: rne_def Let_def)
  have c: "d64 ((16777025 / 16777216) + (2688086027586765 / 1180591620717411303424)) = (4503558610432819 / 4503599627370496)"
    unfolding d64_def by (subst round_bits_scaled [where k = 53]) (simp_all add: rne_def Let_def)
  have d: "f32 ((4503558610432819 / 4503599627370496)) = (16777063 / 16777216)"
    unfolding f32_def by (subst round_bits_scaled [where k = 24]) (simp_all add: rne_def Let_def)
  show ?thesis unfolding cell_fp_def trace_target a b c d by (rule refl)
qed

lemma trace_cell_53: "cell_fp 0 1 1 (3602879701896397 / 18014398509481984) (16777063 / 16777216) = (8388547 / 8388608)"
proof -
  have a: "d64 (1 - (16777063 / 16777216)) = (153 / 16777216)"
    unfolding d64_def by (subst round_bits_scaled [where k = 69]) (simp_all add: rne_def Let_def)
  have b: "d64 ((153 / 16777216) * (3602879701896397 / 18014398509481984)) = (4306567143673037 / 2361183241434822606848)"
    unfolding d64_def by (subst round_bits_scaled [where k = 72]) (simp_all add: rne_def Let_def)
  have c: "d64 ((16777063 / 16777216) + (4306567143673037 / 2361183241434822606848)) = (9007133541741363 / 9007199254740992)"
    unfolding d64_def by (subst round_bits_scaled [where k = 53]) (simp_all add: rne_def Let_def)
  have d: "f32 ((9007133541741363 / 9007199254740992)) = (8388547 / 8388608)"
    unfolding f32_def by (subst round_bits_scaled [where k = 24]) (simp_all add: rne_def Let_def)
  show ?thesis unfolding cell_fp_def trace_target a b c d by (rule refl)
qed

lemma trace_cell_54: "cell_fp 0 1 1 (3602879701896397 / 18014398509481984) (8388547 / 8388608) = (8388559 / 8388608)"
proof -
  have a: "d64 (1 - (8388547 / 8388608)) = (61 / 8388608)"
    unfolding d64_def by (subst round_bits_scaled [where k = 70]) (simp_all add: rne_def Let_def)
  have b: "d64 ((61 / 8388608) * (3602879701896397 / 18014398509481984)) = (6867989431740007 / 4722366482869645213696)"
    unfolding d64_def by (subst round_bits_scaled [where k = 72]) (simp_all add: rne_def Let_def)
  have c: "d64 ((8388547 / 8388608) + (6867989431740007 / 4722366482869645213696)) = (9007146856139981 / 9007199254740992)"
    unfolding d64_def by (subst round_bits_scaled [where k = 53]) (simp_all add: rne_def Let_def)
  have d: "f32 ((9007146856139981 / 9007199254740992)) = (8388559 / 8388608)"
    unfolding f32_def by (subst round_bits_scaled [where k = 24]) (simp_all add: rne_def Let_def)
  show ?thesis unfolding cell_fp_def trace_target a b c d by (rule refl)
qed

lemma trace_cell_55: "cell_fp 0 1 1 (3602879701896397 / 18014398509481984) (8388559 / 8388608) = (8388569 / 8388608)"
proof -
  have a: "d64 (1 - (8388559 / 8388608)) = (49 / 8388608)"
    unfolding d64_def by (subst round_bits_scaled [where k = 70]) (simp_all add: rne_def Let_def)
  have b: "d64 ((49 / 8388608) * (3602879701896397 / 18014398509481984)) = (2758454771764429 / 2361183241434822606848)"
    unfolding d64_def by (subst round_bits_scaled [where k = 72]) (simp_all add: rne_def Let_def)
  have c: "d64 ((8388559 / 8388608) + (2758454771764429 / 2361183241434822606848)) = (9007157164061491 / 9007199254740992)"
    unfolding d64_def by (subst round_bits_scaled [where k = 53]) (simp_all add: rne_def Let_def)
  have d: "f32 ((9007157164061491 / 9007199254740992)) = (8388569 / 8388608)"
    unfolding f32_def by (subst round_bits_scaled [where k = 24]) (simp_all add: rne_def Let_def)
  show ?thesis unfolding cell_fp_def trace_target a b c d by (rule refl)
qed

lemma trace_cell_56: "cell_fp 0 1 1 (3602879701896397 / 18014398509481984) (8388569 / 8388608) = (8388577 / 8388608)"
proof -
  have a: "d64 (1 - (8388569 / 8388608)) = (39 / 8388608)"
    unfolding d64_def by (subst round_bits_scaled [where k = 70]) (simp_all add: rne_def Let_def)
  have b: "d64 ((39 / 8388608) * (3602879701896397 / 18014398509481984)) = (2195504818343117 / 2361183241434822606848)"
    unfolding d64_def by (subst round_bits_scaled [where k = 73]) (simp_all add: rne_def Let_def)
  have c: "d64 ((8388569 / 8388608) + (2195504818343117 / 2361183241434822606848)) = (9007165753996083 / 9007199254740992)"
    unfolding d64_def by (subst round_bits_scaled [where k = 53]) (simp_all add: rne_def Let_def)
  have d: "f32 ((9007165753996083 / 9007199254740992)) = (8388577 / 8388608)"
    unfolding f32_def by (subst round_bits_scaled [where k = 24]) (simp_all add: rne_def Let_def)
  show ?thesis unfolding cell_fp_def trace_target a b c d by (rule refl)
qed

lemma trace_cell_57: "cell_fp 0 1 1 (3602879701896397 / 18014398509481984) (8388577 / 8388608) = (8388583 / 8388608)"
proof -
  have a: "d64 (1 - (8388577 / 8388608)) = (31 / 8388608)"
    unfolding d64_def by (subst round_bits_scaled [where k = 71]) (simp_all add: rne_def Let_def)
  have b: "d64 ((31 / 8388608) * (3602879701896397 / 18014398509481984)) = (6980579422424269 / 9444732965739290427392)"
    unfolding d64_def by (subst round_bits_scaled [where k = 73]) (simp_all add: rne_def Let_def)
  have c: "d64 ((8388577 / 8388608) + (6980579422424269 / 9444732965739290427392)) = (9007172625943757 / 9007199254740992)"
    unfolding d64_def by (subst round_bits_scaled [where k = 53]) (simp_all add: rne_def Let_def)
  have d: "f32 ((9007172625943757 / 9007199254740992)) = (8388583 / 8388608)"
    unfolding f32_def by (subst round_bits_scaled [where k = 24]) (simp_all add: rne_def Let_def)
  show ?thesis unfolding cell_fp_def trace_target a b c d by (rule refl)
qed

lemma trace_cell_58: "cell_fp 0 1 1 (3602879701896397 / 18014398509481984) (8388583 / 8388608) = (2097147 / 2097152)"
proof -
  have a: "d64 (1 - (8388583 / 8388608)) = (25 / 8388608)"
    unfolding d64_def by (subst round_bits_scaled [where k = 71]) (simp_all add: rne_def Let_def)
  have b: "d64 ((25 / 8388608) * (3602879701896397 / 18014398509481984)) = (5 / 8388608)"
    unfolding d64_def by (subst round_bits_scaled [where k = 73]) (simp_all add: rne_def Let_def)
  have c: "d64 ((8388583 / 8388608) + (5 / 8388608)) = (2097147 / 2097152)"
    unfolding d64_def by (subst round_bits_scaled [where k = 53]) (simp_all add: rne_def Let_def)
  have d: "f32 ((2097147 / 2097152)) = (2097147 / 2097152)"
    unfolding f32_def by (subst round_bits_scaled [where k = 24]) (simp_all add: rne_def Let_def)
  show ?thesis unfolding cell_fp_def trace_target a b c d by (rule refl)
qed

lemma trace_cell_59: "cell_fp 0 1 1 (3602879701896397 / 18014398509481984) (2097147 / 2097152) = (524287 / 524288)"
proof -
  have a: "d64 (1 - (2097147 / 2097152)) = (5 / 2097152)"
    unfolding d64_def by (subst round_bits_scaled [where k = 71]) (simp_all add: rne_def Let_def)
  have b: "d64 ((5 / 2097152) * (3602879701896397 / 18014398509481984)) = (1 / 2097152)"
    unfolding d64_def by (subst round_bits_scaled [where k = 73]) (simp_all add: rne_def Let_def)
  have c: "d64 ((2097147 / 2097152) + (1 / 2097152)) = (524287 / 524288)"
    unfolding d64_def by (subst round_bits_scaled [where k = 53]) (simp_all add: rne_def Let_def)
  have d: "f32 ((524287 / 524288)) = (524287 / 524288)"
    unfolding f32_def by (subst round_bits_scaled [where k = 24]) (simp_all add: rne_def Let_def)
  show ?thesis unfolding cell_fp_def trace_target a b c d by (rule refl)
qed

lemma trace_cell_60: "cell_fp 0 1 1 (3602879701896397 / 18014398509481984) (524287 / 524288) = (8388595 / 8388608)"
proof -
  have a: "d64 (1 - (524287 / 524288)) = (1 / 524288)"
    unfolding d64_def by (subst round_bits_scaled [where k = 71]) (simp_all add: rne_def Let_def)
  have b: "d64 ((1 / 524288) * (3602879701896397 / 18014398509481984)) = (3602879701896397 / 9444732965739290427392)"
    unfolding d64_def by (subst round_bits_scaled [where k = 74]) (simp_all add: rne_def Let_def)
  have c: "d64 ((524287 / 524288) + (3602879701896397 / 9444732965739290427392)) = (9007185510845645 / 9007199254740992)"
    unfolding d64_def by (subst round_bits_scaled [where k = 53]) (simp_all add: rne_def Let_def)
  have d: "f32 ((9007185510845645 / 9007199254740992)) = (8388595 / 8388608)"
    unfolding f32_def by (subst round_bits_scaled [where k = 24]) (simp_all add: rne_def Let_def)
  show ?thesis unfolding cell_fp_def trace_target a b c d by (rule refl)
qed

lemma trace_cell_61: "cell_fp 0 1 1 (3602879701896397 / 18014398509481984) (8388595 / 8388608) = (16777195 / 16777216)"
proof -
  have a: "d64 (1 - (8388595 / 8388608)) = (13 / 8388608)"
    unfolding d64_def by (subst round_bits_scaled [where k = 72]) (simp_all add: rne_def Let_def)
  have b: "d64 ((13 / 8388608) * (3602879701896397 / 18014398509481984)) = (5854679515581645 / 18889465931478580854784)"
    unfolding d64_def by (subst round_bits_scaled [where k = 74]) (simp_all add: rne_def Let_def)
  have c: "d64 ((8388595 / 8388608) + (5854679515581645 / 18889465931478580854784)) = (4503594043913011 / 4503599627370496)"
    unfolding d64_def by (subst round_bits_scaled [where k = 53]) (simp_all add: rne_def Let_def)
  have d: "f32 ((4503594043913011 / 4503599627370496)) = (16777195 / 16777216)"
    unfolding f32_def by (subst round_bits_scaled [where k = 24]) (simp_all add: rne_def Let_def)
  show ?thesis unfolding cell_fp_def trace_target a b c d by (rule refl)
qed

lemma trace_cell_62: "cell_fp 0 1 1 (3602879701896397 / 18014398509481984) (16777195 / 16777216) = (16777199 / 16777216)"
proof -
  have a: "d64 (1 - (16777195 / 16777216)) = (21 / 16777216)"
    unfolding d64_def by (subst round_bits_scaled [where k = 72]) (simp_all add: rne_def Let_def)
  have b: "d64 ((21 / 16777216) * (3602879701896397 / 18014398509481984)) = (4728779608739021 / 18889465931478580854784)"
    unfolding d64_def by (subst round_bits_scaled [where k = 74]) (simp_all add: rne_def Let_def)
  have c: "d64 ((16777195 / 16777216) + (4728779608739021 / 18889465931478580854784)) = (4503595117654835 / 4503599627370496)"
    unfolding d64_def by (subst round_bits_scaled [where k = 53]) (simp_all add: rne_def Let_def)
  have d: "f32 ((4503595117654835 / 4503599627370496)) = (16777199 / 16777216)"
    unfolding f32_def by (subst round_bits_scaled [where k = 24]) (simp_all add: rne_def Let_def)
  show ?thesis unfolding cell_fp_def trace_target a b c d by (rule refl)
qed

lemma trace_cell_63: "cell_fp 0 1 1 (3602879701896397 / 18014398509481984) (16777199 / 16777216) = (8388601 / 8388608)"
proof -
  have a: "d64 (1 - (16777199 / 16777216)) = (17 / 16777216)"
    unfolding d64_def by (subst round_bits_scaled [where k = 72]) (simp_all add: rne_def Let_def)
  have b: "d64 ((17 / 16777216) * (3602879701896397 / 18014398509481984)) = (1914029841632461 / 9444732965739290427392)"
    unfolding d64_def by (subst round_bits_scaled [where k = 75]) (simp_all add: rne_def Let_def)
  have c: "d64 ((16777199 / 16777216) + (1914029841632461 / 9444732965739290427392)) = (9007191953296589 / 9007199254740992)"
    unfolding d64_def by (subst round_bits_scaled [where k = 53]) (simp_all add: rne_def Let_def)
  have d: "f32 ((9007191953296589 / 9007199254740992)) = (8388601 / 8388608)"
    unfolding f32_def by (subst round_bits_scaled [where k = 24]) (simp_all add: rne_def Let_def)
  show ?thesis unfolding cell_fp_def trace_target a b c d by (rule refl)
qed

lemma trace_cell_64: "cell_fp 0 1 1 (3602879701896397 / 18014398509481984) (8388601 / 8388608) = (16777205 / 16777216)"
proof -
  have a: "d64 (1 - (8388601 / 8388608)) = (7 / 8388608)"
    unfolding d64_def by (subst round_bits_scaled [where k = 73]) (simp_all add: rne_def Let_def)
  have b: "d64 ((7 / 8388608) * (3602879701896397 / 18014398509481984)) = (6305039478318695 / 37778931862957161709568)"
    unfolding d64_def by (subst round_bits_scaled [where k = 75]) (simp_all add: rne_def Let_def)
  have c: "d64 ((8388601 / 8388608) + (6305039478318695 / 37778931862957161709568)) = (4503596620893389 / 4503599627370496)"
    unfolding d64_def by (subst round_bits_scaled [where k = 53]) (simp_all add: rne_def Let_def)
  have d: "f32 ((4503596620893389 / 4503599627370496)) = (16777205 / 16777216)"
    unfolding f32_def by (subst round_bits_scaled [where k = 24]) (simp_all add: rne_def Let_def)
  show ?thesis unfolding cell_fp_def trace_target a b c d by (rule refl)
qed

lemma trace_cell_65: "cell_fp 0 1 1 (3602879701896397 / 18014398509481984) (16777205 / 16777216) = (16777207 / 16777216)"
proof -
  have a: "d64 (1 - (16777205 / 16777216)) = (11 / 16777216)"
    unfolding d64_def by (subst round_bits_scaled [where k = 73]) (simp_all add: rne_def Let_def)
  have b: "d64 ((11 / 16777216) * (3602879701896397 / 18014398509481984)) = (2476979795053773 / 18889465931478580854784)"
    unfolding d64_def by (subst round_bits_scaled [where k = 75]) (simp_all add: rne_def Let_def)
  have c: "d64 ((16777205 / 16777216) + (2476979795053773 / 18889465931478580854784)) = (4503597265138483 / 4503599627370496)"
    unfolding d64_def by (subst round_bits_scaled [where k = 53]) (simp_all add: rne_def Let_def)
  have d: "f32 ((4503597265138483 / 4503599627370496)) = (16777207 / 16777216)"
    unfolding f32_def by (subst round_bits_scaled [where k = 24]) (simp_all add: rne_def Let_def)
  show ?thesis unfolding cell_fp_def trace_target a b c d by (rule refl)
qed

lemma trace_cell_66: "cell_fp 0 1 1 (3602879701896397 / 18014398509481984) (16777207 / 16777216) = (16777209 / 16777216)"
proof -
  have a: "d64 (1 - (16777207 / 16777216)) = (9 / 16777216)"
    unfolding d64_def by (subst round_bits_scaled [where k = 73]) (simp_all add: rne_def Let_def)
  have b: "d64 ((9 / 16777216) * (3602879701896397 / 18014398509481984)) = (8106479329266893 / 75557863725914323419136)"
    unfolding d64_def by (subst round_bits_scaled [where k = 76]) (simp_all add: rne_def Let_def)
  have c: "d64 ((16777207 / 16777216) + (8106479329266893 / 75557863725914323419136)) = (4503597694635213 / 4503599627370496)"
    unfolding d64_def by (subst round_bits_scaled [where k = 53]) (simp_all add: rne_def Let_def)
  have d: "f32 ((4503597694635213 / 4503599627370496)) = (16777209 / 16777216)"
    unfolding f32_def by (subst round_bits_scaled [where k = 24]) (simp_all add: rne_def Let_def)
  show ?thesis unfolding cell_fp_def trace_target a b c d by (rule refl)
qed

lemma trace_cell_67: "cell_fp 0 1 1 (3602879701896397 / 18014398509481984) (16777209 / 16777216) = (8388605 / 8388608)"
proof -
  have a: "d64 (1 - (16777209 / 16777216)) = (7 / 16777216)"
    unfolding d64_def by (subst round_bits_scaled [where k = 74]) (simp_all add: rne_def Let_def)
  have b: "d64 ((7 / 16777216) * (3602879701896397 / 18014398509481984)) = (6305039478318695 / 75557863725914323419136)"
    unfolding d64_def by (subst round_bits_scaled [where k = 76]) (simp_all add: rne_def Let_def)
  have c: "d64 ((16777209 / 16777216) + (6305039478318695 / 75557863725914323419136)) = (9007196248263885 / 9007199254740992)"
    unfolding d64_def by (subst round_bits_scaled [where k = 53]) (simp_all add: rne_def Let_def)
  have d: "f32 ((9007196248263885 / 9007199254740992)) = (8388605 / 8388608)"
    unfolding f32_def by (subst round_bits_scaled [where k = 24]) (simp_all add: rne_def Let_def)
  show ?thesis unfolding cell_fp_def trace_target a b c d by (rule refl)
qed

lemma trace_cell_68: "cell_fp 0 1 1 (3602879701896397 / 18014398509481984) (8388605 / 8388608) = (16777211 / 16777216)"
proof -
  have a: "d64 (1 - (8388605 / 8388608)) = (3 / 8388608)"
    unfolding d64_def by (subst round_bits_scaled [where k = 74]) (simp_all add: rne_def Let_def)
  have b: "d64 ((3 / 8388608) * (3602879701896397 / 18014398509481984)) = (1351079888211149 / 18889465931478580854784)"
    unfolding d64_def by (subst round_bits_scaled [where k = 76]) (simp_all add: rne_def Let_def)
  have c: "d64 ((8388605 / 8388608) + (1351079888211149 / 18889465931478580854784)) = (4503598338880307 / 4503599627370496)"
    unfolding d64_def by (subst round_bits_scaled [where k = 53]) (simp_all add: rne_def Let_def)
  have d: "f32 ((4503598338880307 / 4503599627370496)) = (16777211 / 16777216)"
    unfolding f32_def by (subst round_bits_scaled [where k = 24]) (simp_all add: rne_def Let_def)
  show ?thesis unfolding cell_fp_def trace_target a b c d by (rule refl)
qed

lemma trace_cell_69: "cell_fp 0 1 1 (3602879701896397 / 18014398509481984) (16777211 / 16777216) = (4194303 / 4194304)"
proof -
  have a: "d64 (1 - (16777211 / 16777216)) = (5 / 16777216)"
    unfolding d64_def by (subst round_bits_scaled [where k = 74]) (simp_all add: rne_def Let_def)
  have b: "d64 ((5 / 16777216) * (3602879701896397 / 18014398509481984)) = (1 / 16777216)"
    unfolding d64_def by (subst round_bits_scaled [where k = 76]) (simp_all add: rne_def Let_def)
  have c: "d64 ((16777211 / 16777216) + (1 / 16777216)) = (4194303 / 4194304)"
    unfolding d64_def by (subst round_bits_scaled [where k = 53]) (simp_all add: rne_def Let_def)
  have d: "f32 ((4194303 / 4194304)) = (4194303 / 4194304)"
    unfolding f32_def by (subst round_bits_scaled [where k = 24]) (simp_all add: rne_def Let_def)
  show ?thesis unfolding cell_fp_def trace_target a b c d by (rule refl)
qed

lemma trace_cell_70: "cell_fp 0 1 1 (3602879701896397 / 18014398509481984) (4194303 / 4194304) = (16777213 / 16777216)"
proof -
  have a: "d64 (1 - (4194303 / 4194304)) = (1 / 4194304)"
    unfolding d64_def by (subst round_bits_scaled [where k = 74]) (simp_all add: rne_def Let_def)
  have b: "d64 ((1 / 4194304) * (3602879701896397 / 18014398509481984)) = (3602879701896397 / 75557863725914323419136)"
    unfolding d64_def by (subst round_bits_scaled [where k = 77]) (simp_all add: rne_def Let_def)
  have c: "d64 ((4194303 / 4194304) + (3602879701896397 / 75557863725914323419136)) = (4503598768377037 / 4503599627370496)"
    unfolding d64_def by (subst round_bits_scaled [where k = 53]) (simp_all add: rne_def Let_def)
  have d: "f32 ((4503598768377037 / 4503599627370496)) = (16777213 / 16777216)"
    unfolding f32_def by (subst round_bits_scaled [where k = 24]) (simp_all add: rne_def Let_def)
  show ?thesis unfolding cell_fp_def trace_target a b c d by (rule refl)
qed

lemma trace_cell_71: "cell_fp 0 1 1 (3602879701896397 / 18014398509481984) (16777213 / 16777216) = (8388607 / 8388608)"
proof -
  have a: "d64 (1 - (16777213 / 16777216)) = (3 / 16777216)"
    unfolding d64_def by (subst round_bits_scaled [where k = 75]) (simp_all add: rne_def Let_def)
  have b: "d64 ((3 / 16777216) * (3602879701896397 / 18014398509481984)) = (1351079888211149 / 37778931862957161709568)"
    unfolding d64_def by (subst round_bits_scaled [where k = 77]) (simp_all add: rne_def Let_def)
  have c: "d64 ((16777213 / 16777216) + (1351079888211149 / 37778931862957161709568)) = (9007197966250803 / 9007199254740992)"
    unfolding d64_def by (subst round_bits_scaled [where k = 53]) (simp_all add: rne_def Let_def)
  have d: "f32 ((9007197966250803 / 9007199254740992)) = (8388607 / 8388608)"
    unfolding f32_def by (subst round_bits_scaled [where k = 24]) (simp_all add: rne_def Let_def)
  show ?thesis unfolding cell_fp_def trace_target a b c d by (rule refl)
qed

lemma trace_cell_72: "cell_fp 0 1 1 (3602879701896397 / 18014398509481984) (8388607 / 8388608) = (8388607 / 8388608)"
proof -
  have a: "d64 (1 - (8388607 / 8388608)) = (1 / 8388608)"
    unfolding d64_def by (subst round_bits_scaled [where k = 75]) (simp_all add: rne_def Let_def)
  have b: "d64 ((1 / 8388608) * (3602879701896397 / 18014398509481984)) = (3602879701896397 / 151115727451828646838272)"
    unfolding d64_def by (subst round_bits_scaled [where k = 78]) (simp_all add: rne_def Let_def)
  have c: "d64 ((8388607 / 8388608) + (3602879701896397 / 151115727451828646838272)) = (9007198395747533 / 9007199254740992)"
    unfolding d64_def by (subst round_bits_scaled [where k = 53]) (simp_all add: rne_def Let_def)
  have d: "f32 ((9007198395747533 / 9007199254740992)) = (8388607 / 8388608)"
    unfolding f32_def by (subst round_bits_scaled [where k = 24]) (simp_all add: rne_def Let_def)
  show ?thesis unfolding cell_fp_def trace_target a b c d by (rule refl)
qed

lemma trace_frames_0:
  "particle_frames_fp [0, 0, 0] [1, 0, 0] (replicate 0 1) [0, 0, 0] = [0, 0, 0]"
  by (simp add: particle_frames_fp_def)

lemma trace_frames_1:
  "particle_frames_fp [0, 0, 0] [1, 0, 0] (replicate 1 1) [0, 0, 0] = [(13421773 / 67108864), 0, 0]"
proof -
  have e: "(1 :: nat) = Suc 0" by simp
  show ?thesis unfolding e by (rule trace_step [OF trace_frames_0 trace_cell_1])
qed

lemma trace_frames_2:
  "particle_frames_fp [0, 0, 0] [1, 0, 0] (replicate 2 1) [0, 0, 0] = [(3019899 / 8388608), 0, 0]"
proof -
  have e: "(2 :: nat) = Suc 1" by simp
  show ?thesis unfolding e by (rule trace_step [OF trace_frames_1 trace_cell_2])
qed

lemma trace_frames_3:
  "particle_frames_fp [0, 0, 0] [1, 0, 0] (replicate 3 1) [0, 0, 0] = [(16374563 / 33554432), 0, 0]"
proof -
  have e: "(3 :: nat) = Suc 2" by simp
  show ?thesis unfolding e by (rule trace_step [OF trace_frames_2 trace_cell_3])
qed

lemma trace_frames_4:
  "particle_frames_fp [0, 0, 0] [1, 0, 0] (replicate 4 1) [0, 0, 0] = [(2476317 / 4194304), 0, 0]"
proof -
  have e: "(4 :: nat) = Suc 3" by simp
  show ?thesis unfolding e by (rule trace_step [OF trace_frames_3 trace_cell_4])
qed

lemma trace_frames_5:
  "particle_frames_fp [0, 0, 0] [1, 0, 0] (replicate 5 1) [0, 0, 0] = [(5639829 / 8388608), 0, 0]"
proof -
  have e: "(5 :: nat) = Suc 4" by simp
  show ?thesis unfolding e by (rule trace_step [OF trace_frames_4 trace_cell_5])
qed

lemma trace_frames_6:
  "particle_frames_fp [0, 0, 0] [1, 0, 0] (replicate 6 1) [0, 0, 0] = [(6189585 / 8388608), 0, 0]"
proof -
  have e: "(6 :: nat) = Suc 5" by simp
  show ?thesis unfolding e by (rule trace_step [OF trace_frames_5 trace_cell_6])
qed

lemma trace_frames_7:
  "particle_frames_fp [0, 0, 0] [1, 0, 0] (replicate 7 1) [0, 0, 0] = [(13258779 / 16777216), 0, 0]"
proof -
  have e: "(7 :: nat) = Suc 6" by simp
  show ?thesis unfolding e by (rule trace_step [OF trace_frames_6 trace_cell_7])
qed

lemma trace_frames_8:
  "particle_frames_fp [0, 0, 0] [1, 0, 0] (replicate 8 1) [0, 0, 0] = [(6981233 / 8388608), 0, 0]"
proof -
  have e: "(8 :: nat) = Suc 7" by simp
  show ?thesis unfolding e by (rule trace_step [OF trace_frames_7 trace_cell_8])
qed

lemma trace_frames_9:
  "particle_frames_fp [0, 0, 0] [1, 0, 0] (replicate 9 1) [0, 0, 0] = [(1815677 / 2097152), 0, 0]"
proof -
  have e: "(9 :: nat) = Suc 8" by simp
  show ?thesis unfolding e by (rule trace_step [OF trace_frames_8 trace_cell_9])
qed

lemma trace_frames_10:
  "particle_frames_fp [0, 0, 0] [1, 0, 0] (replicate 10 1) [0, 0, 0] = [(467993 / 524288), 0, 0]"
proof -
  have e: "(10 :: nat) = Suc 9" by simp
  show ?thesis unfolding e by (rule trace_step [OF trace_frames_9 trace_cell_10])
qed

lemma trace_frames_11:
  "particle_frames_fp [0, 0, 0] [1, 0, 0] (replicate 11 1) [0, 0, 0] = [(119813 / 131072), 0, 0]"
proof -
  have e: "(11 :: nat) = Suc 10" by simp
  show ?thesis unfolding e by (rule trace_step [OF trace_frames_10 trace_cell_11])
qed

lemma trace_frames_12:
  "particle_frames_fp [0, 0, 0] [1, 0, 0] (replicate 12 1) [0, 0, 0] = [(7812147 / 8388608), 0, 0]"
proof -
  have e: "(12 :: nat) = Suc 11" by simp
  show ?thesis unfolding e by (rule trace_step [OF trace_frames_11 trace_cell_12])
qed

lemma trace_frames_13:
  "particle_frames_fp [0, 0, 0] [1, 0, 0] (replicate 13 1) [0, 0, 0] = [(7927439 / 8388608), 0, 0]"
proof -
  have e: "(13 :: nat) = Suc 12" by simp
  show ?thesis unfolding e by (rule trace_step [OF trace_frames_12 trace_cell_13])
qed

lemma trace_frames_14:
  "particle_frames_fp [0, 0, 0] [1, 0, 0] (replicate 14 1) [0, 0, 0] = [(8019673 / 8388608), 0, 0]"
proof -
  have e: "(14 :: nat) = Suc 13" by simp
  show ?thesis unfolding e by (rule trace_step [OF trace_frames_13 trace_cell_14])
qed

lemma trace_frames_15:
  "particle_frames_fp [0, 0, 0] [1, 0, 0] (replicate 15 1) [0, 0, 0] = [(2023365 / 2097152), 0, 0]"
proof -
  have e: "(15 :: nat) = Suc 14" by simp
  show ?thesis unfolding e by (rule trace_step [OF trace_frames_14 trace_cell_15])
qed

lemma trace_frames_16:
  "particle_frames_fp [0, 0, 0] [1, 0, 0] (replicate 16 1) [0, 0, 0] = [(16304979 / 16777216), 0, 0]"
proof -
  have e: "(16 :: nat) = Suc 15" by simp
  show ?thesis unfolding e by (rule trace_step [OF trace_frames_15 trace_cell_16])
qed

lemma trace_frames_17:
  "particle_frames_fp [0, 0, 0] [1, 0, 0] (replicate 17 1) [0, 0, 0] = [(8199713 / 8388608), 0, 0]"
proof -
  have e: "(17 :: nat) = Suc 16" by simp
  show ?thesis unfolding e by (rule trace_step [OF trace_frames_16 trace_cell_17])
qed

lemma trace_frames_18:
  "particle_frames_fp [0, 0, 0] [1, 0, 0] (replicate 18 1) [0, 0, 0] = [(2059373 / 2097152), 0, 0]"
proof -
  have e: "(18 :: nat) = Suc 17" by simp
  show ?thesis unfolding e by (rule trace_step [OF trace_frames_17 trace_cell_18])
qed

lemma trace_frames_19:
  "particle_frames_fp [0, 0, 0] [1, 0, 0] (replicate 19 1) [0, 0, 0] = [(8267715 / 8388608), 0, 0]"
proof -
  have e: "(19 :: nat) = Suc 18" by simp
  show ?thesis unfolding e by (rule trace_step [OF trace_frames_18 trace_cell_19])
qed

lemma trace_frames_20:
  "particle_frames_fp [0, 0, 0] [1, 0, 0] (replicate 20 1) [0, 0, 0] = [(16583787 / 16777216), 0, 0]"
proof -
  have e: "(20 :: nat) = Suc 19" by simp
  show ?thesis unfolding e by (rule trace_step [OF trace_frames_19 trace_cell_20])
qed

lemma trace_frames_21:
  "particle_frames_fp [0, 0, 0] [1, 0, 0] (replicate 21 1) [0, 0, 0] = [(16622473 / 16777216), 0, 0]"
proof -
  have e: "(21 :: nat) = Suc 20" by simp
  show ?thesis unfolding e by (rule trace_step [OF trace_frames_20 trace_cell_21])
qed

lemma trace_frames_22:
  "particle_frames_fp [0, 0, 0] [1, 0, 0] (replicate 22 1) [0, 0, 0] = [(8326711 / 8388608), 0, 0]"
proof -
  have e: "(22 :: nat) = Suc 21" by simp
  show ?thesis unfolding e by (rule trace_step [OF trace_frames_21 trace_cell_22])
qed

lemma trace_frames_23:
  "particle_frames_fp [0, 0, 0] [1, 0, 0] (replicate 23 1) [0, 0, 0] = [(16678181 / 16777216), 0, 0]"
proof -
  have e: "(23 :: nat) = Suc 22" by simp
  show ?thesis unfolding e by (rule trace_step [OF trace_frames_22 trace_cell_23])
qed

lemma trace_frames_24:
  "particle_frames_fp [0, 0, 0] [1, 0, 0] (replicate 24 1) [0, 0, 0] = [(4174497 / 4194304), 0, 0]"
proof -
  have e: "(24 :: nat) = Suc 23" by simp
  show ?thesis unfolding e by (rule trace_step [OF trace_frames_23 trace_cell_24])
qed

lemma trace_frames_25:
  "particle_frames_fp [0, 0, 0] [1, 0, 0] (replicate 25 1) [0, 0, 0] = [(8356917 / 8388608), 0, 0]"
proof -
  have e: "(25 :: nat) = Suc 24" by simp
  show ?thesis unfolding e by (rule trace_step [OF trace_frames_24 trace_cell_25])
qed

lemma trace_frames_26:
  "particle_frames_fp [0, 0, 0] [1, 0, 0] (replicate 26 1) [0, 0, 0] = [(8363255 / 8388608), 0, 0]"
proof -
  have e: "(26 :: nat) = Suc 25" by simp
  show ?thesis unfolding e by (rule trace_step [OF trace_frames_25 trace_cell_26])
qed

lemma trace_frames_27:
  "particle_frames_fp [0, 0, 0] [1, 0, 0] (replicate 27 1) [0, 0, 0] = [(16736651 / 16777216), 0, 0]"
proof -
  have e: "(27 :: nat) = Suc 26" by simp
  show ?thesis unfolding e by (rule trace_step [OF trace_frames_26 trace_cell_27])
qed

lemma trace_frames_28:
  "particle_frames_fp [0, 0, 0] [1, 0, 0] (replicate 28 1) [0, 0, 0] = [(4186191 / 4194304), 0, 0]"
proof -
  have e: "(28 :: nat) = Suc 27" by simp
  show ?thesis unfolding e by (rule trace_step [OF trace_frames_27 trace_cell_28])
qed

lemma trace_frames_29:
  "particle_frames_fp [0, 0, 0] [1, 0, 0] (replicate 29 1) [0, 0, 0] = [(8375627 / 8388608), 0, 0]"
proof -
  have e: "(29 :: nat) = Suc 28" by simp
  show ?thesis unfolding e by (rule trace_step [OF trace_frames_28 trace_cell_29])
qed

lemma trace_frames_30:
  "particle_frames_fp [0, 0, 0] [1, 0, 0] (replicate 30 1) [0, 0, 0] = [(8378223 / 8388608), 0, 0]"
proof -
  have e: "(30 :: nat) = Suc 29" by simp
  show ?thesis unfolding e by (rule trace_step [OF trace_frames_29 trace_cell_30])
qed

lemma trace_frames_31:
  "particle_frames_fp [0, 0, 0] [1, 0, 0] (replicate 31 1) [0, 0, 0] = [(2095075 / 2097152), 0, 0]"
proof -
  have e: "(31 :: nat) = Suc 30" by simp
  show ?thesis unfolding e by (rule trace_step [OF trace_frames_30 trace_cell_31])
qed

lemma trace_frames_32:
  "particle_frames_fp [0, 0, 0] [1, 0, 0] (replicate 32 1) [0, 0, 0] = [(16763923 / 16777216), 0, 0]"
proof -
  have e: "(32 :: nat) = Suc 31" by simp
  show ?thesis unfolding e by (rule trace_step [OF trace_frames_31 trace_cell_32])
qed

lemma trace_frames_33:
  "particle_frames_fp [0, 0, 0] [1, 0, 0] (replicate 33 1) [0, 0, 0] = [(8383291 / 8388608), 0, 0]"
proof -
  have e: "(33 :: nat) = Suc 32" by simp
  show ?thesis unfolding e by (rule trace_step [OF trace_frames_32 trace_cell_33])
qed

lemma trace_frames_34:
  "particle_frames_fp [0, 0, 0] [1, 0, 0] (replicate 34 1) [0, 0, 0] = [(16768709 / 16777216), 0, 0]"
proof -
  have e: "(34 :: nat) = Suc 33" by simp
  show ?thesis unfolding e by (rule trace_step [OF trace_frames_33 trace_cell_34])
qed

lemma trace_frames_35:
  "particle_frames_fp [0, 0, 0] [1, 0, 0] (replicate 35 1) [0, 0, 0] = [(8385205 / 8388608), 0, 0]"
proof -
  have e: "(35 :: nat) = Suc 34" by simp
  show ?thesis unfolding e by (rule trace_step [OF trace_frames_34 trace_cell_35])
qed

lemma trace_frames_36:
  "particle_frames_fp [0, 0, 0] [1, 0, 0] (replicate 36 1) [0, 0, 0] = [(16771771 / 16777216), 0, 0]"
proof -
  have e: "(36 :: nat) = Suc 35" by simp
  show ?thesis unfolding e by (rule trace_step [OF trace_frames_35 trace_cell_36])
qed

lemma trace_frames_37:
  "particle_frames_fp [0, 0, 0] [1, 0, 0] (replicate 37 1) [0, 0, 0] = [(4193215 / 4194304), 0, 0]"
proof -
  have e: "(37 :: nat) = Suc 36" by simp
  show ?thesis unfolding e by (rule trace_step [OF trace_frames_36 trace_cell_37])
qed

lemma trace_frames_38:
  "particle_frames_fp [0, 0, 0] [1, 0, 0] (replicate 38 1) [0, 0, 0] = [(16773731 / 16777216), 0, 0]"
proof -
  have e: "(38 :: nat) = Suc 37" by simp
  show ?thesis unfolding e by (rule trace_step [OF trace_frames_37 trace_cell_38])
qed

lemma trace_frames_39:
  "particle_frames_fp [0, 0, 0] [1, 0, 0] (replicate 39 1) [0, 0, 0] = [(4193607 / 4194304), 0, 0]"
proof -
  have e: "(39 :: nat) = Suc 38" by simp
  show ?thesis unfolding e by (rule trace_step [OF trace_frames_38 trace_cell_39])
qed

lemma trace_frames_40:
  "particle_frames_fp [0, 0, 0] [1, 0, 0] (replicate 40 1) [0, 0, 0] = [(8387493 / 8388608), 0, 0]"
proof -
  have e: "(40 :: nat) = Suc 39" by simp
  show ?thesis unfolding e by (rule trace_step [OF trace_frames_39 trace_cell_40])
qed

lemma trace_frames_41:
  "particle_frames_fp [0, 0, 0] [1, 0, 0] (replicate 41 1) [0, 0, 0] = [(2096929 / 2097152), 0, 0]"
proof -
  have e: "(41 :: nat) = Suc 40" by simp
  show ?thesis unfolding e by (rule trace_step [OF trace_frames_40 trace_cell_41])
qed

lemma trace_frames_42:
  "particle_frames_fp [0, 0, 0] [1, 0, 0] (replicate 42 1) [0, 0, 0] = [(16775789 / 16777216), 0, 0]"
proof -
  have e: "(42 :: nat) = Suc 41" by simp
  show ?thesis unfolding e by (rule trace_step [OF trace_frames_41 trace_cell_42])
qed

lemma trace_frames_43:
  "particle_frames_fp [0, 0, 0] [1, 0, 0] (replicate 43 1) [0, 0, 0] = [(8388037 / 8388608), 0, 0]"
proof -
  have e: "(43 :: nat) = Suc 42" by simp
  show ?thesis unfolding e by (rule trace_step [OF trace_frames_42 trace_cell_43])
qed

lemma trace_frames_44:
  "particle_frames_fp [0, 0, 0] [1, 0, 0] (replicate 44 1) [0, 0, 0] = [(8388151 / 8388608), 0, 0]"
proof -
  have e: "(44 :: nat) = Suc 43" by simp
  show ?thesis unfolding e by (rule trace_step [OF trace_frames_43 trace_cell_44])
qed

lemma trace_frames_45:
  "particle_frames_fp [0, 0, 0] [1, 0, 0] (replicate 45 1) [0, 0, 0] = [(16776485 / 16777216), 0, 0]"
proof -
  have e: "(45 :: nat) = Suc 44" by simp
  show ?thesis unfolding e by (rule trace_step [OF trace_frames_44 trace_cell_45])
qed

lemma trace_frames_46:
  "particle_frames_fp [0, 0, 0] [1, 0, 0] (replicate 46 1) [0, 0, 0] = [(16776631 / 16777216), 0, 0]"
proof -
  have e: "(46 :: nat) = Suc 45" by simp
  show ?thesis unfolding e by (rule trace_step [OF trace_frames_45 trace_cell_46])
qed

lemma trace_frames_47:
  "particle_frames_fp [0, 0, 0] [1, 0, 0] (replicate 47 1) [0, 0, 0] = [(4194187 / 4194304), 0, 0]"
proof -
  have e: "(47 :: nat) = Suc 46" by simp
  show ?thesis unfolding e by (rule trace_step [OF trace_frames_46 trace_cell_47])
qed

lemma trace_frames_48:
  "particle_frames_fp [0, 0, 0] [1, 0, 0] (replicate 48 1) [0, 0, 0] = [(8388421 / 8388608), 0, 0]"
proof -
  have e: "(48 :: nat) = Suc 47" by simp
  show ?thesis unfolding e by (rule trace_step [OF trace_frames_47 trace_cell_48])
qed

lemma trace_frames_49:
  "particle_frames_fp [0, 0, 0] [1, 0, 0] (replicate 49 1) [0, 0, 0] = [(16776917 / 16777216), 0, 0]"
proof -
  have e: "(49 :: nat) = Suc 48" by simp
  show ?thesis unfolding e by (rule trace_step [OF trace_frames_48 trace_cell_49])
qed

lemma trace_frames_50:
  "particle_frames_fp [0, 0, 0] [1, 0, 0] (replicate 50 1) [0, 0, 0] = [(16776977 / 16777216), 0, 0]"
proof -
  have e: "(50 :: nat) = Suc 49" by simp
  show ?thesis unfolding e by (rule trace_step [OF trace_frames_49 trace_cell_50])
qed

lemma trace_frames_51:
  "particle_frames_fp [0, 0, 0] [1, 0, 0] (replicate 51 1) [0, 0, 0] = [(16777025 / 16777216), 0, 0]"
proof -
  have e: "(51 :: nat) = Suc 50" by simp
  show ?thesis unfolding e by (rule trace_step [OF trace_frames_50 trace_cell_51])
qed

lemma trace_frames_52:
  "particle_frames_fp [0, 0, 0] [1, 0, 0] (replicate 52 1) [0, 0, 0] = [(16777063 / 16777216), 0, 0]"
proof -
  have e: "(52 :: nat) = Suc 51" by simp
  show ?thesis unfolding e by (rule trace_step [OF trace_frames_51 trace_cell_52])
qed

lemma trace_frames_53:
  "particle_frames_fp [0, 0, 0] [1, 0, 0] (replicate 53 1) [0, 0, 0] = [(8388547 / 8388608), 0, 0]"
proof -
  have e: "(53 :: nat) = Suc 52" by simp
  show ?thesis unfolding e by (rule trace_step [OF trace_frames_52 trace_cell_53])
qed

lemma trace_frames_54:
  "particle_frames_fp [0, 0, 0] [1, 0, 0] (replicate 54 1) [0, 0, 0] = [(8388559 / 8388608), 0, 0]"
proof -
  have e: "(54 :: nat) = Suc 53" by simp
  show ?thesis unfolding e by (rule trace_step [OF trace_frames_53 trace_cell_54])
qed

lemma trace_frames_55:
  "particle_frames_fp [0, 0, 0] [1, 0, 0] (replicate 55 1) [0, 0, 0] = [(8388569 / 8388608), 0, 0]"
proof -
  have e: "(55 :: nat) = Suc 54" by simp
  show ?thesis unfolding e by (rule trace_step [OF trace_frames_54 trace_cell_55])
qed

lemma trace_frames_56:
  "particle_frames_fp [0, 0, 0] [1, 0, 0] (replicate 56 1) [0, 0, 0] = [(8388577 / 8388608), 0, 0]"
proof -
  have e: "(56 :: nat) = Suc 55" by simp
  show ?thesis unfolding e by (rule trace_step [OF trace_frames_55 trace_cell_56])
qed

lemma trace_frames_57:
  "particle_frames_fp [0, 0, 0] [1, 0, 0] (replicate 57 1) [0, 0, 0] = [(8388583 / 8388608), 0, 0]"
proof -
  have e: "(57 :: nat) = Suc 56" by simp
  show ?thesis unfolding e by (rule trace_step [OF trace_frames_56 trace_cell_57])
qed

lemma trace_frames_58:
  "particle_frames_fp [0, 0, 0] [1, 0, 0] (replicate 58 1) [0, 0, 0] = [(2097147 / 2097152), 0, 0]"
proof -
  have e: "(58 :: nat) = Suc 57" by simp
  show ?thesis unfolding e by (rule trace_step [OF trace_frames_57 trace_cell_58])
qed

lemma trace_frames_59:
  "particle_frames_fp [0, 0, 0] [1, 0, 0] (replicate 59 1) [0, 0, 0] = [(524287 / 524288), 0, 0]"
proof -
  have e: "(59 :: nat) = Suc 58" by simp
  show ?thesis unfolding e by (rule trace_step [OF trace_frames_58 trace_cell_59])
qed

lemma trace_frames_60:
  "particle_frames_fp [0, 0, 0] [1, 0, 0] (replicate 60 1) [0, 0, 0] = [(8388595 / 8388608), 0, 0]"
proof -
  have e: "(60 :: nat) = Suc 59" by simp
  show ?thesis unfolding e by (rule trace_step [OF trace_frames_59 trace_cell_60])
qed

lemma trace_frames_61:
  "particle_frames_fp [0, 0, 0] [1, 0, 0] (replicate 61 1) [0, 0, 0] = [(16777195 / 16777216), 0, 0]"
proof -
  have e: "(61 :: nat) = Suc 60" by simp
  show ?thesis unfolding e by (rule trace_step [OF trace_frames_60 trace_cell_61])
qed

lemma trace_frames_62:
  "particle_frames_fp [0, 0, 0] [1, 0, 0] (replicate 62 1) [0, 0, 0] = [(16777199 / 16777216), 0, 0]"
proof -
  have e: "(62 :: nat) = Suc 61" by simp
  show ?thesis unfolding e by (rule trace_step [OF trace_frames_61 trace_cell_62])
qed

lemma trace_frames_63:
  "particle_frames_fp [0, 0, 0] [1, 0, 0] (replicate 63 1) [0, 0, 0] = [(8388601 / 8388608), 0, 0]"
proof -
  have e: "(63 :: nat) = Suc 62" by simp
  show ?thesis unfolding e by (rule trace_step [OF trace_frames_62 trace_cell_63])
qed

lemma trace_frames_64:
  "particle_frames_fp [0, 0, 0] [1, 0, 0] (replicate 64 1) [0, 0, 0] = [(16777205 / 16777216), 0, 0]"
proof -
  have e: "(64 :: nat) = Suc 63" by simp
  show ?thesis unfolding e by (rule trace_step [OF trace_frames_63 trace_cell_64])
qed

lemma trace_frames_65:
  "particle_frames_fp [0, 0, 0] [1, 0, 0] (replicate 65 1) [0, 0, 0] = [(16777207 / 16777216), 0, 0]"
proof -
  have e: "(65 :: nat) = Suc 64" by simp
  show ?thesis unfolding e by (rule trace_step [OF trace_frames_64 trace_cell_65])
qed

lemma trace_frames_66:
  "particle_frames_fp [0, 0, 0] [1, 0, 0] (replicate 66 1) [0, 0, 0] = [(16777209 / 16777216), 0, 0]"
proof -
  have e: "(66 :: nat) = Suc 65" by simp
  show ?thesis unfolding e by (rule trace_step [OF trace_frames_65 trace_cell_66])
qed

lemma trace_frames_67:
  "particle_frames_fp [0, 0, 0] [1, 0, 0] (replicate 67 1) [0, 0, 0] = [(8388605 / 8388608), 0, 0]"
proof -
  have e: "(67 :: nat) = Suc 66" by simp
  show ?thesis unfolding e by (rule trace_step [OF trace_frames_66 trace_cell_67])
qed

lemma trace_frames_68:
  "particle_frames_fp [0, 0, 0] [1, 0, 0] (replicate 68 1) [0, 0, 0] = [(16777211 / 16777216), 0, 0]"
proof -
  have e: "(68 :: nat) = Suc 67" by simp
  show ?thesis unfolding e by (rule trace_step [OF trace_frames_67 trace_cell_68])
qed

lemma trace_frames_69:
  "particle_frames_fp [0, 0, 0] [1, 0, 0] (replicate 69 1) [0, 0, 0] = [(4194303 / 4194304), 0, 0]"
proof -
  have e: "(69 :: nat) = Suc 68" by simp
  show ?thesis unfolding e by (rule trace_step [OF trace_frames_68 trace_cell_69])
qed

lemma trace_frames_70:
  "particle_frames_fp [0, 0, 0] [1, 0, 0] (replicate 70 1) [0, 0, 0] = [(16777213 / 16777216), 0, 0]"
proof -
  have e: "(70 :: nat) = Suc 69" by simp
  show ?thesis unfolding e by (rule trace_step [OF trace_frames_69 trace_cell_70])
qed

lemma trace_frames_71:
  "particle_frames_fp [0, 0, 0] [1, 0, 0] (replicate 71 1) [0, 0, 0] = [(8388607 / 8388608), 0, 0]"
proof -
  have e: "(71 :: nat) = Suc 70" by simp
  show ?thesis unfolding e by (rule trace_step [OF trace_frames_70 trace_cell_71])
qed

lemma trace_stalled:
  "particle_frames_fp [0, 0, 0] [1, 0, 0] (replicate (71 + n) 1) [0, 0, 0] = [8388607 / 8388608, 0, 0]"
proof (induction n)
  case 0
  show ?case using trace_frames_71 by simp
next
  case (Suc n)
  have e: "71 + Suc n = Suc (71 + n)" by simp
  show ?case unfolding e by (rule trace_step [OF Suc.IH trace_cell_72])
qed

lemma explode_dist_fp_trace:
  "explode_dist_fp [0, 0, 0] [1, 0, 0] 0 (71 + n) = 1 / 8388608"
  unfolding explode_dist_fp_def trace_stalled entity_pos_three vec_dist_axis by simp

subsection \<open>The claims in the program's arithmetic\<close>

text \<open>
  Claim C6, as stated, fails. In the rounded reading an entity that rests at \<open>(0, 0, 0)\<close> and
  explodes to \<open>(1, 0, 0)\<close> is at the distance \<open>0.79999999701976776\<close> after the first frame, not
  at 0.8 times the first distance; after 71 frames it is at \<open>2 ^ - 23\<close>, and there it stays: the
  step of frame 72 is less than half the distance between neighbouring binary32 numbers. An
  entity that rests at \<open>1 - 2 ^ - 24\<close> does not move at all.
\<close>

theorem explosion_stalls_in_float32:
  "entity_pos [0, 0, 0] 0 \<noteq> entity_pos [1, 0, 0] 0
   \<and> explode_dist_fp [0, 0, 0] [1, 0, 0] 0 0 = 1
   \<and> explode_dist_fp [0, 0, 0] [1, 0, 0] 0 (Suc 0) = 53687091 / 67108864
   \<and> explode_dist_fp [0, 0, 0] [1, 0, 0] 0 (Suc 0)
       \<noteq> (1 - EXPLOSION_SPEED) * explode_dist_fp [0, 0, 0] [1, 0, 0] 0 0
   \<and> explode_dist_fp [0, 0, 0] [1, 0, 0] 0 71 = 1 / 8388608
   \<and> explode_dist_fp [0, 0, 0] [1, 0, 0] 0 72 = 1 / 8388608
   \<and> \<not> explode_dist_fp [0, 0, 0] [1, 0, 0] 0 72 < explode_dist_fp [0, 0, 0] [1, 0, 0] 0 71
   \<and> explode_dist_fp [0, 0, 0] [1, 0, 0] 0 1000 = 1 / 8388608
   \<and> \<not> explode_dist_fp [0, 0, 0] [1, 0, 0] 0 1000 < 1 / 10000000
   \<and> entity_pos [16777215 / 16777216, 0, 0] 0 \<noteq> entity_pos [1, 0, 0] 0
   \<and> explode_dist_fp [16777215 / 16777216, 0, 0] [1, 0, 0] 0 0 = 1 / 16777216
   \<and> explode_dist_fp [16777215 / 16777216, 0, 0] [1, 0, 0] 0 1 = 1 / 16777216
   \<and> explode_dist_fp [16777215 / 16777216, 0, 0] [1, 0, 0] 0 1000 = 1 / 16777216"
proof -
  have ne: "entity_pos [0, 0, 0] 0 \<noteq> entity_pos [1, 0, 0 :: real] 0"
    "entity_pos [16777215 / 16777216, 0, 0] 0 \<noteq> entity_pos [1, 0, 0 :: real] 0"
    by (simp_all add: entity_pos_three)
  have d0: "explode_dist_fp [0, 0, 0] [1, 0, 0] 0 0 = 1"
    unfolding explode_dist_fp_def frames_fp_one entity_pos_three vec_dist_axis by simp
  have d1: "explode_dist_fp [0, 0, 0] [1, 0, 0] 0 (Suc 0) = 53687091 / 67108864"
    unfolding explode_dist_fp_def frames_fp_one frame_fp_first entity_pos_three vec_dist_axis
    by simp
  have r: "explode_dist_fp [0, 0, 0] [1, 0, 0] 0 (Suc 0)
             \<noteq> (1 - EXPLOSION_SPEED) * explode_dist_fp [0, 0, 0] [1, 0, 0] 0 0"
    unfolding d0 d1 by (simp add: EXPLOSION_SPEED_def)
  have t71: "explode_dist_fp [0, 0, 0] [1, 0, 0] 0 71 = 1 / 8388608"
    using explode_dist_fp_trace [of 0] by simp
  have t72: "explode_dist_fp [0, 0, 0] [1, 0, 0] 0 72 = 1 / 8388608"
    using explode_dist_fp_trace [of 1] by simp
  have t1000: "explode_dist_fp [0, 0, 0] [1, 0, 0] 0 1000 = 1 / 8388608"
    using explode_dist_fp_trace [of 929] by simp
  show ?thesis
    unfolding t71 t72 t1000 d0 d1 explode_dist_fp_stall
    using ne r [unfolded d0 d1] by simp
qed





lemma deco_fp_one_child:
  "Deco_useFrame_fp True [it] f time \<lparr>curF = c, children = [ch]\<rparr> =
     \<lparr>curF = blend_fp c f (particle_speed_fp f),
      children = [ch\<lparr>position := lerpVectors_fp (startPos it) (endPos it)
                                     (blend_fp c f (particle_speed_fp f)),
                    euler := (d64 (fst (rot it) + time), d64 (fst (snd (rot it)) + time),
                              snd (snd (rot it)))\<rparr>]\<rparr>"
  by (simp add: Deco_useFrame_fp_def Let_def blend_fp_def particle_speed_fp_def)

lemma deco_fp_example:
  "fst (position (children (deco_frames_fp [example_item] [(1, 0), (0, 1 / 60)] example_deco) ! 0))
     = 3963167672086037 / 2251799813685248"
proof -
  have "deco_frames_fp [example_item] [(1, 0), (0, 1 / 60)] example_deco =
          Deco_useFrame_fp True [example_item] 0 (1 / 60)
            (Deco_useFrame_fp True [example_item] 1 0 example_deco)"
    by (simp add: deco_frames_fp_def)
  also have "Deco_useFrame_fp True [example_item] 1 0 example_deco =
               \<lparr>curF = 3602879701896397 / 18014398509481984,
                children = [\<lparr>position = lerpVectors_fp (startPos example_item) (endPos example_item)
                                          (3602879701896397 / 18014398509481984),
                             euler = (d64 (fst (rot example_item) + 0),
                                      d64 (fst (snd (rot example_item)) + 0),
                                      snd (snd (rot example_item)))\<rparr>]\<rparr>"
    unfolding example_deco_def deco_fp_one_child particle_speed_fp_values blend_deco_1 by simp
  finally have "fst (position (children
                   (deco_frames_fp [example_item] [(1, 0), (0, 1 / 60)] example_deco) ! 0))
                 = lerp_fp 0 10 (6341068275337659 / 36028797018963968)"
    unfolding deco_fp_one_child particle_speed_fp_values blend_deco_2
    by (simp add: example_item_def)
  then show ?thesis unfolding lerp_deco_2 .
qed

lemma particle_fp_example:
  "fst (entity_pos
         (particle_frames_fp (flat (map startPos [example_item])) (flat (map endPos [example_item]))
            (map fst [(1, 0), (0, 1 / 60 :: real)]) (flat (map startPos [example_item]))) 0)
     = 7381975 / 4194304"
proof -
  have fl: "flat (map startPos [example_item]) = [0, 0, 0]"
    "flat (map endPos [example_item]) = [10, 20, 30]"
    by (simp_all add: flat_def example_item_def)
  have "particle_frames_fp [0, 0, 0] [10, 20, 30] [1, 0] [0, 0, 0] =
          TreeParticles_useFrame_fp True [0, 0, 0] [10, 20, 30] 0
            (TreeParticles_useFrame_fp True [0, 0, 0] [10, 20, 30] 1 [0, 0, 0])"
    by (simp add: particle_frames_fp_def)
  then have "fst (entity_pos (particle_frames_fp [0, 0, 0] [10, 20, 30] [1, 0] [0, 0, 0]) 0)
               = 7381975 / 4194304"
    by (simp only: frame_fp_three particle_speed_fp_values cell_deco_1 cell_deco_2
        entity_pos_three fst_conv)
  then show ?thesis unfolding fl by simp
qed

text \<open>
  Claim C9, as stated, fails: for the item from \<open>(0, 0, 0)\<close> to \<open>(10, 20, 30)\<close> and the factors 1
  and 0, the program's decoration has the \<open>x\<close> coordinate \<open>1.7600000000000002\<close> after the second
  frame (the binary64 product of 10 and \<open>curF\<close>) and its particle \<open>1.7599999904632568\<close> (the
  binary32 number nearest to \<open>1.76\<close>).
\<close>

theorem decorations_differ_in_floating_point:
  "fst (position (children (deco_frames_fp [example_item] [(1, 0), (0, 1 / 60)] example_deco) ! 0))
     = 3963167672086037 / 2251799813685248
   \<and> fst (entity_pos
         (particle_frames_fp (flat (map startPos [example_item])) (flat (map endPos [example_item]))
            (map fst [(1, 0), (0, 1 / 60 :: real)]) (flat (map startPos [example_item]))) 0)
     = 7381975 / 4194304
   \<and> position (children (deco_frames_fp [example_item] [(1, 0), (0, 1 / 60)] example_deco) ! 0)
     \<noteq> entity_pos
         (particle_frames_fp (flat (map startPos [example_item])) (flat (map endPos [example_item]))
            (map fst [(1, 0), (0, 1 / 60 :: real)]) (flat (map startPos [example_item]))) 0"
proof -
  have "fst (position (children
               (deco_frames_fp [example_item] [(1, 0), (0, 1 / 60)] example_deco) ! 0))
        \<noteq> fst (entity_pos
         (particle_frames_fp (flat (map startPos [example_item])) (flat (map endPos [example_item]))
            (map fst [(1, 0), (0, 1 / 60 :: real)]) (flat (map startPos [example_item]))) 0)"
    unfolding deco_fp_example particle_fp_example by simp
  then have "position (children
               (deco_frames_fp [example_item] [(1, 0), (0, 1 / 60)] example_deco) ! 0)
        \<noteq> entity_pos
         (particle_frames_fp (flat (map startPos [example_item])) (flat (map endPos [example_item]))
            (map fst [(1, 0), (0, 1 / 60 :: real)]) (flat (map startPos [example_item]))) 0"
    by auto
  then show ?thesis using deco_fp_example particle_fp_example by simp
qed

section \<open>The program against the exact law\<close>

text \<open>
  Rounding to \<open>p\<close> significant bits changes a number by at most the fraction \<open>1 / 2 ^ p\<close> of
  its magnitude. With the cells bounded by \<open>M\<close>, one frame of the rounded loop therefore differs
  from one frame of the exact law, applied to the same cell, by at most \<open>M / 2 ^ 23\<close>; and since
  a frame of the exact law brings two cells nearer to each other, by the factor \<open>0.8\<close> or \<open>0.88\<close>,
  these differences do not add up: after any number of frames at the factors 0 and 1, the only
  factors that \<open>predict\<close> publishes, a cell of the rounded loop is within \<open>M / 2 ^ 18\<close> of the
  cell of the exact law.

  In the claims below \<open>M\<close> is between \<open>2 ^ - 64\<close> and \<open>2 ^ 64\<close>. The rounding functions have no
  limits of the exponent; with \<open>M\<close> in that range no operation of the program overflows, and
  the error of a rounding with gradual underflow, at most \<open>2 ^ - 150\<close> in a binary32 cell, is
  below every bound \<open>k * M / 2 ^ p\<close> that the proofs put on a single rounding.
\<close>

lemma rne_error: "\<bar>of_int (rne y) - y\<bar> \<le> 1 / 2"
proof -
  have "of_int \<lfloor>y\<rfloor> \<le> y" "y < of_int \<lfloor>y\<rfloor> + 1" by linarith+
  then show ?thesis by (auto simp: rne_def Let_def)
qed

lemma round_bits_error: "\<bar>round_bits p x - x\<bar> \<le> \<bar>x\<bar> / 2 ^ p"
proof (cases "x = 0")
  case True
  then show ?thesis by (simp add: round_bits_def)
next
  case False
  define e where "e = \<lfloor>log 2 \<bar>x\<bar>\<rfloor>"
  define u :: real where "u = 2 powi (e - int p + 1)"
  have upos: "0 < u" by (simp add: u_def)
  have ax: "0 < \<bar>x\<bar>" using False by simp
  have "of_int e \<le> log 2 \<bar>x\<bar>" by (simp add: e_def)
  then have "2 powr (of_int e) \<le> \<bar>x\<bar>" using ax by (simp add: le_log_iff)
  then have lo: "2 powi e \<le> \<bar>x\<bar>" by (simp add: powr_real_of_int')
  have "(2 :: real) powi (e - int p + 1) = 2 powi e * 2 / 2 ^ p"
    by (simp add: power_int_add power_int_diff)
  then have u2: "u / 2 = 2 powi e / 2 ^ p" by (simp add: u_def)
  have r: "round_bits p x = of_int (rne (x / u)) * u"
    using False by (simp add: round_bits_def Let_def e_def u_def)
  have "\<bar>round_bits p x - x\<bar> = \<bar>of_int (rne (x / u)) - x / u\<bar> * u"
  proof -
    have "round_bits p x - x = (of_int (rne (x / u)) - x / u) * u"
      using upos by (simp add: r field_simps)
    then show ?thesis using upos by (simp add: abs_mult)
  qed
  also have "\<dots> \<le> (1 / 2) * u"
    by (rule mult_right_mono [OF rne_error]) (use upos in simp)
  also have "\<dots> = 2 powi e / 2 ^ p" using u2 by simp
  also have "\<dots> \<le> \<bar>x\<bar> / 2 ^ p" using lo by (simp add: divide_right_mono)
  finally show ?thesis .
qed


lemma d64_error: "\<bar>d64 x - x\<bar> \<le> \<bar>x\<bar> / 2 ^ 53"
  unfolding d64_def by (rule round_bits_error)

lemma f32_error: "\<bar>f32 x - x\<bar> \<le> \<bar>x\<bar> / 2 ^ 24"
  unfolding f32_def by (rule round_bits_error)

lemma d64_zero: "d64 0 = 0"
  by (simp add: d64_def round_bits_def)

lemma convex_bound:
  fixes c t s M :: real
  assumes "0 \<le> s" "s \<le> 1" "\<bar>c\<bar> \<le> M" "\<bar>t\<bar> \<le> M"
  shows "\<bar>c + (t - c) * s\<bar> \<le> M"
proof -
  have "c + (t - c) * s = (1 - s) * c + s * t" by (simp add: algebra_simps)
  also have "\<bar>\<dots>\<bar> \<le> \<bar>(1 - s) * c\<bar> + \<bar>s * t\<bar>" by (rule abs_triangle_ineq)
  also have "\<dots> = (1 - s) * \<bar>c\<bar> + s * \<bar>t\<bar>" using assms(1,2) by (simp add: abs_mult)
  also have "\<dots> \<le> (1 - s) * M + s * M"
    by (intro add_mono mult_left_mono) (use assms in simp_all)
  also have "\<dots> = M" by (simp add: algebra_simps)
  finally show ?thesis .
qed

lemma scaled_bound:
  fixes x s :: real
  assumes "0 \<le> s" "s \<le> 1"
  shows "\<bar>x * s\<bar> \<le> \<bar>x\<bar>"
proof -
  have "\<bar>x * s\<bar> = \<bar>x\<bar> * s" using assms(1) by (simp add: abs_mult)
  also have "\<dots> \<le> \<bar>x\<bar> * 1" by (rule mult_left_mono) (use assms in simp_all)
  finally show ?thesis by simp
qed

lemma cell_fp_close:
  assumes f: "f = 0 \<or> f = 1" and s: "0 \<le> s" "s \<le> 1"
    and M: "\<bar>a\<bar> \<le> M" "\<bar>b\<bar> \<le> M" "\<bar>c\<bar> \<le> M"
  shows "\<bar>cell_fp a b f s c - (c + ((a + (b - a) * f) - c) * s)\<bar> \<le> M / 2 ^ 23"
proof -
  have M0: "0 \<le> M" using M(1) by linarith
  define u where "u = M / 2 ^ 53"
  define w where "w = M / 2 ^ 24"
  have u0: "0 \<le> u" and uM: "u \<le> M / 100" and uw: "u \<le> w / 100" and w0: "0 \<le> w"
    and wM: "w \<le> M / 100"
  proof -
    show "0 \<le> u" "0 \<le> w" using M0 by (simp_all add: u_def w_def)
    show "u \<le> M / 100" unfolding u_def by (rule divide_left_mono) (use M0 in simp_all)
    show "w \<le> M / 100" unfolding w_def by (rule divide_left_mono) (use M0 in simp_all)
    have "M / 2 ^ 53 \<le> M / (100 * 2 ^ 24)" by (rule divide_left_mono) (use M0 in simp_all)
    then show "u \<le> w / 100" by (simp add: u_def w_def)
  qed
  have err64: "\<bar>d64 x - x\<bar> \<le> k * u" if "\<bar>x\<bar> \<le> k * M" for x k
  proof -
    have "\<bar>x\<bar> / 2 ^ 53 \<le> k * M / 2 ^ 53" using that by (rule divide_right_mono) simp
    then show ?thesis using d64_error [of x] by (simp add: u_def)
  qed
  define v1 where "v1 = d64 (b - a)"
  define v2 where "v2 = d64 (v1 * f)"
  define v3 where "v3 = d64 (a + v2)"
  define v4 where "v4 = d64 (v3 - c)"
  define v5 where "v5 = d64 (v4 * s)"
  define v6 where "v6 = d64 (c + v5)"
  define t where "t = a + (b - a) * f"
  define X where "X = c + (t - c) * s"
  have cell: "cell_fp a b f s c = f32 v6"
    by (simp add: cell_fp_def v1_def v2_def v3_def v4_def v5_def v6_def)
  have tM: "\<bar>t\<bar> \<le> M" using f M by (auto simp: t_def)
  have XM: "\<bar>X\<bar> \<le> M" unfolding X_def by (rule convex_bound [OF s M(3) tM])
  have b1: "\<bar>v1 - (b - a)\<bar> \<le> 2 * u"
    unfolding v1_def by (rule err64) (use M in linarith)
  have b2: "\<bar>v2 - (t - a)\<bar> \<le> 5 * u"
  proof -
    from f show ?thesis
    proof
      assume "f = 0"
      then show ?thesis using u0 by (simp add: v2_def t_def d64_zero)
    next
      assume f1: "f = 1"
      have "\<bar>v1\<bar> \<le> 3 * M" using b1 M uM by linarith
      then have "\<bar>d64 v1 - v1\<bar> \<le> 3 * u" by (rule err64)
      then show ?thesis using b1 by (simp add: v2_def t_def f1)
    qed
  qed
  have b3: "\<bar>v3 - t\<bar> \<le> 9 * u"
  proof -
    have "\<bar>a + v2\<bar> \<le> 4 * M" using b2 tM M uM by linarith
    then have "\<bar>d64 (a + v2) - (a + v2)\<bar> \<le> 4 * u" by (rule err64)
    then show ?thesis using b2 unfolding v3_def by linarith
  qed
  have b4: "\<bar>v4 - (t - c)\<bar> \<le> 12 * u"
  proof -
    have "\<bar>v3 - c\<bar> \<le> 3 * M" using b3 tM M uM by linarith
    then have "\<bar>d64 (v3 - c) - (v3 - c)\<bar> \<le> 3 * u" by (rule err64)
    then show ?thesis using b3 unfolding v4_def by linarith
  qed
  have b5: "\<bar>v5 - (t - c) * s\<bar> \<le> 15 * u"
  proof -
    have "\<bar>v4\<bar> \<le> 3 * M" using b4 tM M uM by linarith
    then have "\<bar>v4 * s\<bar> \<le> 3 * M" using scaled_bound [OF s, of v4] by linarith
    then have r: "\<bar>d64 (v4 * s) - v4 * s\<bar> \<le> 3 * u" by (rule err64)
    have "v4 * s - (t - c) * s = (v4 - (t - c)) * s" by (simp add: algebra_simps)
    then have "\<bar>v4 * s - (t - c) * s\<bar> \<le> \<bar>v4 - (t - c)\<bar>"
      using scaled_bound [OF s, of "v4 - (t - c)"] by simp
    then show ?thesis using r b4 unfolding v5_def by linarith
  qed
  have b6: "\<bar>v6 - X\<bar> \<le> 17 * u"
  proof -
    have "\<bar>c + v5\<bar> \<le> 2 * M" using b5 XM uM unfolding X_def by linarith
    then have "\<bar>d64 (c + v5) - (c + v5)\<bar> \<le> 2 * u" by (rule err64)
    then show ?thesis using b5 unfolding v6_def X_def by linarith
  qed
  have b7: "\<bar>f32 v6 - X\<bar> \<le> 2 * w"
  proof -
    have v6M: "\<bar>v6\<bar> \<le> 3 / 2 * M" using b6 XM uM by linarith
    have "\<bar>v6\<bar> / 2 ^ 24 \<le> 3 / 2 * M / 2 ^ 24" using v6M by (rule divide_right_mono) simp
    then have "\<bar>f32 v6 - v6\<bar> \<le> 3 / 2 * w" using f32_error [of v6] by (simp add: w_def)
    then show ?thesis using b6 uw w0 by linarith
  qed
  have "2 * w = M / 2 ^ 23" by (simp add: w_def)
  then show ?thesis using b7 by (simp add: cell X_def t_def)
qed


lemma length_particle_body_fp:
  "length (particle_body_fp ini ex f s i cur) = length cur"
  by (simp add: particle_body_fp_def Let_def)

lemma nth_particle_body_fp:
  assumes "j < length cur"
  shows "particle_body_fp ini ex f s i cur ! j =
           (if j div 3 = i then cell_fp (ini ! j) (ex ! j) f s (cur ! j) else cur ! j)"
proof (cases "j div 3 = i")
  case False
  then have "j \<noteq> i * 3" "j \<noteq> i * 3 + 1" "j \<noteq> i * 3 + 2" by auto
  then show ?thesis using False by (simp add: particle_body_fp_def Let_def)
next
  case True
  then consider "j = i * 3" | "j = i * 3 + 1" | "j = i * 3 + 2" by arith
  then show ?thesis
  proof cases
    case 1
    then show ?thesis using assms True by (simp add: particle_body_fp_def cell_fp_def Let_def)
  next
    case 2
    then show ?thesis using assms True by (simp add: particle_body_fp_def cell_fp_def Let_def)
  next
    case 3
    then show ?thesis using assms True by (simp add: particle_body_fp_def cell_fp_def Let_def)
  qed
qed

lemma length_particle_loop_fp:
  "length (particle_loop_fp ini ex f s i cur) = length cur"
proof (induction ini ex f s i cur rule: particle_loop_fp.induct)
  case (1 ini ex f s i cur)
  show ?case
  proof (cases "real i < real (length cur) / 3")
    case True
    then show ?thesis
      using "1.IH" [OF True]
      by (subst particle_loop_fp.simps) (simp add: length_particle_body_fp)
  next
    case False
    then show ?thesis by (subst particle_loop_fp.simps) simp
  qed
qed

lemma nth_particle_loop_fp:
  "j < length cur \<Longrightarrow>
   particle_loop_fp ini ex f s i cur ! j =
     (if i \<le> j div 3 then cell_fp (ini ! j) (ex ! j) f s (cur ! j) else cur ! j)"
proof (induction ini ex f s i cur rule: particle_loop_fp.induct)
  case (1 ini ex f s i cur)
  show ?case
  proof (cases "real i < real (length cur) / 3")
    case True
    have j': "j < length (particle_body_fp ini ex f s i cur)"
      using "1.prems" by (simp add: length_particle_body_fp)
    have "particle_loop_fp ini ex f s i cur ! j =
            particle_loop_fp ini ex f s (i + 1) (particle_body_fp ini ex f s i cur) ! j"
      using True by (subst particle_loop_fp.simps) simp
    also have "\<dots> = (if i + 1 \<le> j div 3
                      then cell_fp (ini ! j) (ex ! j) f s (particle_body_fp ini ex f s i cur ! j)
                      else particle_body_fp ini ex f s i cur ! j)"
      using "1.IH" [OF True j'] .
    also have "\<dots> = (if i \<le> j div 3 then cell_fp (ini ! j) (ex ! j) f s (cur ! j) else cur ! j)"
      using "1.prems" by (auto simp: nth_particle_body_fp)
    finally show ?thesis .
  next
    case False
    then have "length cur \<le> 3 * i" by (simp add: field_simps)
    with "1.prems" have "\<not> i \<le> j div 3" by arith
    then show ?thesis using False by (subst particle_loop_fp.simps) simp
  qed
qed

lemma length_useFrame_fp:
  "length (TreeParticles_useFrame_fp mesh ini ex f cur) = length cur"
  by (simp add: TreeParticles_useFrame_fp_def length_particle_loop_fp)

lemma nth_useFrame_fp:
  "j < length cur \<Longrightarrow>
   TreeParticles_useFrame_fp True ini ex f cur ! j =
     cell_fp (ini ! j) (ex ! j) f (particle_speed_fp f) (cur ! j)"
  by (simp add: TreeParticles_useFrame_fp_def nth_particle_loop_fp)

lemma frames_fp_snoc:
  "particle_frames_fp ini ex (fs @ [f]) cur =
     TreeParticles_useFrame_fp True ini ex f (particle_frames_fp ini ex fs cur)"
  by (simp add: particle_frames_fp_def)

lemma length_particle_frames_fp:
  "length (particle_frames_fp ini ex fs cur) = length cur"
  by (induction fs arbitrary: cur) (simp_all add: particle_frames_fp_def length_useFrame_fp)

lemma frames_exact_bounded:
  assumes "\<forall>f \<in> set fs. f = 0 \<or> f = 1" and "j < length cur"
    and "\<bar>ini ! j\<bar> \<le> M" "\<bar>ex ! j\<bar> \<le> M" "\<bar>cur ! j\<bar> \<le> M"
  shows "\<bar>particle_frames ini ex fs cur ! j\<bar> \<le> M"
  using assms(1)
proof (induction fs rule: rev_induct)
  case Nil
  show ?case using assms(5) by (simp add: particle_frames_def)
next
  case (snoc f fs)
  have f: "f = 0 \<or> f = 1" and fs: "\<forall>f \<in> set fs. f = 0 \<or> f = 1" using snoc.prems by simp_all
  let ?x = "particle_frames ini ex fs cur ! j"
  have jx: "j < length (particle_frames ini ex fs cur)"
    using assms(2) by (simp add: length_particle_frames)
  have tM: "\<bar>ini ! j + (ex ! j - ini ! j) * f\<bar> \<le> M" using f assms(3,4) by auto
  have s: "0 \<le> particle_speed f" "particle_speed f \<le> 1" using speed_range [of f] by simp_all
  have "particle_frames ini ex (fs @ [f]) cur ! j
          = ?x + ((ini ! j + (ex ! j - ini ! j) * f) - ?x) * particle_speed f"
    unfolding particle_frames_snoc by (rule nth_useFrame [OF jx])
  then show ?case using convex_bound [OF s snoc.IH [OF fs] tM] by simp
qed

lemma speed_fp_close:
  "\<bar>particle_speed_fp 1 - particle_speed 1\<bar> \<le> 1 / 2 ^ 54"
  "\<bar>particle_speed_fp 0 - particle_speed 0\<bar> \<le> 1 / 2 ^ 54"
  by (simp_all add: particle_speed_fp_values particle_speed_def EXPLOSION_SPEED_def RETURN_SPEED_def)

lemma abs_scale:
  fixes k z :: real
  shows "0 \<le> k \<Longrightarrow> \<bar>k * z\<bar> = k * \<bar>z\<bar>"
  by (simp add: abs_mult)

lemma frames_fp_close:
  assumes fs: "\<forall>f \<in> set fs. f = 0 \<or> f = 1" and j: "j < length cur"
    and M: "\<bar>ini ! j\<bar> \<le> M" "\<bar>ex ! j\<bar> \<le> M" "\<bar>cur ! j\<bar> \<le> M"
  shows "\<bar>particle_frames_fp ini ex fs cur ! j - particle_frames ini ex fs cur ! j\<bar> \<le> M / 2 ^ 18"
  using fs
proof (induction fs rule: rev_induct)
  case Nil
  have "0 \<le> M" using M(1) by linarith
  then show ?case by (simp add: particle_frames_fp_def particle_frames_def)
next
  case (snoc f fs)
  have f: "f = 0 \<or> f = 1" and fs: "\<forall>f \<in> set fs. f = 0 \<or> f = 1" using snoc.prems by simp_all
  have M0: "0 \<le> M" using M(1) by linarith
  define y where "y = particle_frames_fp ini ex fs cur ! j"
  define x where "x = particle_frames ini ex fs cur ! j"
  define a where "a = ini ! j"
  define b where "b = ex ! j"
  define B where "B = M / 2 ^ 18"
  define E where "E = (2 * M) / 2 ^ 23"
  define G where "G = M / 2 ^ 54"
  have B0: "0 \<le> B" "B \<le> M / 100" and EB: "E \<le> B / 10" and GB: "G \<le> B / 1000" and G0: "0 \<le> G"
  proof -
    show "0 \<le> B" "0 \<le> G" using M0 by (simp_all add: B_def G_def)
    show "B \<le> M / 100" unfolding B_def by (rule divide_left_mono) (use M0 in simp_all)
    have "(2 * M) / 2 ^ 23 = M / 2 ^ 22" by simp
    moreover have "M / 2 ^ 22 \<le> M / (10 * 2 ^ 18)" by (rule divide_left_mono) (use M0 in simp_all)
    ultimately show "E \<le> B / 10" by (simp add: E_def B_def)
    have "M / 2 ^ 54 \<le> M / (1000 * 2 ^ 18)" by (rule divide_left_mono) (use M0 in simp_all)
    then show "G \<le> B / 1000" by (simp add: G_def B_def)
  qed
  have IH: "\<bar>y - x\<bar> \<le> B" using snoc.IH [OF fs] by (simp add: y_def x_def B_def)
  have xM: "\<bar>x\<bar> \<le> M" unfolding x_def by (rule frames_exact_bounded [OF fs j M])
  have yM: "\<bar>y\<bar> \<le> 2 * M" using IH xM B0 by linarith
  have aM: "\<bar>a\<bar> \<le> 2 * M" "\<bar>b\<bar> \<le> 2 * M" using M(1,2) M0 by (simp_all add: a_def b_def)
  have jf: "j < length (particle_frames_fp ini ex fs cur)"
    and jx: "j < length (particle_frames ini ex fs cur)"
    using j by (simp_all add: length_particle_frames_fp length_particle_frames)
  have y': "particle_frames_fp ini ex (fs @ [f]) cur ! j = cell_fp a b f (particle_speed_fp f) y"
    unfolding frames_fp_snoc by (simp add: nth_useFrame_fp [OF jf] a_def b_def y_def)
  have x': "particle_frames ini ex (fs @ [f]) cur ! j
              = x + ((a + (b - a) * f) - x) * particle_speed f"
    unfolding particle_frames_snoc by (simp add: nth_useFrame [OF jx] a_def b_def x_def)
  have goal: "\<bar>cell_fp a b f (particle_speed_fp f) y
               - (x + ((a + (b - a) * f) - x) * particle_speed f)\<bar> \<le> B"
  proof -
    from f show ?thesis
    proof
      assume f0: "f = 0"
      have s: "0 \<le> particle_speed_fp 0" "particle_speed_fp 0 \<le> 1"
        by (simp_all add: particle_speed_fp_values)
      have c: "\<bar>cell_fp a b 0 (particle_speed_fp 0) y
                - (y + ((a + (b - a) * 0) - y) * particle_speed_fp 0)\<bar> \<le> E"
        unfolding E_def by (rule cell_fp_close [OF _ s aM yM]) simp
      have d: "\<bar>(a - y) * (particle_speed_fp 0 - particle_speed 0)\<bar> \<le> 3 * G"
      proof -
        have "\<bar>(a - y) * (particle_speed_fp 0 - particle_speed 0)\<bar>
                = \<bar>a - y\<bar> * \<bar>particle_speed_fp 0 - particle_speed 0\<bar>" by (rule abs_mult)
        also have "\<dots> \<le> (3 * M) * (1 / 2 ^ 54)"
          by (rule mult_mono [OF _ speed_fp_close(2)]) (use M(1) yM M0 in \<open>simp_all add: a_def\<close>)
        finally show ?thesis by (simp add: G_def)
      qed
      have e: "(y + ((a + (b - a) * 0) - y) * particle_speed_fp 0)
                 - (x + ((a + (b - a) * 0) - x) * particle_speed 0)
               = (a - y) * (particle_speed_fp 0 - particle_speed 0)
                 + (1 - particle_speed 0) * (y - x)"
        by (simp add: algebra_simps)
      have g: "\<bar>(1 - particle_speed 0) * (y - x)\<bar> \<le> 88 / 100 * B"
      proof -
        have k: "1 - particle_speed 0 = 88 / 100"
          by (simp add: particle_speed_def RETURN_SPEED_def)
        have eq: "\<bar>88 / 100 * (y - x)\<bar> = 88 / 100 * \<bar>y - x\<bar>" by (rule abs_scale) simp
        show ?thesis unfolding k eq using IH by simp
      qed
      show ?thesis unfolding f0 using c d e g EB GB B0 by linarith
    next
      assume f1: "f = 1"
      have s: "0 \<le> particle_speed_fp 1" "particle_speed_fp 1 \<le> 1"
        by (simp_all add: particle_speed_fp_values)
      have c: "\<bar>cell_fp a b 1 (particle_speed_fp 1) y
                - (y + ((a + (b - a) * 1) - y) * particle_speed_fp 1)\<bar> \<le> E"
        unfolding E_def by (rule cell_fp_close [OF _ s aM yM]) simp
      have d: "\<bar>(b - y) * (particle_speed_fp 1 - particle_speed 1)\<bar> \<le> 3 * G"
      proof -
        have "\<bar>(b - y) * (particle_speed_fp 1 - particle_speed 1)\<bar>
                = \<bar>b - y\<bar> * \<bar>particle_speed_fp 1 - particle_speed 1\<bar>" by (rule abs_mult)
        also have "\<dots> \<le> (3 * M) * (1 / 2 ^ 54)"
          by (rule mult_mono [OF _ speed_fp_close(1)]) (use M(2) yM M0 in \<open>simp_all add: b_def\<close>)
        finally show ?thesis by (simp add: G_def)
      qed
      have e: "(y + ((a + (b - a) * 1) - y) * particle_speed_fp 1)
                 - (x + ((a + (b - a) * 1) - x) * particle_speed 1)
               = (b - y) * (particle_speed_fp 1 - particle_speed 1)
                 + (1 - particle_speed 1) * (y - x)"
        by (simp add: algebra_simps)
      have g: "\<bar>(1 - particle_speed 1) * (y - x)\<bar> \<le> 80 / 100 * B"
      proof -
        have k: "1 - particle_speed 1 = 80 / 100"
          by (simp add: particle_speed_def EXPLOSION_SPEED_def)
        have eq: "\<bar>80 / 100 * (y - x)\<bar> = 80 / 100 * \<bar>y - x\<bar>" by (rule abs_scale) simp
        show ?thesis unfolding k eq using IH by simp
      qed
      show ?thesis unfolding f1 using c d e g EB GB B0 by linarith
    qed
  qed
  show ?case unfolding y' x' using goal by (simp add: B_def)
qed

text \<open>
  Distances: the triangle inequality for \<open>vec_dist\<close>, and positions whose coordinates differ by
  at most \<open>B\<close> are at most \<open>2 * B\<close> apart.
\<close>

lemma norm3_triangle:
  fixes x1 x2 x3 y1 y2 y3 :: real
  shows "sqrt ((x1 + y1)\<^sup>2 + (x2 + y2)\<^sup>2 + (x3 + y3)\<^sup>2)
           \<le> sqrt (x1\<^sup>2 + x2\<^sup>2 + x3\<^sup>2) + sqrt (y1\<^sup>2 + y2\<^sup>2 + y3\<^sup>2)"
proof -
  define p where "p = sqrt (x1\<^sup>2 + x2\<^sup>2)"
  define q where "q = sqrt (y1\<^sup>2 + y2\<^sup>2)"
  define r where "r = sqrt ((x1 + y1)\<^sup>2 + (x2 + y2)\<^sup>2)"
  have p2: "p\<^sup>2 = x1\<^sup>2 + x2\<^sup>2" and q2: "q\<^sup>2 = y1\<^sup>2 + y2\<^sup>2"
    and r2: "r\<^sup>2 = (x1 + y1)\<^sup>2 + (x2 + y2)\<^sup>2"
    by (simp_all add: p_def q_def r_def)
  have r0: "0 \<le> r" by (simp add: r_def)
  have "r \<le> p + q" unfolding r_def p_def q_def by (rule real_sqrt_sum_squares_triangle_ineq)
  then have "r\<^sup>2 \<le> (p + q)\<^sup>2" using r0 by (rule power_mono)
  then have "sqrt (r\<^sup>2 + (x3 + y3)\<^sup>2) \<le> sqrt ((p + q)\<^sup>2 + (x3 + y3)\<^sup>2)" by simp
  also have "\<dots> \<le> sqrt (p\<^sup>2 + x3\<^sup>2) + sqrt (q\<^sup>2 + y3\<^sup>2)"
    by (rule real_sqrt_sum_squares_triangle_ineq)
  finally show ?thesis unfolding r2 p2 q2 .
qed

lemma vec_dist_triangle: "vec_dist a c \<le> vec_dist a b + vec_dist b c"
proof (cases a; cases b; cases c)
  fix a1 a2 a3 b1 b2 b3 c1 c2 c3
  assume a: "a = (a1, a2, a3)" and b: "b = (b1, b2, b3)" and c: "c = (c1, c2, c3)"
  have "sqrt (((a1 - b1) + (b1 - c1))\<^sup>2 + ((a2 - b2) + (b2 - c2))\<^sup>2 + ((a3 - b3) + (b3 - c3))\<^sup>2)
          \<le> sqrt ((a1 - b1)\<^sup>2 + (a2 - b2)\<^sup>2 + (a3 - b3)\<^sup>2)
            + sqrt ((b1 - c1)\<^sup>2 + (b2 - c2)\<^sup>2 + (b3 - c3)\<^sup>2)"
    by (rule norm3_triangle)
  then show ?thesis by (simp add: a b c)
qed

lemma vec_dist_sym: "vec_dist a b = vec_dist b a"
  by (cases a; cases b) (simp add: power2_commute)

lemma vec_dist_coords:
  assumes "\<bar>a1 - b1\<bar> \<le> B" "\<bar>a2 - b2\<bar> \<le> B" "\<bar>a3 - b3\<bar> \<le> B"
  shows "vec_dist (a1, a2, a3) (b1, b2, b3) \<le> 2 * B"
proof -
  have B0: "0 \<le> B" using assms(1) by linarith
  have sq: "x\<^sup>2 \<le> B\<^sup>2" if "\<bar>x\<bar> \<le> B" for x :: real
    using that by (simp add: abs_le_square_iff [symmetric] B0)
  have "(a1 - b1)\<^sup>2 + (a2 - b2)\<^sup>2 + (a3 - b3)\<^sup>2 \<le> B\<^sup>2 + B\<^sup>2 + B\<^sup>2"
    using sq [OF assms(1)] sq [OF assms(2)] sq [OF assms(3)] by linarith
  also have "\<dots> \<le> (2 * B)\<^sup>2" by (simp add: power2_eq_square)
  finally have e: "sqrt ((a1 - b1)\<^sup>2 + (a2 - b2)\<^sup>2 + (a3 - b3)\<^sup>2) \<le> sqrt ((2 * B)\<^sup>2)"
    by (rule real_sqrt_le_mono)
  have f: "sqrt ((2 * B)\<^sup>2) = 2 * B" using B0 by (subst real_sqrt_abs) simp
  show ?thesis unfolding vec_dist.simps using e unfolding f .
qed

lemma dist_close:
  assumes "vec_dist p q \<le> B"
  shows "\<bar>vec_dist p g - vec_dist q g\<bar> \<le> B"
proof -
  have "vec_dist p g \<le> vec_dist p q + vec_dist q g" by (rule vec_dist_triangle)
  moreover have "vec_dist q g \<le> vec_dist q p + vec_dist p g" by (rule vec_dist_triangle)
  moreover have "vec_dist q p = vec_dist p q" by (rule vec_dist_sym)
  ultimately show ?thesis using assms by linarith
qed

subsection \<open>The particle loop\<close>

lemma entity_fp_close:
  assumes fs: "\<forall>f \<in> set fs. f = 0 \<or> f = 1"
    and i: "i * 3 + 2 < length cur"
    and M: "\<forall>j<length cur. \<bar>ini ! j\<bar> \<le> M \<and> \<bar>ex ! j\<bar> \<le> M \<and> \<bar>cur ! j\<bar> \<le> M"
  shows "vec_dist (entity_pos (particle_frames_fp ini ex fs cur) i)
           (entity_pos (particle_frames ini ex fs cur) i) \<le> M / 2 ^ 17"
proof -
  have c: "\<bar>particle_frames_fp ini ex fs cur ! j - particle_frames ini ex fs cur ! j\<bar> \<le> M / 2 ^ 18"
    if "j < length cur" for j
    using M that by (intro frames_fp_close [OF fs that]) simp_all
  have j: "i * 3 < length cur" "i * 3 + 1 < length cur" using i by simp_all
  have "vec_dist (entity_pos (particle_frames_fp ini ex fs cur) i)
          (entity_pos (particle_frames ini ex fs cur) i) \<le> 2 * (M / 2 ^ 18)"
    unfolding entity_pos_def by (rule vec_dist_coords [OF c [OF j(1)] c [OF j(2)] c [OF i]])
  then show ?thesis by simp
qed

lemma fp_dist_close:
  assumes f: "f = 0 \<or> f = 1"
    and i: "i * 3 + 2 < length cur"
    and M: "\<forall>j<length cur. \<bar>ini ! j\<bar> \<le> M \<and> \<bar>ex ! j\<bar> \<le> M \<and> \<bar>cur ! j\<bar> \<le> M"
  shows "\<bar>vec_dist (entity_pos (particle_frames_fp ini ex (replicate n f) cur) i) g
          - vec_dist (entity_pos (particle_frames ini ex (replicate n f) cur) i) g\<bar> \<le> M / 2 ^ 17"
proof (rule dist_close, rule entity_fp_close [OF _ i M])
  show "\<forall>x \<in> set (replicate n f). x = 0 \<or> x = 1" using f by auto
qed

lemma explode_fp_close:
  assumes i: "i * 3 + 2 < length cur"
    and M: "\<forall>j<length cur. \<bar>ini ! j\<bar> \<le> M \<and> \<bar>ex ! j\<bar> \<le> M \<and> \<bar>cur ! j\<bar> \<le> M"
  shows "\<bar>vec_dist (entity_pos (particle_frames_fp ini ex (replicate n 1) cur) i) (entity_pos ex i)
          - (1 - EXPLOSION_SPEED) ^ n * vec_dist (entity_pos cur i) (entity_pos ex i)\<bar> \<le> M / 2 ^ 17"
  using fp_dist_close [OF _ i M, of 1 n "entity_pos ex i"] by (simp add: dist_explode [OF i])


lemma fp_below:
  fixes r d B eps :: real
  assumes r: "0 \<le> r" "r < 1" and d: "0 \<le> d" and eps: "B < eps"
    and close: "\<And>n. \<bar>x n - r ^ n * d\<bar> \<le> B"
  shows "\<exists>N. \<forall>n\<ge>N. x n < eps"
proof -
  have "0 < eps - B" using eps by simp
  then obtain N where N: "\<forall>n\<ge>N. r ^ n * d < eps - B"
    using geometric_below [OF r d] by blast
  have "\<forall>n\<ge>N. x n < eps"
  proof (intro allI impI)
    fix n assume "N \<le> n"
    then have "r ^ n * d < eps - B" using N by simp
    then show "x n < eps" using close [of n] by linarith
  qed
  then show ?thesis ..
qed

subsection \<open>The decoration callback\<close>

text \<open>
  \<open>curF\<close> is computed in binary64 and stays within \<open>2 ^ - 45\<close> of the exact blend; a coordinate of
  the decoration is within \<open>M / 2 ^ 43\<close> of the exact interpolation.
\<close>

lemma blend_fp_close:
  assumes f: "f = 0 \<or> f = 1" and s: "0 \<le> s" "s \<le> 1" and c: "\<bar>c\<bar> \<le> 2"
  shows "\<bar>blend_fp c f s - (c + (f - c) * s)\<bar> \<le> 14 / 2 ^ 53"
proof -
  define u :: real where "u = 2 / 2 ^ 53"
  have u0: "0 \<le> u" "u \<le> 1 / 100" by (simp_all add: u_def)
  have err64: "\<bar>d64 x - x\<bar> \<le> k * u" if "\<bar>x\<bar> \<le> k * 2" for x k
  proof -
    have "\<bar>x\<bar> / 2 ^ 53 \<le> k * 2 / 2 ^ 53" using that by (rule divide_right_mono) simp
    then show ?thesis using d64_error [of x] by (simp add: u_def)
  qed
  define v4 where "v4 = d64 (f - c)"
  define v5 where "v5 = d64 (v4 * s)"
  have fM: "\<bar>f\<bar> \<le> 2" using f by auto
  have XM: "\<bar>c + (f - c) * s\<bar> \<le> 2" by (rule convex_bound [OF s c fM])
  have b4: "\<bar>v4 - (f - c)\<bar> \<le> 2 * u"
    unfolding v4_def by (rule err64) (use c fM in linarith)
  have b5: "\<bar>v5 - (f - c) * s\<bar> \<le> 5 * u"
  proof -
    have "\<bar>v4\<bar> \<le> 3 * 2" using b4 c fM u0 by linarith
    then have "\<bar>v4 * s\<bar> \<le> 3 * 2" using scaled_bound [OF s, of v4] by linarith
    then have r: "\<bar>d64 (v4 * s) - v4 * s\<bar> \<le> 3 * u" by (rule err64)
    have "v4 * s - (f - c) * s = (v4 - (f - c)) * s" by (simp add: algebra_simps)
    then have "\<bar>v4 * s - (f - c) * s\<bar> \<le> \<bar>v4 - (f - c)\<bar>"
      using scaled_bound [OF s, of "v4 - (f - c)"] by simp
    then show ?thesis using r b4 unfolding v5_def by linarith
  qed
  have b6: "\<bar>d64 (c + v5) - (c + (f - c) * s)\<bar> \<le> 7 * u"
  proof -
    have "\<bar>c + v5\<bar> \<le> 2 * 2" using b5 XM u0 by linarith
    then have "\<bar>d64 (c + v5) - (c + v5)\<bar> \<le> 2 * u" by (rule err64)
    then show ?thesis using b5 by linarith
  qed
  have "blend_fp c f s = d64 (c + v5)" by (simp add: blend_fp_def v4_def v5_def)
  moreover have "7 * u = 14 / 2 ^ 53" by (simp add: u_def)
  ultimately show ?thesis using b6 by simp
qed

lemma lerp_fp_close:
  assumes M: "\<bar>a\<bar> \<le> M" "\<bar>b\<bar> \<le> M" and al: "\<bar>alpha\<bar> \<le> 2"
  shows "\<bar>lerp_fp a b alpha - (a + (b - a) * alpha)\<bar> \<le> 16 * M / 2 ^ 53"
proof -
  have M0: "0 \<le> M" using M(1) by linarith
  define u where "u = M / 2 ^ 53"
  have u0: "0 \<le> u" and uM: "u \<le> M / 100"
  proof -
    show "0 \<le> u" using M0 by (simp add: u_def)
    show "u \<le> M / 100" unfolding u_def by (rule divide_left_mono) (use M0 in simp_all)
  qed
  have err64: "\<bar>d64 x - x\<bar> \<le> k * u" if "\<bar>x\<bar> \<le> k * M" for x k
  proof -
    have "\<bar>x\<bar> / 2 ^ 53 \<le> k * M / 2 ^ 53" using that by (rule divide_right_mono) simp
    then show ?thesis using d64_error [of x] by (simp add: u_def)
  qed
  have twice: "\<bar>x * alpha\<bar> \<le> 2 * k" if "\<bar>x\<bar> \<le> k" for x k
  proof -
    have "\<bar>x * alpha\<bar> = \<bar>x\<bar> * \<bar>alpha\<bar>" by (rule abs_mult)
    also have "\<dots> \<le> k * 2" by (rule mult_mono [OF that al]) (use that in simp_all)
    finally show ?thesis by simp
  qed
  define v1 where "v1 = d64 (b - a)"
  define p1 where "p1 = v1 * alpha"
  define p2 where "p2 = (b - a) * alpha"
  define v2 where "v2 = d64 p1"
  have b1: "\<bar>v1 - (b - a)\<bar> \<le> 2 * u"
    unfolding v1_def by (rule err64) (use M in linarith)
  have v1M: "\<bar>v1\<bar> \<le> 3 * M" using b1 M uM by linarith
  have "\<bar>p1\<bar> \<le> 2 * (3 * M)" unfolding p1_def by (rule twice [OF v1M])
  then have "\<bar>p1\<bar> \<le> 6 * M" by simp
  then have r: "\<bar>v2 - p1\<bar> \<le> 6 * u" unfolding v2_def by (rule err64)
  have "p1 - p2 = (v1 - (b - a)) * alpha" by (simp add: p1_def p2_def algebra_simps)
  then have "\<bar>p1 - p2\<bar> \<le> 2 * (2 * u)" using twice [OF b1] by simp
  then have b2: "\<bar>v2 - p2\<bar> \<le> 10 * u" using r by linarith
  have "\<bar>b - a\<bar> \<le> 2 * M" using M by linarith
  then have "\<bar>p2\<bar> \<le> 2 * (2 * M)" unfolding p2_def by (rule twice)
  then have "\<bar>a + v2\<bar> \<le> 6 * M" using b2 M uM by linarith
  then have "\<bar>d64 (a + v2) - (a + v2)\<bar> \<le> 6 * u" by (rule err64)
  then have b3: "\<bar>d64 (a + v2) - (a + p2)\<bar> \<le> 16 * u" using b2 by linarith
  have "lerp_fp a b alpha = d64 (a + v2)" by (simp add: lerp_fp_def v1_def v2_def p1_def)
  moreover have "16 * u = 16 * M / 2 ^ 53" by (simp add: u_def)
  ultimately show ?thesis using b3 by (simp add: p2_def)
qed

lemma deco_frames_fp_snoc:
  "deco_frames_fp items (fr @ [(f, time)]) st
     = Deco_useFrame_fp True items f time (deco_frames_fp items fr st)"
  by (simp add: deco_frames_fp_def)

lemma length_children_useFrame_fp:
  "length (children st) = length items \<Longrightarrow>
   length (children (Deco_useFrame_fp grp items f time st)) = length items"
  by (simp add: Deco_useFrame_fp_def Let_def)

lemma length_children_frames_fp:
  "length (children st) = length items \<Longrightarrow>
   length (children (deco_frames_fp items fr st)) = length items"
proof (induction fr rule: rev_induct)
  case Nil
  then show ?case by (simp add: deco_frames_fp_def)
next
  case (snoc x fr)
  obtain f time where x: "x = (f, time)" by (cases x) auto
  show ?case unfolding x deco_frames_fp_snoc
    by (rule length_children_useFrame_fp) (rule snoc.IH [OF snoc.prems])
qed

lemma curF_useFrame_fp:
  "curF (Deco_useFrame_fp True items f time st) = blend_fp (curF st) f (particle_speed_fp f)"
  by (simp add: Deco_useFrame_fp_def Let_def blend_fp_def particle_speed_fp_def)

lemma position_useFrame_fp:
  assumes "length (children st) = length items" and "i < length items"
  shows "position (children (Deco_useFrame_fp True items f time st) ! i)
           = lerpVectors_fp (startPos (items ! i)) (endPos (items ! i))
               (curF (Deco_useFrame_fp True items f time st))"
  using assms by (simp add: Deco_useFrame_fp_def Let_def)

lemma blend_step_close:
  assumes f: "f = 0 \<or> f = 1" and IH: "\<bar>y - x\<bar> \<le> 1 / 2 ^ 45" and xM: "\<bar>x\<bar> \<le> 1"
  shows "\<bar>blend_fp y f (particle_speed_fp f) - (x + (f - x) * particle_speed f)\<bar> \<le> 1 / 2 ^ 45"
proof -
  define B :: real where "B = 1 / 2 ^ 45"
  define E :: real where "E = 14 / 2 ^ 53"
  define G :: real where "G = 1 / 2 ^ 54"
  have B0: "0 \<le> B" "B \<le> 1 / 100" and EB: "E \<le> B / 18" and GB: "G \<le> B / 500"
    by (simp_all add: B_def E_def G_def)
  have IH': "\<bar>y - x\<bar> \<le> B" using IH by (simp add: B_def)
  have yM: "\<bar>y\<bar> \<le> 2" using IH' xM B0 by linarith
  have goal: "\<bar>blend_fp y f (particle_speed_fp f) - (x + (f - x) * particle_speed f)\<bar> \<le> B"
  proof -
    from f show ?thesis
    proof
      assume f0: "f = 0"
      have s: "0 \<le> particle_speed_fp 0" "particle_speed_fp 0 \<le> 1"
        by (simp_all add: particle_speed_fp_values)
      have c: "\<bar>blend_fp y 0 (particle_speed_fp 0) - (y + (0 - y) * particle_speed_fp 0)\<bar> \<le> E"
        unfolding E_def by (rule blend_fp_close [OF _ s yM]) simp
      have d: "\<bar>(0 - y) * (particle_speed_fp 0 - particle_speed 0)\<bar> \<le> 2 * G"
      proof -
        have "\<bar>(0 - y) * (particle_speed_fp 0 - particle_speed 0)\<bar>
                = \<bar>0 - y\<bar> * \<bar>particle_speed_fp 0 - particle_speed 0\<bar>" by (rule abs_mult)
        also have "\<dots> \<le> 2 * (1 / 2 ^ 54)"
          by (rule mult_mono [OF _ speed_fp_close(2)]) (use yM in simp_all)
        finally show ?thesis by (simp add: G_def)
      qed
      have e: "(y + (0 - y) * particle_speed_fp 0) - (x + (0 - x) * particle_speed 0)
               = (0 - y) * (particle_speed_fp 0 - particle_speed 0)
                 + (1 - particle_speed 0) * (y - x)"
        by (simp add: algebra_simps)
      have g: "\<bar>(1 - particle_speed 0) * (y - x)\<bar> \<le> 88 / 100 * B"
      proof -
        have k: "1 - particle_speed 0 = 88 / 100"
          by (simp add: particle_speed_def RETURN_SPEED_def)
        have eq: "\<bar>88 / 100 * (y - x)\<bar> = 88 / 100 * \<bar>y - x\<bar>" by (rule abs_scale) simp
        show ?thesis unfolding k eq using IH' by simp
      qed
      show ?thesis unfolding f0 using c d e g EB GB B0 by linarith
    next
      assume f1: "f = 1"
      have s: "0 \<le> particle_speed_fp 1" "particle_speed_fp 1 \<le> 1"
        by (simp_all add: particle_speed_fp_values)
      have c: "\<bar>blend_fp y 1 (particle_speed_fp 1) - (y + (1 - y) * particle_speed_fp 1)\<bar> \<le> E"
        unfolding E_def by (rule blend_fp_close [OF _ s yM]) simp
      have d: "\<bar>(1 - y) * (particle_speed_fp 1 - particle_speed 1)\<bar> \<le> 3 * G"
      proof -
        have "\<bar>(1 - y) * (particle_speed_fp 1 - particle_speed 1)\<bar>
                = \<bar>1 - y\<bar> * \<bar>particle_speed_fp 1 - particle_speed 1\<bar>" by (rule abs_mult)
        also have "\<dots> \<le> 3 * (1 / 2 ^ 54)"
          by (rule mult_mono [OF _ speed_fp_close(1)]) (use yM in simp_all)
        finally show ?thesis by (simp add: G_def)
      qed
      have e: "(y + (1 - y) * particle_speed_fp 1) - (x + (1 - x) * particle_speed 1)
               = (1 - y) * (particle_speed_fp 1 - particle_speed 1)
                 + (1 - particle_speed 1) * (y - x)"
        by (simp add: algebra_simps)
      have g: "\<bar>(1 - particle_speed 1) * (y - x)\<bar> \<le> 80 / 100 * B"
      proof -
        have k: "1 - particle_speed 1 = 80 / 100"
          by (simp add: particle_speed_def EXPLOSION_SPEED_def)
        have eq: "\<bar>80 / 100 * (y - x)\<bar> = 80 / 100 * \<bar>y - x\<bar>" by (rule abs_scale) simp
        show ?thesis unfolding k eq using IH' by simp
      qed
      show ?thesis unfolding f1 using c d e g EB GB B0 by linarith
    qed
  qed
  then show ?thesis by (simp add: B_def)
qed

lemma blend_after_bounded:
  assumes "\<forall>f \<in> set fs. f = 0 \<or> f = 1"
  shows "\<bar>blend_after fs 0\<bar> \<le> 1"
  using assms
proof (induction fs rule: rev_induct)
  case Nil
  show ?case by (simp add: blend_after_def)
next
  case (snoc f fs)
  have f: "\<bar>f\<bar> \<le> 1" and fs: "\<forall>f \<in> set fs. f = 0 \<or> f = 1" using snoc.prems by auto
  have s: "0 \<le> particle_speed f" "particle_speed f \<le> 1" using speed_range [of f] by simp_all
  show ?case unfolding blend_after_snoc by (rule convex_bound [OF s snoc.IH [OF fs] f])
qed

lemma curF_fp_close:
  assumes "\<forall>f \<in> set (map fst fr). f = 0 \<or> f = 1" and "curF st = 0"
  shows "\<bar>curF (deco_frames_fp items fr st) - blend_after (map fst fr) 0\<bar> \<le> 1 / 2 ^ 45"
  using assms(1)
proof (induction fr rule: rev_induct)
  case Nil
  show ?case by (simp add: deco_frames_fp_def blend_after_def assms(2))
next
  case (snoc x fr)
  obtain f time where x: "x = (f, time)" by (cases x) auto
  have f: "f = 0 \<or> f = 1" and fs: "\<forall>f \<in> set (map fst fr). f = 0 \<or> f = 1"
    using snoc.prems by (simp_all add: x)
  have "\<bar>blend_fp (curF (deco_frames_fp items fr st)) f (particle_speed_fp f)
          - (blend_after (map fst fr) 0 + (f - blend_after (map fst fr) 0) * particle_speed f)\<bar>
        \<le> 1 / 2 ^ 45"
    by (rule blend_step_close [OF f snoc.IH [OF fs] blend_after_bounded [OF fs]])
  then show ?case
    unfolding x deco_frames_fp_snoc curF_useFrame_fp by (simp add: blend_after_snoc)
qed

lemma lerp_fp_blend_close:
  assumes M: "\<bar>a\<bar> \<le> M" "\<bar>b\<bar> \<le> M" and c: "\<bar>y - x\<bar> \<le> 1 / 2 ^ 45" and x: "\<bar>x\<bar> \<le> 1"
  shows "\<bar>lerp_fp a b y - (a + (b - a) * x)\<bar> \<le> M / 2 ^ 43"
proof -
  have M0: "0 \<le> M" using M(1) by linarith
  have "(1 :: real) / 2 ^ 45 \<le> 1" by simp
  then have y: "\<bar>y\<bar> \<le> 2" using c x by linarith
  have r: "\<bar>lerp_fp a b y - (a + (b - a) * y)\<bar> \<le> 16 * M / 2 ^ 53"
    by (rule lerp_fp_close [OF M y])
  have ba: "\<bar>b - a\<bar> \<le> 2 * M" using M by linarith
  define p where "p = (b - a) * y"
  define q where "q = (b - a) * x"
  have "p - q = (b - a) * (y - x)" by (simp add: p_def q_def algebra_simps)
  then have "\<bar>p - q\<bar> = \<bar>b - a\<bar> * \<bar>y - x\<bar>" by (simp add: abs_mult)
  also have "\<dots> \<le> (2 * M) * (1 / 2 ^ 45)"
    by (rule mult_mono [OF ba c]) (use M0 in simp_all)
  finally have pq: "\<bar>p - q\<bar> \<le> 2 * M / 2 ^ 45" by simp
  define u where "u = M / 2 ^ 53"
  have u: "16 * M / 2 ^ 53 = 16 * u" "2 * M / 2 ^ 45 = 512 * u" "M / 2 ^ 43 = 1024 * u"
    by (simp_all add: u_def)
  have u0: "0 \<le> u" using M0 by (simp add: u_def)
  have "\<bar>lerp_fp a b y - (a + q)\<bar> \<le> 1024 * u"
    using r pq u0 unfolding p_def [symmetric] u by linarith
  then show ?thesis unfolding u q_def .
qed

lemma particle_entity_blend:
  assumes "i < length items"
  shows "entity_pos (particle_frames (flat (map startPos items)) (flat (map endPos items))
                       fs (flat (map startPos items))) i
           = lerpVectors (startPos (items ! i)) (endPos (items ! i)) (blend_after fs 0)"
proof -
  let ?ini = "flat (map startPos items)" and ?ex = "flat (map endPos items)"
  have i3: "i * 3 + 2 < length ?ini" using assms by (simp add: length_flat)
  have "entity_pos (particle_frames ?ini ?ex fs ?ini) i
          = lerpVectors (entity_pos ?ini i) (entity_pos ?ex i) (blend_after fs 0)"
    by (rule lerp_entity [OF i3]) (rule particle_frames_blend)
  also have "entity_pos ?ini i = startPos (items ! i)"
    using assms by (simp add: entity_pos_flat)
  also have "entity_pos ?ex i = endPos (items ! i)"
    using assms by (simp add: entity_pos_flat)
  finally show ?thesis .
qed

lemma deco_fp_close:
  assumes ne: "frames \<noteq> []"
    and len: "length (children st) = length items"
    and c0: "curF st = 0"
    and i: "i < length items"
    and fs: "\<forall>f \<in> set (map fst frames). f = 0 \<or> f = 1"
    and M: "\<forall>j<length (flat (map startPos items)).
              \<bar>flat (map startPos items) ! j\<bar> \<le> M \<and> \<bar>flat (map endPos items) ! j\<bar> \<le> M"
  shows "vec_dist (position (children (deco_frames_fp items frames st) ! i))
           (entity_pos
              (particle_frames_fp (flat (map startPos items)) (flat (map endPos items))
                 (map fst frames) (flat (map startPos items))) i) \<le> M / 2 ^ 16"
proof -
  let ?ini = "flat (map startPos items)" and ?ex = "flat (map endPos items)"
  let ?x = "blend_after (map fst frames) 0"
  let ?y = "curF (deco_frames_fp items frames st)"
  obtain s1 s2 s3 where S: "startPos (items ! i) = (s1, s2, s3)" by (cases "startPos (items ! i)") auto
  obtain e1 e2 e3 where E: "endPos (items ! i) = (e1, e2, e3)" by (cases "endPos (items ! i)") auto
  have i3: "i * 3 + 2 < length ?ini" using i by (simp add: length_flat)
  have j: "i * 3 < length ?ini" "i * 3 + 1 < length ?ini" using i3 by simp_all
  have "entity_pos ?ini i = (s1, s2, s3)" using i by (simp add: entity_pos_flat S)
  then have sv: "?ini ! (i * 3) = s1" "?ini ! (i * 3 + 1) = s2" "?ini ! (i * 3 + 2) = s3"
    by (simp_all add: entity_pos_def)
  have "entity_pos ?ex i = (e1, e2, e3)" using i by (simp add: entity_pos_flat E)
  then have ev: "?ex ! (i * 3) = e1" "?ex ! (i * 3 + 1) = e2" "?ex ! (i * 3 + 2) = e3"
    by (simp_all add: entity_pos_def)
  have sM: "\<bar>s1\<bar> \<le> M" "\<bar>s2\<bar> \<le> M" "\<bar>s3\<bar> \<le> M"
    using M j i3 sv by metis+
  have eM: "\<bar>e1\<bar> \<le> M" "\<bar>e2\<bar> \<le> M" "\<bar>e3\<bar> \<le> M"
    using M j i3 ev by metis+
  have M0: "0 \<le> M" using sM(1) by linarith
  obtain fr f time where fr: "frames = fr @ [(f, time)]"
    using ne by (metis rev_exhaust surj_pair)
  have lenfr: "length (children (deco_frames_fp items fr st)) = length items"
    by (rule length_children_frames_fp [OF len])
  have deco: "position (children (deco_frames_fp items frames st) ! i)
                = (lerp_fp s1 e1 ?y, lerp_fp s2 e2 ?y, lerp_fp s3 e3 ?y)"
    unfolding fr deco_frames_fp_snoc position_useFrame_fp [OF lenfr i] by (simp add: S E)
  have exact: "entity_pos (particle_frames ?ini ?ex (map fst frames) ?ini) i
                 = (s1 + (e1 - s1) * ?x, s2 + (e2 - s2) * ?x, s3 + (e3 - s3) * ?x)"
    unfolding particle_entity_blend [OF i] by (simp add: S E)
  have c: "\<bar>?y - ?x\<bar> \<le> 1 / 2 ^ 45" by (rule curF_fp_close [OF fs c0])
  have x: "\<bar>?x\<bar> \<le> 1" by (rule blend_after_bounded [OF fs])
  have a: "vec_dist (position (children (deco_frames_fp items frames st) ! i))
             (entity_pos (particle_frames ?ini ?ex (map fst frames) ?ini) i) \<le> 2 * (M / 2 ^ 43)"
    unfolding deco exact
    by (rule vec_dist_coords)
       (rule lerp_fp_blend_close [OF sM(1) eM(1) c x] lerp_fp_blend_close [OF sM(2) eM(2) c x]
          lerp_fp_blend_close [OF sM(3) eM(3) c x])+
  have M': "\<forall>j<length ?ini. \<bar>?ini ! j\<bar> \<le> M \<and> \<bar>?ex ! j\<bar> \<le> M \<and> \<bar>?ini ! j\<bar> \<le> M"
    using M by simp
  have b: "vec_dist (entity_pos (particle_frames_fp ?ini ?ex (map fst frames) ?ini) i)
             (entity_pos (particle_frames ?ini ?ex (map fst frames) ?ini) i) \<le> M / 2 ^ 17"
    by (rule entity_fp_close [OF fs i3 M'])
  have t: "vec_dist (position (children (deco_frames_fp items frames st) ! i))
             (entity_pos (particle_frames_fp ?ini ?ex (map fst frames) ?ini) i)
           \<le> vec_dist (position (children (deco_frames_fp items frames st) ! i))
                (entity_pos (particle_frames ?ini ?ex (map fst frames) ?ini) i)
             + vec_dist (entity_pos (particle_frames ?ini ?ex (map fst frames) ?ini) i)
                 (entity_pos (particle_frames_fp ?ini ?ex (map fst frames) ?ini) i)"
    by (rule vec_dist_triangle)
  have sym: "vec_dist (entity_pos (particle_frames ?ini ?ex (map fst frames) ?ini) i)
               (entity_pos (particle_frames_fp ?ini ?ex (map fst frames) ?ini) i)
             = vec_dist (entity_pos (particle_frames_fp ?ini ?ex (map fst frames) ?ini) i)
                 (entity_pos (particle_frames ?ini ?ex (map fst frames) ?ini) i)"
    by (rule vec_dist_sym)
  define u where "u = M / 2 ^ 43"
  have u: "2 * (M / 2 ^ 43) = 2 * u" "M / 2 ^ 17 = 67108864 * u" "M / 2 ^ 16 = 134217728 * u"
    by (simp_all add: u_def)
  have u0: "0 \<le> u" using M0 by (simp add: u_def)
  show ?thesis using a b t u0 unfolding sym u by linarith
qed

subsection \<open>Explosion\<close>

lemma explode_dist_0: "explode_dist ini ex i 0 = vec_dist (entity_pos ini i) (entity_pos ex i)"
  by (simp add: explode_dist_def particle_frames_def)

lemma explode_dist_closed:
  assumes "i * 3 + 2 < length ini"
  shows "explode_dist ini ex i n = (1 - EXPLOSION_SPEED) ^ n * explode_dist ini ex i 0"
  unfolding explode_dist_0 by (simp add: explode_dist_def dist_explode [OF assms])

lemma explosion_program:
  assumes i: "i * 3 + 2 < length ini"
    and M: "\<forall>j<length ini. \<bar>ini ! j\<bar> \<le> M \<and> \<bar>ex ! j\<bar> \<le> M"
  shows "\<bar>explode_dist_fp ini ex i n - (1 - EXPLOSION_SPEED) ^ n * explode_dist ini ex i 0\<bar> \<le> M / 2 ^ 17"
    and "10 * (M / 2 ^ 17) < explode_dist ini ex i n \<Longrightarrow>
           explode_dist_fp ini ex i (Suc n) < explode_dist_fp ini ex i n"
    and "\<forall>eps>M / 2 ^ 17. \<exists>N. \<forall>m\<ge>N. explode_dist_fp ini ex i m < eps"
proof -
  let ?a = "1 - EXPLOSION_SPEED"
  let ?d = "explode_dist ini ex i 0"
  have M': "\<forall>j<length ini. \<bar>ini ! j\<bar> \<le> M \<and> \<bar>ex ! j\<bar> \<le> M \<and> \<bar>ini ! j\<bar> \<le> M"
    using M by simp
  have close: "\<bar>explode_dist_fp ini ex i m - ?a ^ m * ?d\<bar> \<le> M / 2 ^ 17" for m
    unfolding explode_dist_fp_def explode_dist_0 by (rule explode_fp_close [OF i M'])
  show "\<bar>explode_dist_fp ini ex i n - ?a ^ n * ?d\<bar> \<le> M / 2 ^ 17" by (rule close)
  show "explode_dist_fp ini ex i (Suc n) < explode_dist_fp ini ex i n"
    if "10 * (M / 2 ^ 17) < explode_dist ini ex i n"
  proof -
    define X where "X = ?a ^ n * ?d"
    have big: "10 * (M / 2 ^ 17) < X" using that unfolding X_def explode_dist_closed [OF i, of ex n] .
    have e: "?a ^ Suc n * ?d = 4 / 5 * X" by (simp add: X_def EXPLOSION_SPEED_def)
    have s: "\<bar>explode_dist_fp ini ex i (Suc n) - 4 / 5 * X\<bar> \<le> M / 2 ^ 17"
      using close [of "Suc n"] unfolding e .
    have c: "\<bar>explode_dist_fp ini ex i n - X\<bar> \<le> M / 2 ^ 17" unfolding X_def by (rule close)
    show ?thesis using s c big by linarith
  qed
  show "\<forall>eps>M / 2 ^ 17. \<exists>N. \<forall>m\<ge>N. explode_dist_fp ini ex i m < eps"
  proof (intro allI impI)
    fix eps :: real assume e: "M / 2 ^ 17 < eps"
    have d0: "0 \<le> ?d" unfolding explode_dist_0 by (rule vec_dist_nonneg)
    show "\<exists>N. \<forall>m\<ge>N. explode_dist_fp ini ex i m < eps"
      by (rule fp_below [of ?a ?d, OF _ _ d0 e close]) (simp_all add: EXPLOSION_SPEED_def)
  qed
qed

text \<open>
  Claim C6, amended. From the rest formation at the constant factor 1, for an entity whose rest
  and exploded position differ. In the exact reading the distance from the exploded position
  strictly decreases in every frame, is multiplied by \<open>1 - speed\<close> in every frame (so it is
  \<open>(1 - speed) ^ n\<close> times the initial one, and it never reaches 0), and ends below every
  positive \<open>eps\<close>. In the rounded reading, with the coordinates bounded by \<open>M\<close>, the distance
  after \<open>n\<close> frames is within \<open>M / 2 ^ 17\<close> of \<open>(1 - speed) ^ n\<close> times the initial one, it
  strictly decreases in a frame as long as the exact distance is above \<open>10 * M / 2 ^ 17\<close>, and
  it ends below every \<open>eps\<close> above \<open>M / 2 ^ 17\<close>.
\<close>

theorem explosion_converges:
  assumes "length ex = length ini"
    and "i * 3 + 2 < length ini"
    and "entity_pos ini i \<noteq> entity_pos ex i"
  shows "explode_dist ini ex i (Suc n) < explode_dist ini ex i n
       \<and> explode_dist ini ex i (Suc n) = (1 - particle_speed 1) * explode_dist ini ex i n
       \<and> explode_dist ini ex i n = (1 - particle_speed 1) ^ n * explode_dist ini ex i 0
       \<and> particle_speed 1 = EXPLOSION_SPEED
       \<and> 0 < explode_dist ini ex i n
       \<and> (\<forall>eps>0. \<exists>N. \<forall>m\<ge>N. explode_dist ini ex i m < eps)
       \<and> (\<forall>M. 1 / 2 ^ 64 \<le> M \<and> M \<le> 2 ^ 64
                \<and> (\<forall>j<length ini. \<bar>ini ! j\<bar> \<le> M \<and> \<bar>ex ! j\<bar> \<le> M) \<longrightarrow>
              \<bar>explode_dist_fp ini ex i n - (1 - EXPLOSION_SPEED) ^ n * explode_dist ini ex i 0\<bar>
                 \<le> M / 2 ^ 17
            \<and> (10 * (M / 2 ^ 17) < explode_dist ini ex i n \<longrightarrow>
                  explode_dist_fp ini ex i (Suc n) < explode_dist_fp ini ex i n)
            \<and> (\<forall>eps>M / 2 ^ 17. \<exists>N. \<forall>m\<ge>N. explode_dist_fp ini ex i m < eps))"
proof -
  let ?d = "vec_dist (entity_pos ini i) (entity_pos ex i)"
  have d: "0 < ?d" using assms(3) by (rule vec_dist_pos)
  have sp: "particle_speed 1 = EXPLOSION_SPEED" by (simp add: particle_speed_def)
  have eq: "explode_dist ini ex i m = (1 - EXPLOSION_SPEED) ^ m * ?d" for m
    by (simp add: explode_dist_def dist_explode [OF assms(2)])
  have r: "0 < 1 - EXPLOSION_SPEED" "1 - EXPLOSION_SPEED < 1"
    by (simp_all add: EXPLOSION_SPEED_def)
  have pos: "0 < explode_dist ini ex i n" using d r by (simp add: eq)
  have step: "explode_dist ini ex i (Suc n) = (1 - particle_speed 1) * explode_dist ini ex i n"
    by (simp add: eq sp)
  have less: "explode_dist ini ex i (Suc n) < explode_dist ini ex i n"
    using pos r by (simp add: step sp)
  have closed: "explode_dist ini ex i n = (1 - particle_speed 1) ^ n * explode_dist ini ex i 0"
    unfolding sp by (rule explode_dist_closed [OF assms(2)])
  have lim: "\<forall>eps>0. \<exists>N. \<forall>m\<ge>N. explode_dist ini ex i m < eps"
  proof (intro allI impI)
    fix eps :: real assume "0 < eps"
    then show "\<exists>N. \<forall>m\<ge>N. explode_dist ini ex i m < eps"
      using geometric_below [of "1 - EXPLOSION_SPEED" ?d eps] r d by (simp add: eq)
  qed
  have prog: "\<forall>M. 1 / 2 ^ 64 \<le> M \<and> M \<le> 2 ^ 64
                \<and> (\<forall>j<length ini. \<bar>ini ! j\<bar> \<le> M \<and> \<bar>ex ! j\<bar> \<le> M) \<longrightarrow>
              \<bar>explode_dist_fp ini ex i n - (1 - EXPLOSION_SPEED) ^ n * explode_dist ini ex i 0\<bar>
                 \<le> M / 2 ^ 17
            \<and> (10 * (M / 2 ^ 17) < explode_dist ini ex i n \<longrightarrow>
                  explode_dist_fp ini ex i (Suc n) < explode_dist_fp ini ex i n)
            \<and> (\<forall>eps>M / 2 ^ 17. \<exists>N. \<forall>m\<ge>N. explode_dist_fp ini ex i m < eps)"
  proof (intro allI impI; elim conjE)
    fix M :: real
    assume M: "\<forall>j<length ini. \<bar>ini ! j\<bar> \<le> M \<and> \<bar>ex ! j\<bar> \<le> M"
    show "\<bar>explode_dist_fp ini ex i n - (1 - EXPLOSION_SPEED) ^ n * explode_dist ini ex i 0\<bar>
                 \<le> M / 2 ^ 17
            \<and> (10 * (M / 2 ^ 17) < explode_dist ini ex i n \<longrightarrow>
                  explode_dist_fp ini ex i (Suc n) < explode_dist_fp ini ex i n)
            \<and> (\<forall>eps>M / 2 ^ 17. \<exists>N. \<forall>m\<ge>N. explode_dist_fp ini ex i m < eps)"
      using explosion_program [OF assms(2) M] by blast
  qed
  show ?thesis
    by (intro conjI) (rule less step closed sp pos lim prog)+
qed

lemma example_cells_bounded:
  "\<forall>j<length [0, 0, 0 :: real]. \<bar>[0, 0, 0 :: real] ! j\<bar> \<le> 1 \<and> \<bar>[1, 0, 0 :: real] ! j\<bar> \<le> 1"
  by (simp add: nth_Cons split: nat.split)

theorem explosion_converges_witness:
  "length [1, 0, 0 :: real] = length [0, 0, 0 :: real]
   \<and> 0 * 3 + 2 < length [0, 0, 0 :: real]
   \<and> entity_pos [0, 0, 0] 0 \<noteq> entity_pos [1, 0, 0] 0
   \<and> (1 :: real) / 2 ^ 64 \<le> 1 \<and> (1 :: real) \<le> 2 ^ 64
   \<and> list_all (\<lambda>x. \<bar>x\<bar> \<le> 1) [0, 0, 0 :: real] \<and> list_all (\<lambda>x. \<bar>x\<bar> \<le> 1) [1, 0, 0 :: real]
   \<and> explode_dist [0, 0, 0] [1, 0, 0] 0 0 = 1
   \<and> explode_dist [0, 0, 0] [1, 0, 0] 0 (Suc 0) = 0.8
   \<and> 10 * ((1 :: real) / 2 ^ 17) < explode_dist [0, 0, 0] [1, 0, 0] 0 (Suc 0)
   \<and> \<bar>explode_dist_fp [0, 0, 0] [1, 0, 0] 0 (Suc 0) - 0.8\<bar> \<le> 1 / 2 ^ 17
   \<and> explode_dist_fp [0, 0, 0] [1, 0, 0] 0 (Suc (Suc 0)) < explode_dist_fp [0, 0, 0] [1, 0, 0] 0 (Suc 0)"
proof -
  have ne: "entity_pos [0, 0, 0] 0 \<noteq> entity_pos [1, 0, 0 :: real] 0"
    by (simp add: entity_pos_def)
  have d0: "explode_dist [0, 0, 0] [1, 0, 0] 0 0 = 1"
    by (simp add: explode_dist_def particle_frames_def entity_pos_def)
  have "explode_dist [0, 0, 0] [1, 0, 0] 0 (Suc 0)
          = (1 - particle_speed 1) * explode_dist [0, 0, 0] [1, 0, 0] 0 0
        \<and> particle_speed 1 = EXPLOSION_SPEED"
    using explosion_converges [of "[1, 0, 0]" "[0, 0, 0]" 0 0, OF _ _ ne] by simp
  then have d1: "explode_dist [0, 0, 0] [1, 0, 0] 0 (Suc 0) = 0.8"
    by (simp add: d0 EXPLOSION_SPEED_def)
  have big: "10 * ((1 :: real) / 2 ^ 17) < explode_dist [0, 0, 0] [1, 0, 0] 0 (Suc 0)"
    unfolding d1 by simp
  have rng: "(1 :: real) / 2 ^ 64 \<le> 1" "(1 :: real) \<le> 2 ^ 64" by simp_all
  have "\<forall>M. 1 / 2 ^ 64 \<le> M \<and> M \<le> 2 ^ 64
           \<and> (\<forall>j<length [0, 0, 0 :: real]. \<bar>[0, 0, 0 :: real] ! j\<bar> \<le> M \<and> \<bar>[1, 0, 0 :: real] ! j\<bar> \<le> M) \<longrightarrow>
          \<bar>explode_dist_fp [0, 0, 0] [1, 0, 0] 0 (Suc 0)
             - (1 - EXPLOSION_SPEED) ^ Suc 0 * explode_dist [0, 0, 0] [1, 0, 0] 0 0\<bar> \<le> M / 2 ^ 17
          \<and> (10 * (M / 2 ^ 17) < explode_dist [0, 0, 0] [1, 0, 0] 0 (Suc 0) \<longrightarrow>
                explode_dist_fp [0, 0, 0] [1, 0, 0] 0 (Suc (Suc 0))
                  < explode_dist_fp [0, 0, 0] [1, 0, 0] 0 (Suc 0))
          \<and> (\<forall>eps>M / 2 ^ 17. \<exists>N. \<forall>m\<ge>N. explode_dist_fp [0, 0, 0] [1, 0, 0] 0 m < eps)"
    using explosion_converges [of "[1, 0, 0]" "[0, 0, 0]" 0 "Suc 0", OF _ _ ne] by simp
  then have "\<bar>explode_dist_fp [0, 0, 0] [1, 0, 0] 0 (Suc 0)
             - (1 - EXPLOSION_SPEED) ^ Suc 0 * explode_dist [0, 0, 0] [1, 0, 0] 0 0\<bar> \<le> 1 / 2 ^ 17
          \<and> (10 * (1 / 2 ^ 17) < explode_dist [0, 0, 0] [1, 0, 0] 0 (Suc 0) \<longrightarrow>
                explode_dist_fp [0, 0, 0] [1, 0, 0] 0 (Suc (Suc 0))
                  < explode_dist_fp [0, 0, 0] [1, 0, 0] 0 (Suc 0))"
    using rng example_cells_bounded by blast
  then have p: "\<bar>explode_dist_fp [0, 0, 0] [1, 0, 0] 0 (Suc 0) - 0.8\<bar> \<le> 1 / 2 ^ 17"
    and q: "explode_dist_fp [0, 0, 0] [1, 0, 0] 0 (Suc (Suc 0))
              < explode_dist_fp [0, 0, 0] [1, 0, 0] 0 (Suc 0)"
    using big by (simp_all add: d0 EXPLOSION_SPEED_def)
  show ?thesis using ne d0 d1 big p q by simp
qed

subsection \<open>Return\<close>










subsection \<open>Decorations and particles\<close>

text \<open>
  Claim C9, amended. For every non-empty sequence of frames and every item, with the shared
  blend \<open>curF\<close> starting at 0. In the exact reading the position the decoration callback gives
  the item's child after the frames is the position the particle loop computes for an entity
  with the same rest and exploded positions, started at rest and run over the same factors. In
  the rounded reading, for factors 0 and 1 and coordinates bounded by \<open>M\<close>, the two positions
  are within \<open>M / 2 ^ 16\<close> of each other.
\<close>

theorem decorations_follow_particle_law:
  assumes "frames \<noteq> []"
    and "length (children st) = length items"
    and "curF st = 0"
    and "i < length items"
  shows "position (children (deco_frames items frames st) ! i)
           = entity_pos
               (particle_frames (flat (map startPos items)) (flat (map endPos items))
                  (map fst frames) (flat (map startPos items))) i
       \<and> (\<forall>M. 1 / 2 ^ 64 \<le> M \<and> M \<le> 2 ^ 64
                \<and> (\<forall>f \<in> set (map fst frames). f = 0 \<or> f = 1)
                \<and> (\<forall>j<length (flat (map startPos items)).
                      \<bar>flat (map startPos items) ! j\<bar> \<le> M \<and> \<bar>flat (map endPos items) ! j\<bar> \<le> M) \<longrightarrow>
              vec_dist (position (children (deco_frames_fp items frames st) ! i))
                (entity_pos
                   (particle_frames_fp (flat (map startPos items)) (flat (map endPos items))
                      (map fst frames) (flat (map startPos items))) i) \<le> M / 2 ^ 16)"
proof -
  let ?b = "blend_after (map fst frames) 0"
  obtain fr f time where fr: "frames = fr @ [(f, time)]"
    using assms(1) by (metis rev_exhaust surj_pair)
  have len: "length (children (deco_frames items fr st)) = length items"
    by (rule length_children_frames [OF assms(2)])
  have "position (children (deco_frames items frames st) ! i)
          = lerpVectors (startPos (items ! i)) (endPos (items ! i))
              (curF (deco_frames items frames st))"
    unfolding fr deco_frames_snoc by (rule position_useFrame [OF len assms(4)])
  also have "curF (deco_frames items frames st) = ?b"
    by (simp add: curF_frames assms(3))
  finally have exact: "position (children (deco_frames items frames st) ! i)
           = entity_pos
               (particle_frames (flat (map startPos items)) (flat (map endPos items))
                  (map fst frames) (flat (map startPos items))) i"
    unfolding particle_entity_blend [OF assms(4)] .
  have prog: "\<forall>M. 1 / 2 ^ 64 \<le> M \<and> M \<le> 2 ^ 64
                \<and> (\<forall>f \<in> set (map fst frames). f = 0 \<or> f = 1)
                \<and> (\<forall>j<length (flat (map startPos items)).
                      \<bar>flat (map startPos items) ! j\<bar> \<le> M \<and> \<bar>flat (map endPos items) ! j\<bar> \<le> M) \<longrightarrow>
              vec_dist (position (children (deco_frames_fp items frames st) ! i))
                (entity_pos
                   (particle_frames_fp (flat (map startPos items)) (flat (map endPos items))
                      (map fst frames) (flat (map startPos items))) i) \<le> M / 2 ^ 16"
  proof (intro allI impI; elim conjE)
    fix M :: real
    assume fs: "\<forall>f \<in> set (map fst frames). f = 0 \<or> f = 1"
      and M: "\<forall>j<length (flat (map startPos items)).
                \<bar>flat (map startPos items) ! j\<bar> \<le> M \<and> \<bar>flat (map endPos items) ! j\<bar> \<le> M"
    show "vec_dist (position (children (deco_frames_fp items frames st) ! i))
                (entity_pos
                   (particle_frames_fp (flat (map startPos items)) (flat (map endPos items))
                      (map fst frames) (flat (map startPos items))) i) \<le> M / 2 ^ 16"
      by (rule deco_fp_close [OF assms fs M])
  qed
  show ?thesis using exact prog by (rule conjI)
qed

lemma example_item_flat:
  "flat (map startPos [example_item]) = [0, 0, 0]"
  "flat (map endPos [example_item]) = [10, 20, 30]"
  by (simp_all add: flat_def example_item_def)

lemma example_item_bounded:
  "\<forall>j<length (flat (map startPos [example_item])).
      \<bar>flat (map startPos [example_item]) ! j\<bar> \<le> 30 \<and> \<bar>flat (map endPos [example_item]) ! j\<bar> \<le> 30"
  unfolding example_item_flat by (simp add: nth_Cons split: nat.split)

theorem decorations_follow_particle_law_witness:
  "[(1, 0), (0, 1 / 60)] \<noteq> ([] :: (real \<times> real) list)
   \<and> length (children example_deco) = length [example_item]
   \<and> curF example_deco = 0
   \<and> (0 :: nat) < length [example_item]
   \<and> position (children (deco_frames [example_item] [(1, 0), (0, 1 / 60)] example_deco) ! 0)
       = (1.76, 3.52, 5.28)
   \<and> entity_pos
        (particle_frames (flat (map startPos [example_item])) (flat (map endPos [example_item]))
           (map fst [(1, 0), (0, 1 / 60 :: real)]) (flat (map startPos [example_item]))) 0
       = (1.76, 3.52, 5.28)
   \<and> (1 :: real) / 2 ^ 64 \<le> 30 \<and> (30 :: real) \<le> 2 ^ 64
   \<and> list_all (\<lambda>f. f = 0 \<or> f = 1) (map fst [(1, 0), (0, 1 / 60 :: real)])
   \<and> list_all (\<lambda>x. \<bar>x\<bar> \<le> 30) (flat (map startPos [example_item]))
   \<and> list_all (\<lambda>x. \<bar>x\<bar> \<le> 30) (flat (map endPos [example_item]))
   \<and> vec_dist (position (children (deco_frames_fp [example_item] [(1, 0), (0, 1 / 60)] example_deco) ! 0))
       (entity_pos
          (particle_frames_fp (flat (map startPos [example_item])) (flat (map endPos [example_item]))
             (map fst [(1, 0), (0, 1 / 60 :: real)]) (flat (map startPos [example_item]))) 0)
       \<le> 30 / 2 ^ 16"
proof -
  have p: "position (children (deco_frames [example_item] [(1, 0), (0, 1 / 60)] example_deco) ! 0)
             = (1.76, 3.52, 5.28)"
    by (simp add: deco_frames_def Deco_useFrame_def Let_def example_item_def example_deco_def
        EXPLOSION_SPEED_def RETURN_SPEED_def)
  have h: "length (children example_deco) = length [example_item]" "curF example_deco = 0"
    by (simp_all add: example_deco_def)
  have fs: "\<forall>f \<in> set (map fst [(1, 0), (0, 1 / 60 :: real)]). f = 0 \<or> f = (1 :: real)" by simp
  have rng: "(1 :: real) / 2 ^ 64 \<le> 30" "(30 :: real) \<le> 2 ^ 64" by simp_all
  have b: "list_all (\<lambda>x. \<bar>x\<bar> \<le> 30) (flat (map startPos [example_item]))"
    "list_all (\<lambda>x. \<bar>x\<bar> \<le> 30) (flat (map endPos [example_item]))"
    unfolding example_item_flat by simp_all
  have l: "[(1, 0), (0, 1 / 60)] \<noteq> ([] :: (real \<times> real) list)" "(0 :: nat) < length [example_item]"
    by simp_all
  note t = decorations_follow_particle_law [OF l(1) h l(2)]
  have e: "entity_pos
               (particle_frames (flat (map startPos [example_item])) (flat (map endPos [example_item]))
                  (map fst [(1, 0), (0, 1 / 60 :: real)]) (flat (map startPos [example_item]))) 0
           = (1.76, 3.52, 5.28)"
    using t [THEN conjunct1] unfolding p by (rule sym)
  have hyp: "1 / 2 ^ 64 \<le> (30 :: real) \<and> (30 :: real) \<le> 2 ^ 64
            \<and> (\<forall>f \<in> set (map fst [(1, 0), (0, 1 / 60 :: real)]). f = 0 \<or> f = (1 :: real))
            \<and> (\<forall>j<length (flat (map startPos [example_item])).
                  \<bar>flat (map startPos [example_item]) ! j\<bar> \<le> 30
                  \<and> \<bar>flat (map endPos [example_item]) ! j\<bar> \<le> 30)"
    using rng fs example_item_bounded by (intro conjI)
  note c = mp [OF spec [where x = "30 :: real", OF t [THEN conjunct2]] hyp]
  have fs': "list_all (\<lambda>f. f = 0 \<or> f = 1) (map fst [(1, 0), (0, 1 / 60 :: real)])" by simp
  show ?thesis
    by (intro conjI) (rule p h e c b rng fs' l)+
qed

end
